(* ===== verification/Prelude.thy ===== *)
theory Prelude
  imports Main
begin

text \<open>
  Shared vocabulary of the development: the collection \<open>py_simps\<close> of evaluation rules
  for the Python built-ins the program calls, Python's decimal printing of integers
  (\<open>str(n)\<close>, \<open>%m\<close>/\<open>%d\<close> zero padding), ASCII upper-casing (\<open>str.upper\<close>), the UTF-8
  encoding of code points and code-point counting (\<open>len\<close> of a \<open>str\<close>), and the UTF-8
  byte strings of the non-ASCII literals of \<open>src/app.py\<close>.  Text is modelled as
  \<open>string\<close>, i.e. a list of bytes holding the UTF-8 encoding of the Python \<open>str\<close>.
\<close>

named_theorems py_simps "evaluation rules of the Python built-ins used by the model"

type_synonym headers = "(string \<times> string) list"

section \<open>Decimal digits\<close>

definition digit_char :: "nat \<Rightarrow> char" where
  "digit_char d = char_of (48 + d)"

declare digit_char_def [py_simps]

definition is_digit :: "char \<Rightarrow> bool" where
  "is_digit c \<longleftrightarrow> (48::nat) \<le> of_char c \<and> of_char c \<le> (57::nat)"

definition digit_val :: "char \<Rightarrow> nat" where
  "digit_val c = of_char c - 48"

text \<open>\<open>str(n)\<close> for a non-negative Python integer.\<close>

fun show_nat :: "nat \<Rightarrow> string" where
  "show_nat n =
     (if n < 10 then [digit_char n] else show_nat (n div 10) @ [digit_char (n mod 10)])"

declare show_nat.simps [simp del]

text \<open>\<open>str(i)\<close> for a Python \<open>int\<close>.\<close>

definition show_int :: "int \<Rightarrow> string" where
  "show_int i = (if i < 0 then CHR ''-'' # show_nat (nat (- i)) else show_nat (nat i))"

text \<open>Two-digit zero padding of \<open>strftime\<close>'s \<open>%m\<close>, \<open>%d\<close>, \<open>%H\<close>, \<open>%M\<close>.\<close>

definition pad2 :: "nat \<Rightarrow> string" where
  "pad2 n = (if n < 10 then CHR ''0'' # show_nat n else show_nat n)"

text \<open>Reading a run of decimal digits (Python \<open>int(s)\<close> on a digit string).\<close>

fun read_nat_acc :: "nat \<Rightarrow> string \<Rightarrow> nat" where
  "read_nat_acc a [] = a"
| "read_nat_acc a (c # cs) = read_nat_acc (10 * a + digit_val c) cs"

definition read_nat :: "string \<Rightarrow> nat" where
  "read_nat s = read_nat_acc 0 s"

section \<open>Characters and text\<close>

text \<open>
  \<open>str.upper\<close> on ASCII letters.  Python also upper-cases non-ASCII letters; the
  methods passed to \<open>make_request\<close> are ASCII literals, so only ASCII is modelled.
\<close>

definition upper_char :: "char \<Rightarrow> char" where
  "upper_char c =
     (if (97::nat) \<le> of_char c \<and> of_char c \<le> (122::nat) then char_of (of_char c - (32::nat)) else c)"

definition upper :: "string \<Rightarrow> string" where
  "upper s = map upper_char s"

text \<open>The UTF-8 encoding of a code point (surrogates are kept as three bytes).\<close>

definition utf8_encode :: "nat \<Rightarrow> string" where
  "utf8_encode cp =
     (if cp < 0x80 then [char_of cp]
      else if cp < 0x800 then [char_of (0xC0 + cp div 64), char_of (0x80 + cp mod 64)]
      else if cp < 0x10000 then
        [char_of (0xE0 + cp div 4096), char_of (0x80 + cp div 64 mod 64),
         char_of (0x80 + cp mod 64)]
      else
        [char_of (0xF0 + cp div 262144), char_of (0x80 + cp div 4096 mod 64),
         char_of (0x80 + cp div 64 mod 64), char_of (0x80 + cp mod 64)])"

text \<open>A Python \<open>str\<close> as the model holds it: the UTF-8 bytes of its code points.\<close>

definition utf8_string :: "nat list \<Rightarrow> string" where
  "utf8_string cps = concat (map utf8_encode cps)"

text \<open>Python's \<open>len\<close> of a \<open>str\<close>: the code points, i.e. the bytes that are not
  UTF-8 continuation bytes.\<close>

definition is_cont_byte :: "char \<Rightarrow> bool" where
  "is_cont_byte c \<longleftrightarrow> (0x80::nat) \<le> of_char c \<and> of_char c < (0xC0::nat)"

definition py_strlen :: "string \<Rightarrow> nat" where
  "py_strlen s = length (filter (\<lambda>c. \<not> is_cont_byte c) s)"

section \<open>The non-ASCII literals of the source\<close>

text \<open>U+274C CROSS MARK, as in \<open>"\<dots> Connection failed"\<close> (lines 96, 102, 286).\<close>

definition cross_mark :: string where
  "cross_mark = [CHR 0xE2, CHR 0x9D, CHR 0x8C]"

text \<open>U+23F1 U+FE0F STOPWATCH, line 99.\<close>

definition stopwatch :: string where
  "stopwatch = [CHR 0xE2, CHR 0x8F, CHR 0xB1, CHR 0xEF, CHR 0xB8, CHR 0x8F]"

text \<open>U+2705 WHITE HEAVY CHECK MARK, lines 198, 240, 263, 279.\<close>

definition check_mark :: string where
  "check_mark = [CHR 0xE2, CHR 0x9C, CHR 0x85]"

text \<open>U+2600 U+FE0F, U+1F319 and U+2B06 U+FE0F of the Big-Three summary, and U+00B0 DEGREE
  SIGN (lines 224--228).\<close>

definition sun_sign :: string where
  "sun_sign = [CHR 0xE2, CHR 0x98, CHR 0x80, CHR 0xEF, CHR 0xB8, CHR 0x8F]"

definition moon_sign :: string where
  "moon_sign = [CHR 0xF0, CHR 0x9F, CHR 0x8C, CHR 0x99]"

definition up_arrow :: string where
  "up_arrow = [CHR 0xE2, CHR 0xAC, CHR 0x86, CHR 0xEF, CHR 0xB8, CHR 0x8F]"

definition degree_sign :: string where
  "degree_sign = [CHR 0xC2, CHR 0xB0]"

lemmas emoji_defs [py_simps] =
  cross_mark_def stopwatch_def check_mark_def sun_sign_def moon_sign_def up_arrow_def
  degree_sign_def

section \<open>Lemmas on decimal printing\<close>

text \<open>Deciding \<open>char_of n = c\<close> on numerals, for evaluation of concrete text.\<close>

lemma char_of_eq_iff [py_simps]: "(char_of (n::nat) = c) \<longleftrightarrow> n mod 256 = of_char c"
  by (metis of_char_mod_256 char_of_char of_char_of)

lemma of_char_digit_char [simp]: "d < 10 \<Longrightarrow> of_char (digit_char d) = 48 + d"
  by (simp add: digit_char_def)

lemma digit_val_digit_char [simp]: "d < 10 \<Longrightarrow> digit_val (digit_char d) = d"
  by (simp add: digit_val_def)

lemma is_digit_digit_char [simp]: "d < 10 \<Longrightarrow> is_digit (digit_char d)"
  by (simp add: is_digit_def)

lemma show_nat_small [simp]: "n < 10 \<Longrightarrow> show_nat n = [digit_char n]"
  by (simp add: show_nat.simps)

lemma show_nat_big [py_simps]: "\<not> n < 10 \<Longrightarrow> show_nat n = show_nat (n div 10) @ [digit_char (n mod 10)]"
  by (simp add: show_nat.simps)

lemma show_nat_not_Nil [simp]: "show_nat n \<noteq> []"
  by (cases "n < 10") (simp_all add: show_nat_big)

lemma show_nat_digits: "c \<in> set (show_nat n) \<Longrightarrow> is_digit c"
proof (induction n rule: show_nat.induct)
  case (1 n)
  then show ?case
    by (cases "n < 10") (auto simp: show_nat_big)
qed

lemma read_nat_acc_append [simp]:
  "read_nat_acc a (xs @ ys) = read_nat_acc (read_nat_acc a xs) ys"
  by (induction xs arbitrary: a) simp_all

lemma read_show_nat [simp]: "read_nat (show_nat n) = n"
  unfolding read_nat_def
proof (induction n rule: show_nat.induct)
  case (1 n)
  then show ?case
    by (cases "n < 10") (simp_all add: show_nat_big)
qed

lemma show_int_nonneg [simp]: "0 \<le> i \<Longrightarrow> show_int i = show_nat (nat i)"
  by (simp add: show_int_def)

lemma hd_show_nat_digit: "is_digit (hd (show_nat n))"
  using show_nat_digits hd_in_set show_nat_not_Nil by blast

lemma show_nat_leading: "0 < n \<Longrightarrow> hd (show_nat n) \<noteq> CHR ''0''"
proof (induction n rule: show_nat.induct)
  case (1 n)
  show ?case
  proof (cases "n < 10")
    case True
    with "1.prems" have "of_char (digit_char n) \<noteq> (of_char (CHR ''0'') :: nat)" by simp
    with True show ?thesis by (metis show_nat_small list.sel(1))
  next
    case False
    then have "0 < n div 10" by simp
    with "1.IH" False have "hd (show_nat (n div 10)) \<noteq> CHR ''0''" by blast
    with False show ?thesis by (simp add: show_nat_big)
  qed
qed

lemma length_show_nat_4: "1000 \<le> n \<Longrightarrow> n < 10000 \<Longrightarrow> length (show_nat n) = 4"
  by (simp add: show_nat_big)

lemma pad2_len: "n < 100 \<Longrightarrow> length (pad2 n) = 2"
  by (cases "n < 10") (simp_all add: pad2_def show_nat_big)

lemma read_pad2: "read_nat (pad2 n) = n"
  by (simp add: pad2_def read_nat_def digit_val_def read_show_nat [unfolded read_nat_def])

lemma pad2_digits: "c \<in> set (pad2 n) \<Longrightarrow> is_digit c"
  by (auto simp: pad2_def is_digit_def dest: show_nat_digits split: if_splits)

lemma upper_GET [py_simps]: "upper ''GET'' = ''GET''" and upper_POST [py_simps]: "upper ''POST'' = ''POST''"
  by (simp_all add: upper_def upper_char_def)

end
