(* ===== verification/Json.thy ===== *)
theory Json
  imports Prelude
begin

text \<open>
  Python values that cross the HTTP boundary.  \<open>resp.json()\<close> in \<open>src/app.py\<close> returns
  the Python value of a JSON text: \<open>None\<close>, a \<open>bool\<close>, an \<open>int\<close>, a \<open>float\<close>, a
  \<open>str\<close>, a \<open>list\<close> or a \<open>dict\<close>; the datatype \<open>json\<close> has one constructor for
  each.  A \<open>dict\<close> is an association list in insertion order (Python dicts keep it), a
  \<open>float\<close> is kept as the JSON lexeme that produced it (its truthiness is decided on
  the value the lexeme denotes).  Since Python's \<open>None\<close> is
  JSON's \<open>null\<close>, \<open>JNull\<close> also stands for the \<open>None\<close> that \<open>show_response\<close>
  returns.

  The operations the program applies to such values are modelled with the exception
  they raise: truthiness (\<open>if data:\<close>), \<open>len\<close>, \<open>dict.get\<close>, subscription
  \<open>d[k]\<close>, and \<open>str()\<close> as used by f-strings (with \<open>repr\<close> for nested values).
\<close>

datatype json =
    JNull
  | JBool bool
  | JInt int
  | JFloat string
  | JStr string
  | JArr "json list"
  | JObj "(string \<times> json) list"

text \<open>The Python exceptions the model raises.\<close>

datatype py_exc = AttributeError | TypeError | KeyError | UnicodeEncodeError

section \<open>Well-formed values\<close>

text \<open>A Python \<open>dict\<close> has each key once: the type invariant of \<open>JObj\<close>.\<close>

fun wf_json :: "json \<Rightarrow> bool" where
  "wf_json (JArr xs) = list_all wf_json xs"
| "wf_json (JObj kvs) = (distinct (map fst kvs) \<and> list_all (\<lambda>(k, v). wf_json v) kvs)"
| "wf_json _ = True"

text \<open>\<open>d[k] = v\<close> on a dict: a new key is appended, an existing one keeps its place and
  takes the new value.  This is how \<open>json.loads\<close> builds a dict from an object with
  repeated keys: first position, last value.\<close>

fun dict_set :: "(string \<times> json) list \<Rightarrow> string \<Rightarrow> json \<Rightarrow> (string \<times> json) list" where
  "dict_set [] k v = []"
| "dict_set ((k', v') # kvs) k v = (if k' = k then (k', v) else (k', v')) # dict_set kvs k v"

definition dict_insert :: "(string \<times> json) list \<Rightarrow> string \<Rightarrow> json \<Rightarrow> (string \<times> json) list" where
  "dict_insert kvs k v = (if k \<in> set (map fst kvs) then dict_set kvs k v else kvs @ [(k, v)])"

section \<open>Python built-ins on values\<close>

text \<open>A float lexeme \<open>-?D.FeX\<close> denotes \<open>m * 10 ^ k\<close>, with \<open>m\<close> the integer written
  by the digits \<open>DF\<close> and \<open>k = X - |F|\<close>.\<close>

definition float_mantissa :: "string \<Rightarrow> string" where
  "float_mantissa s = takeWhile (\<lambda>c. c \<noteq> CHR ''e'' \<and> c \<noteq> CHR ''E'') s"

definition float_exponent :: "string \<Rightarrow> int" where
  "float_exponent s =
     (let x = drop 1 (dropWhile (\<lambda>c. c \<noteq> CHR ''e'' \<and> c \<noteq> CHR ''E'') s)
      in if x \<noteq> [] \<and> hd x = CHR ''-'' then - int (read_nat (tl x))
         else if x \<noteq> [] \<and> hd x = CHR ''+'' then int (read_nat (tl x))
         else int (read_nat x))"

text \<open>\<open>json.loads\<close> converts a number lexeme with a fraction or exponent by the
  correctly rounded \<open>float()\<close>: the float is \<open>0.0\<close> (false) exactly when \<open>m = 0\<close>
  or \<open>m * 10 ^ k \<le> 2 ^ -1075\<close>, half the smallest subnormal double, which rounds to even,
  i.e. to zero.  \<open>NaN\<close> and the infinities are true, as is every lexeme too large for
  a double (it becomes \<open>inf\<close>).\<close>

definition float_is_zero :: "string \<Rightarrow> bool" where
  "float_is_zero s \<longleftrightarrow>
     s \<notin> {''NaN'', ''Infinity'', ''-Infinity''} \<and>
     (let mant = float_mantissa s;
          m = read_nat (filter is_digit mant);
          k = float_exponent s - int (length (drop 1 (dropWhile (\<lambda>c. c \<noteq> CHR ''.'') mant)))
      in m = 0 \<or> (k < 0 \<and> m * 2 ^ 1075 \<le> 10 ^ nat (- k)))"

text \<open>\<open>bool(v)\<close>: \<open>None\<close>, \<open>False\<close>, zero and empty containers are false.\<close>

fun py_truthy :: "json \<Rightarrow> bool" where
  "py_truthy JNull = False"
| "py_truthy (JBool b) = b"
| "py_truthy (JInt i) = (i \<noteq> 0)"
| "py_truthy (JFloat s) = (\<not> float_is_zero s)"
| "py_truthy (JStr s) = (s \<noteq> [])"
| "py_truthy (JArr xs) = (xs \<noteq> [])"
| "py_truthy (JObj kvs) = (kvs \<noteq> [])"

text \<open>\<open>len(v)\<close>: defined on \<open>str\<close> (code points), \<open>list\<close> and \<open>dict\<close>; a
  \<open>TypeError\<close> otherwise.\<close>

fun py_len :: "json \<Rightarrow> py_exc + nat" where
  "py_len (JStr s) = Inr (py_strlen s)"
| "py_len (JArr xs) = Inr (length xs)"
| "py_len (JObj kvs) = Inr (length kvs)"
| "py_len _ = Inl TypeError"

text \<open>\<open>v.get(k, d)\<close>: only a \<open>dict\<close> has the method; any other value raises
  \<open>AttributeError\<close>.\<close>

fun dict_get :: "json \<Rightarrow> string \<Rightarrow> json \<Rightarrow> py_exc + json" where
  "dict_get (JObj kvs) k d = Inr (case map_of kvs k of Some v \<Rightarrow> v | None \<Rightarrow> d)"
| "dict_get _ k d = Inl AttributeError"

text \<open>\<open>v[k]\<close> with a string key: \<open>KeyError\<close> on a dict without it, \<open>TypeError\<close> on
  every other value (lists and strings need integer indices, scalars are not
  subscriptable).\<close>

fun dict_index :: "json \<Rightarrow> string \<Rightarrow> py_exc + json" where
  "dict_index (JObj kvs) k = (case map_of kvs k of Some v \<Rightarrow> Inr v | None \<Rightarrow> Inl KeyError)"
| "dict_index _ k = Inl TypeError"

section \<open>\<open>str\<close> and \<open>repr\<close>\<close>

fun join :: "string \<Rightarrow> string list \<Rightarrow> string" where
  "join sep [] = []"
| "join sep [x] = x"
| "join sep (x # xs) = x @ sep @ join sep xs"

definition hex_digit :: "nat \<Rightarrow> char" where
  "hex_digit d = (if d < 10 then digit_char d else char_of (87 + d))"

definition hex2 :: "nat \<Rightarrow> string" where
  "hex2 n = [hex_digit (n div 16 mod 16), hex_digit (n mod 16)]"

text \<open>
  \<open>repr\<close> of a \<open>str\<close>: single quotes unless the text has a single quote and no double
  quote; the quote and the backslash are escaped, \<open>\t \n \r\<close> by name, other ASCII
  control characters as \<open>\xNN\<close>.  Bytes of non-ASCII code points are kept (they are
  treated as printable).
\<close>

definition repr_quote :: "string \<Rightarrow> char" where
  "repr_quote s = (if CHR 0x27 \<in> set s \<and> CHR 0x22 \<notin> set s then CHR 0x22 else CHR 0x27)"

definition repr_char :: "char \<Rightarrow> char \<Rightarrow> string" where
  "repr_char q c =
     (if c = q \<or> c = CHR 0x5C then [CHR 0x5C, c]
      else if c = CHR 0x09 then [CHR 0x5C, CHR ''t'']
      else if c = CHR 0x0A then [CHR 0x5C, CHR ''n'']
      else if c = CHR 0x0D then [CHR 0x5C, CHR ''r'']
      else if of_char c < (32::nat) \<or> of_char c = (127::nat) then [CHR 0x5C, CHR ''x''] @ hex2 (of_char c)
      else [c])"

definition repr_str :: "string \<Rightarrow> string" where
  "repr_str s = (let q = repr_quote s in q # concat (map (repr_char q) s) @ [q])"

text \<open>\<open>repr\<close> of a float given by its lexeme: the special values print as Python
  prints them; other lexemes are printed as written (Python prints the shortest
  decimal that reads back to the same double, which is not modelled).\<close>

definition float_repr :: "string \<Rightarrow> string" where
  "float_repr s =
     (if s = ''NaN'' then ''nan'' else if s = ''Infinity'' then ''inf''
      else if s = ''-Infinity'' then ''-inf'' else s)"

fun py_repr :: "json \<Rightarrow> string" where
  "py_repr JNull = ''None''"
| "py_repr (JBool b) = (if b then ''True'' else ''False'')"
| "py_repr (JInt i) = show_int i"
| "py_repr (JFloat s) = float_repr s"
| "py_repr (JStr s) = repr_str s"
| "py_repr (JArr xs) = ''['' @ join '', '' (map py_repr xs) @ '']''"
| "py_repr (JObj kvs) =
     ''{'' @ join '', '' (map (\<lambda>(k, v). repr_str k @ '': '' @ py_repr v) kvs) @ ''}''"

text \<open>\<open>str(v)\<close>, which is what an f-string field \<open>{v}\<close> prints.\<close>

fun py_str :: "json \<Rightarrow> string" where
  "py_str (JStr s) = s"
| "py_str v = py_repr v"


section \<open>Lemmas on dictionaries\<close>

lemma map_fst_dict_set [simp]: "map fst (dict_set kvs k v) = map fst kvs"
  by (induction kvs k v rule: dict_set.induct) simp_all

lemma map_of_dict_set:
  "map_of (dict_set kvs k v) x = (if x = k \<and> k \<in> set (map fst kvs) then Some v else map_of kvs x)"
  by (induction kvs k v rule: dict_set.induct) (fastforce simp: image_iff)+

lemma values_dict_set:
  "list_all (\<lambda>(k, v). P v) kvs \<Longrightarrow> P v \<Longrightarrow> list_all (\<lambda>(k, v). P v) (dict_set kvs k v)"
  by (induction kvs k v rule: dict_set.induct) auto

lemma values_dict_insert:
  "list_all (\<lambda>(k, v). P v) kvs \<Longrightarrow> P v \<Longrightarrow> list_all (\<lambda>(k, v). P v) (dict_insert kvs k v)"
  by (simp add: dict_insert_def values_dict_set)

lemma map_fst_dict_insert [simp]:
  "map fst (dict_insert kvs k v) = (if k \<in> set (map fst kvs) then map fst kvs else map fst kvs @ [k])"
  by (simp add: dict_insert_def)

lemma map_of_dict_insert [simp]: "map_of (dict_insert kvs k v) = (map_of kvs)(k \<mapsto> v)"
proof (cases "k \<in> set (map fst kvs)")
  case True
  then show ?thesis by (simp add: dict_insert_def fun_eq_iff map_of_dict_set)
next
  case False
  then have "map_of kvs k = None" by (simp add: map_of_eq_None_iff)
  with False show ?thesis by (auto simp: dict_insert_def fun_eq_iff map_add_def split: option.splits)
qed

lemma distinct_dict_insert:
  "distinct (map fst kvs) \<Longrightarrow> distinct (map fst (dict_insert kvs k v))"
  by simp

lemma wf_dict_insert:
  assumes "wf_json (JObj kvs)" and "wf_json v"
  shows "wf_json (JObj (dict_insert kvs k v))"
  using assms by (simp add: values_dict_insert)

lemma dict_get_Inl: "dict_get v k d = Inl e \<Longrightarrow> e = AttributeError"
  by (cases v) simp_all

lemma py_len_Inl: "py_len v = Inl e \<Longrightarrow> e = TypeError"
  by (cases v) simp_all

lemma dict_get_JObj [simp]:
  "dict_get (JObj kvs) k d = Inr (case map_of kvs k of Some v \<Rightarrow> v | None \<Rightarrow> d)"
  by simp

section \<open>Truthiness of a float lexeme\<close>

text \<open>A decimal literal \<open>1e-n\<close> reads as \<open>0.0\<close> exactly from \<open>n = 324\<close> on: \<open>1e-324\<close> lies
  below half of the least subnormal \<open>2^-1074\<close>, \<open>1e-323\<close> above it.\<close>

lemma pow_boundary: "(2::nat) ^ 1075 \<le> 10 ^ n \<longleftrightarrow> 324 \<le> n"
proof
  assume "2 ^ 1075 \<le> (10::nat) ^ n"
  moreover have "(10::nat) ^ 323 < 2 ^ 1075" by simp
  ultimately have "(10::nat) ^ 323 < 10 ^ n" by linarith
  then show "324 \<le> n" using power_less_imp_less_exp [of "10::nat" 323 n] by simp
next
  assume "324 \<le> n"
  then have "(10::nat) ^ 324 \<le> 10 ^ n" by (rule power_increasing) simp
  moreover have "(2::nat) ^ 1075 \<le> 10 ^ 324" by simp
  ultimately show "2 ^ 1075 \<le> (10::nat) ^ n" by linarith
qed

lemma float_is_zero_exp: "float_is_zero (''1e-'' @ show_nat n) \<longleftrightarrow> 324 \<le> n"
proof -
  have "show_nat n \<noteq> []" by simp
  then have "float_exponent (''1e-'' @ show_nat n) = - int n"
    by (simp add: float_exponent_def)
  moreover have "float_mantissa (''1e-'' @ show_nat n) = ''1''"
    by (simp add: float_mantissa_def)
  ultimately show ?thesis
    using pow_boundary [of n] by (auto simp: float_is_zero_def read_nat_def digit_val_def is_digit_def)
qed

end
