(* ===== verification/Json_Decode.thy ===== *)
theory Json_Decode
  imports Json
begin

text \<open>
  \<open>requests.Response.json()\<close> decodes the body with Python's \<open>json.loads\<close>.  This
  theory models that decoder on the UTF-8 text of the body: a lexer (\<open>tokenize\<close>, which
  iterates the scanner step \<open>next_token\<close>, CPython's \<open>scan_once\<close>, with the string
  scanner \<open>scan_string\<close> and the number syntax \<open>lex_number\<close>) and a stack
  machine over the tokens (\<open>parse_tokens\<close>); \<open>loads\<close> is \<open>None\<close> exactly where
  Python raises \<open>JSONDecodeError\<close>.  Objects are built with \<open>dict_insert\<close>, so
  repeated keys keep their first position and their last value.  Proved here: the lexer
  terminates (a measure on the remaining text) and every decoded value is well formed
  (\<open>parse_tokens_wf\<close>), which the round trip of \<open>Json_Encode\<close> uses.  Not modelled: CPython's recursion limit on deeply nested
  input, and the replacement of invalid UTF-8 by requests.
\<close>

datatype token =
    TLBrace | TRBrace | TLBrack | TRBrack | TColon | TComma
  | TNull | TTrue | TFalse | TString string | TInt int | TFloat string

definition is_ws :: "char \<Rightarrow> bool" where
  "is_ws c \<longleftrightarrow> c \<in> set [CHR 0x20, CHR 0x09, CHR 0x0A, CHR 0x0D]"

definition hex_val :: "char \<Rightarrow> nat option" where
  "hex_val c =
     (let n = (of_char c :: nat) in
      if 48 \<le> n \<and> n \<le> 57 then Some (n - 48)
      else if 97 \<le> n \<and> n \<le> 102 then Some (n - 87)
      else if 65 \<le> n \<and> n \<le> 70 then Some (n - 55)
      else None)"

definition hex4 :: "char \<Rightarrow> char \<Rightarrow> char \<Rightarrow> char \<Rightarrow> nat option" where
  "hex4 a b c d =
     (case (hex_val a, hex_val b, hex_val c, hex_val d) of
        (Some w, Some x, Some y, Some z) \<Rightarrow> Some (4096 * w + 256 * x + 16 * y + z)
      | _ \<Rightarrow> None)"

definition simple_escape :: "char \<Rightarrow> char option" where
  "simple_escape e =
     (if e = CHR 0x22 then Some (CHR 0x22) else if e = CHR 0x5C then Some (CHR 0x5C)
      else if e = CHR ''/'' then Some (CHR ''/'') else if e = CHR ''b'' then Some (CHR 0x08)
      else if e = CHR ''f'' then Some (CHR 0x0C) else if e = CHR ''n'' then Some (CHR 0x0A)
      else if e = CHR ''r'' then Some (CHR 0x0D) else if e = CHR ''t'' then Some (CHR 0x09)
      else None)"

definition is_high_surrogate :: "nat \<Rightarrow> bool" where
  "is_high_surrogate u \<longleftrightarrow> 0xD800 \<le> u \<and> u \<le> 0xDBFF"

definition is_low_surrogate :: "nat \<Rightarrow> bool" where
  "is_low_surrogate u \<longleftrightarrow> 0xDC00 \<le> u \<and> u \<le> 0xDFFF"

text \<open>The escape after a backslash: a one-character escape, or \<open>\uXXXX\<close>; a high
  surrogate followed by an escaped low surrogate is combined into one code point, as
  CPython's \<open>scanstring\<close> does.  The result is the decoded bytes and the rest.\<close>

definition scan_unicode :: "string \<Rightarrow> (string \<times> string) option" where
  "scan_unicode r =
     (case r of
        a # b # c # d # r' \<Rightarrow>
          (case hex4 a b c d of
             None \<Rightarrow> None
           | Some u \<Rightarrow>
               if is_high_surrogate u then
                 (case r' of
                    x # y # a2 # b2 # c2 # d2 # r'' \<Rightarrow>
                      if x = CHR 0x5C \<and> y = CHR ''u'' then
                        (case hex4 a2 b2 c2 d2 of
                           None \<Rightarrow> None
                         | Some u2 \<Rightarrow>
                             if is_low_surrogate u2 then
                               Some (utf8_encode (0x10000 + (u - 0xD800) * 1024 + (u2 - 0xDC00)), r'')
                             else Some (utf8_encode u, r'))
                      else Some (utf8_encode u, r')
                  | _ \<Rightarrow> Some (utf8_encode u, r'))
               else Some (utf8_encode u, r'))
      | _ \<Rightarrow> None)"

definition scan_escape :: "string \<Rightarrow> (string \<times> string) option" where
  "scan_escape s =
     (case s of
        [] \<Rightarrow> None
      | e # r \<Rightarrow>
          if e = CHR ''u'' then scan_unicode r
          else (case simple_escape e of None \<Rightarrow> None | Some ch \<Rightarrow> Some ([ch], r)))"

lemma scan_unicode_shorter: "scan_unicode r = Some (d, r2) \<Longrightarrow> length r2 < length r"
  by (auto simp: scan_unicode_def split: list.splits option.splits if_splits)

lemma scan_escape_shorter: "scan_escape s = Some (d, r) \<Longrightarrow> length r < length s"
  by (auto simp: scan_escape_def split: list.splits option.splits if_splits
           dest!: scan_unicode_shorter)

text \<open>The body of a string literal after its opening quote, up to the closing quote;
  control characters are rejected (\<open>strict=True\<close>).\<close>

function scan_string :: "string \<Rightarrow> string \<Rightarrow> (string \<times> string) option" where
  "scan_string acc [] = None"
| "scan_string acc (c # cs) =
     (if c = CHR 0x22 then Some (acc, cs)
      else if c = CHR 0x5C then
        (case scan_escape cs of None \<Rightarrow> None | Some (d, r) \<Rightarrow> scan_string (acc @ d) r)
      else if of_char c < (32::nat) then None
      else scan_string (acc @ [c]) cs)"
  by pat_completeness auto
termination
  by (relation "measure (\<lambda>(acc, s). length s)") (auto dest: scan_escape_shorter)

lemma scan_string_shorter: "scan_string acc s = Some (x, r) \<Longrightarrow> length r < length s"
proof (induction acc s rule: scan_string.induct)
  case (1 acc)
  then show ?case by simp
next
  case (2 acc c cs)
  then show ?case
  proof (cases "c = CHR 0x22 \<or> c \<noteq> CHR 0x5C")
    case True
    with "2" show ?thesis by (auto split: if_splits)
  next
    case False
    with "2.prems" obtain d r' where esc: "scan_escape cs = Some (d, r')"
      and rec: "scan_string (acc @ d) r' = Some (x, r)"
      by (auto split: option.splits)
    from "2.IH"(1) False esc rec have "length r < length r'" by blast
    with scan_escape_shorter [OF esc] show ?thesis by simp
  qed
qed

text \<open>Python's number syntax \<open>-?(0|[1-9][0-9]*)(\.[0-9]+)?([eE][-+]?[0-9]+)?\<close>: the
  fraction and the exponent are taken only when a digit follows.\<close>

definition lex_frac :: "string \<Rightarrow> string \<times> string" where
  "lex_frac s =
     (case s of
        c # d # r \<Rightarrow>
          if c = CHR ''.'' \<and> is_digit d then (c # d # takeWhile is_digit r, dropWhile is_digit r)
          else ([], s)
      | _ \<Rightarrow> ([], s))"

definition lex_exp :: "string \<Rightarrow> string \<times> string" where
  "lex_exp s =
     (case s of
        e # r \<Rightarrow>
          if e = CHR ''e'' \<or> e = CHR ''E'' then
            (let (sg, r2) = (case r of
                               x # r' \<Rightarrow> if x = CHR ''+'' \<or> x = CHR ''-'' then ([x], r') else ([], r)
                             | [] \<Rightarrow> ([], r))
             in case r2 of
                  d # r3 \<Rightarrow>
                    if is_digit d then (e # sg @ d # takeWhile is_digit r3, dropWhile is_digit r3)
                    else ([], s)
                | [] \<Rightarrow> ([], s))
          else ([], s)
      | [] \<Rightarrow> ([], s))"

definition lex_number :: "string \<Rightarrow> (token \<times> string) option" where
  "lex_number s =
     (let (neg, s1) = (case s of c # r \<Rightarrow> if c = CHR ''-'' then (True, r) else (False, s) | [] \<Rightarrow> (False, s))
      in case s1 of
           [] \<Rightarrow> None
         | c # r \<Rightarrow>
             if is_digit c then
               (let (ip, r1) = (if c = CHR ''0'' then ([c], r)
                                else (c # takeWhile is_digit r, dropWhile is_digit r));
                    (fp, r2) = lex_frac r1;
                    (ep, r3) = lex_exp r2
                in if fp = [] \<and> ep = [] then
                     Some (TInt (if neg then - int (read_nat ip) else int (read_nat ip)), r3)
                   else Some (TFloat ((if neg then ''-'' else []) @ ip @ fp @ ep), r3))
             else None)"

lemma lex_frac_le: "lex_frac s = (f, r) \<Longrightarrow> length r \<le> length s"
  by (auto simp: lex_frac_def split: list.splits if_splits
           intro: le_SucI order.trans [OF length_dropWhile_le])

lemma lex_exp_le: "lex_exp s = (f, r) \<Longrightarrow> length r \<le> length s"
  by (auto simp: lex_exp_def Let_def split: list.splits if_splits prod.splits
           intro: le_SucI order.trans [OF length_dropWhile_le])

lemma lex_number_shorter: "lex_number s = Some (t, r) \<Longrightarrow> length r < length s"
proof -
  assume a: "lex_number s = Some (t, r)"
  obtain neg s1 where s1: "(case s of c # r \<Rightarrow> if c = CHR ''-'' then (True, r) else (False, s) | [] \<Rightarrow> (False, s)) = (neg, s1)"
    by fastforce
  have s1_le: "length s1 \<le> length s" using s1 by (auto split: list.splits if_splits)
  from a s1 obtain c r0 where s1c: "s1 = c # r0" by (auto simp: lex_number_def split: list.splits)
  obtain ip r1 where ip: "(if c = CHR ''0'' then ([c], r0) else (c # takeWhile is_digit r0, dropWhile is_digit r0)) = (ip, r1)"
    by fastforce
  have "length r1 \<le> length r0" using ip by (auto split: if_splits intro: order.trans [OF length_dropWhile_le])
  moreover obtain fp r2 where fp: "lex_frac r1 = (fp, r2)" by fastforce
  moreover obtain ep r3 where ep: "lex_exp r2 = (ep, r3)" by fastforce
  moreover have "r = r3" using a s1 s1c ip fp ep by (auto simp: lex_number_def split: if_splits)
  ultimately show ?thesis using s1_le s1c lex_frac_le [OF fp] lex_exp_le [OF ep] by simp
qed

section \<open>Tokens\<close>

text \<open>
  \<open>tokenize\<close> splits the text into tokens, skipping JSON whitespace between them.  The
  literals are recognised where CPython's scanner recognises them: \<open>null\<close>,
  \<open>true\<close>, \<open>false\<close>, \<open>NaN\<close>, \<open>Infinity\<close>, a number, and
  \<open>-Infinity\<close> only where no number starts.
\<close>

definition tok :: "token \<Rightarrow> token list option \<Rightarrow> token list option" where
  "tok t r = map_option (Cons t) r"

text \<open>One step of the scanner (\<open>scan_once\<close>): the token that starts at \<open>c\<close>
  (\<open>None\<close> for whitespace) and the text after it, or \<open>None\<close> where the text is not
  JSON.  A letter that starts none of the literals it announces is an error, as no other
  token starts with it.\<close>

definition next_token :: "char \<Rightarrow> string \<Rightarrow> (token option \<times> string) option" where
  "next_token c cs =
     (if is_ws c then Some (None, cs)
      else if c = CHR ''{'' then Some (Some TLBrace, cs)
      else if c = CHR ''}'' then Some (Some TRBrace, cs)
      else if c = CHR ''['' then Some (Some TLBrack, cs)
      else if c = CHR '']'' then Some (Some TRBrack, cs)
      else if c = CHR '':'' then Some (Some TColon, cs)
      else if c = CHR '','' then Some (Some TComma, cs)
      else if c = CHR 0x22 then map_option (\<lambda>(str, r). (Some (TString str), r)) (scan_string [] cs)
      else if c = CHR ''n'' then (if take 3 cs = ''ull'' then Some (Some TNull, drop 3 cs) else None)
      else if c = CHR ''t'' then (if take 3 cs = ''rue'' then Some (Some TTrue, drop 3 cs) else None)
      else if c = CHR ''f'' then (if take 4 cs = ''alse'' then Some (Some TFalse, drop 4 cs) else None)
      else if c = CHR ''N'' then (if take 2 cs = ''aN'' then Some (Some (TFloat ''NaN''), drop 2 cs) else None)
      else if c = CHR ''I'' then
        (if take 7 cs = ''nfinity'' then Some (Some (TFloat ''Infinity''), drop 7 cs) else None)
      else if c = CHR ''-'' \<or> is_digit c then
        (case lex_number (c # cs) of
           Some (t, r) \<Rightarrow> Some (Some t, r)
         | None \<Rightarrow>
             if c = CHR ''-'' \<and> take 8 cs = ''Infinity'' then Some (Some (TFloat ''-Infinity''), drop 8 cs)
             else None)
      else None)"

lemma next_token_shorter:
  assumes "next_token c cs = Some (t, r)"
  shows "length r < length (c # cs)"
proof -
  have d: "length (drop n cs) < Suc (length cs)" for n by simp
  have s: "length r' < Suc (length cs)" if "scan_string [] cs = Some (x, r')" for x r'
    using scan_string_shorter [OF that] by simp
  have l: "length r' < Suc (length cs)" if "lex_number (c' # cs) = Some (x, r')" for c' x r'
    using lex_number_shorter [OF that] by simp
  from assms show ?thesis unfolding next_token_def
    by (simp split: if_split_asm option.split_asm prod.split_asm) (metis d s l)+
qed

function tokenize :: "string \<Rightarrow> token list option" where
  "tokenize [] = Some []"
| "tokenize (c # cs) =
     (case next_token c cs of
        None \<Rightarrow> None
      | Some (None, r) \<Rightarrow> tokenize r
      | Some (Some t, r) \<Rightarrow> tok t (tokenize r))"
  by pat_completeness auto
termination
  by (relation "measure length") (auto dest: next_token_shorter)

declare tokenize.simps(2) [simp del]

text \<open>The scanner on each kind of token.\<close>

lemma tokenize_ws: "is_ws c \<Longrightarrow> tokenize (c # r) = tokenize r"
  by (simp add: tokenize.simps next_token_def)

lemma tokenize_ws_chars [simp]:
  "tokenize (CHR '' '' # r) = tokenize r" "tokenize (CHR 0x09 # r) = tokenize r"
  "tokenize (CHR 0x0A # r) = tokenize r" "tokenize (CHR 0x0D # r) = tokenize r"
  by (simp_all add: tokenize_ws is_ws_def)

lemma tokenize_punct [simp]:
  "tokenize (CHR ''{'' # r) = tok TLBrace (tokenize r)" "tokenize (CHR ''}'' # r) = tok TRBrace (tokenize r)"
  "tokenize (CHR ''['' # r) = tok TLBrack (tokenize r)" "tokenize (CHR '']'' # r) = tok TRBrack (tokenize r)"
  "tokenize (CHR '':'' # r) = tok TColon (tokenize r)" "tokenize (CHR '','' # r) = tok TComma (tokenize r)"
  by (simp_all add: tokenize.simps next_token_def is_ws_def)

lemma tokenize_str:
  "tokenize (CHR 0x22 # cs) = (case scan_string [] cs of None \<Rightarrow> None | Some (str, r) \<Rightarrow> tok (TString str) (tokenize r))"
  by (simp add: tokenize.simps next_token_def is_ws_def split: option.split)

lemma tokenize_literals [simp]:
  "tokenize (CHR ''n'' # CHR ''u'' # CHR ''l'' # CHR ''l'' # r) = tok TNull (tokenize r)"
  "tokenize (CHR ''t'' # CHR ''r'' # CHR ''u'' # CHR ''e'' # r) = tok TTrue (tokenize r)"
  "tokenize (CHR ''f'' # CHR ''a'' # CHR ''l'' # CHR ''s'' # CHR ''e'' # r) = tok TFalse (tokenize r)"
  "tokenize (CHR ''N'' # CHR ''a'' # CHR ''N'' # r) = tok (TFloat ''NaN'') (tokenize r)"
  "tokenize (CHR ''I'' # CHR ''n'' # CHR ''f'' # CHR ''i'' # CHR ''n'' # CHR ''i'' # CHR ''t'' # CHR ''y'' # r) = tok (TFloat ''Infinity'') (tokenize r)"
  by (simp_all add: tokenize.simps next_token_def is_ws_def)

lemma tokenize_number:
  assumes "c = CHR ''-'' \<or> is_digit c" and "lex_number (c # cs) = Some (t, r)"
  shows "tokenize (c # cs) = tok t (tokenize r)"
proof -
  from assms(1) have "\<not> is_ws c \<and> c \<notin> set ''{}[]:,nftNI'' \<and> c \<noteq> CHR 0x22"
    by (auto simp: is_ws_def is_digit_def)
  with assms show ?thesis by (auto simp: tokenize.simps next_token_def)
qed

lemma tokenize_neg_infinity [simp]: "tokenize (CHR ''-'' # CHR ''I'' # CHR ''n'' # CHR ''f'' # CHR ''i'' # CHR ''n'' # CHR ''i'' # CHR ''t'' # CHR ''y'' # r) = tok (TFloat ''-Infinity'') (tokenize r)"
proof -
  have "lex_number (CHR ''-'' # CHR ''I'' # CHR ''n'' # CHR ''f'' # CHR ''i'' # CHR ''n'' # CHR ''i'' # CHR ''t'' # CHR ''y'' # r) = None" by (simp add: lex_number_def is_digit_def)
  then show ?thesis by (simp add: tokenize.simps next_token_def is_ws_def)
qed

section \<open>Parsing the token stream\<close>

text \<open>
  A stack machine over the tokens.  A frame is an open array (its elements so far, last
  first) or an open object (its members so far and the key whose value comes next); the
  mode says what the next token may be.  A finished value is attached to the innermost
  frame, or is the result when no frame is open.  Objects are built with
  \<open>dict_insert\<close>, as \<open>json.loads\<close> builds a \<open>dict\<close>.
\<close>

datatype frame = FArr "json list" | FObj "(string \<times> json) list" string

datatype pmode = PValue | PValueOrClose | PKey | PKeyOrClose | PColon | PAfter | PDone json

fun attach :: "json \<Rightarrow> frame list \<Rightarrow> frame list \<times> pmode" where
  "attach v [] = ([], PDone v)"
| "attach v (FArr xs # st) = (FArr (v # xs) # st, PAfter)"
| "attach v (FObj kvs k # st) = (FObj (dict_insert kvs k v) k # st, PAfter)"

fun scalar_of :: "token \<Rightarrow> json option" where
  "scalar_of TNull = Some JNull"
| "scalar_of TTrue = Some (JBool True)"
| "scalar_of TFalse = Some (JBool False)"
| "scalar_of (TString s) = Some (JStr s)"
| "scalar_of (TInt i) = Some (JInt i)"
| "scalar_of (TFloat s) = Some (JFloat s)"
| "scalar_of _ = None"

fun close_arr :: "frame list \<Rightarrow> (frame list \<times> pmode) option" where
  "close_arr (FArr xs # st) = Some (attach (JArr (rev xs)) st)"
| "close_arr _ = None"

fun close_obj :: "frame list \<Rightarrow> (frame list \<times> pmode) option" where
  "close_obj (FObj kvs k # st) = Some (attach (JObj kvs) st)"
| "close_obj _ = None"

fun value_step :: "frame list \<Rightarrow> token \<Rightarrow> (frame list \<times> pmode) option" where
  "value_step st TLBrack = Some (FArr [] # st, PValueOrClose)"
| "value_step st TLBrace = Some (FObj [] [] # st, PKeyOrClose)"
| "value_step st t = map_option (\<lambda>v. attach v st) (scalar_of t)"

fun key_step :: "frame list \<Rightarrow> token \<Rightarrow> (frame list \<times> pmode) option" where
  "key_step (FObj kvs k # st) (TString k') = Some (FObj kvs k' # st, PColon)"
| "key_step _ _ = None"

fun after_step :: "frame list \<Rightarrow> token \<Rightarrow> (frame list \<times> pmode) option" where
  "after_step (FArr xs # st) TComma = Some (FArr xs # st, PValue)"
| "after_step (FObj kvs k # st) TComma = Some (FObj kvs k # st, PKey)"
| "after_step st TRBrack = close_arr st"
| "after_step st TRBrace = close_obj st"
| "after_step _ _ = None"

fun step :: "frame list \<Rightarrow> pmode \<Rightarrow> token \<Rightarrow> (frame list \<times> pmode) option" where
  "step st PValue t = value_step st t"
| "step st PValueOrClose t = (if t = TRBrack then close_arr st else value_step st t)"
| "step st PKey t = key_step st t"
| "step st PKeyOrClose t = (if t = TRBrace then close_obj st else key_step st t)"
| "step st PColon t = (if t = TColon then Some (st, PValue) else None)"
| "step st PAfter t = after_step st t"
| "step st (PDone v) t = None"

fun parse_tokens :: "frame list \<Rightarrow> pmode \<Rightarrow> token list \<Rightarrow> json option" where
  "parse_tokens [] (PDone v) [] = Some v"
| "parse_tokens st m [] = None"
| "parse_tokens st m (t # ts) =
     (case step st m t of None \<Rightarrow> None | Some (st', m') \<Rightarrow> parse_tokens st' m' ts)"


section \<open>Decoded values are well formed\<close>

fun wf_frame :: "frame \<Rightarrow> bool" where
  "wf_frame (FArr xs) = list_all wf_json xs"
| "wf_frame (FObj kvs k) = wf_json (JObj kvs)"

fun wf_pstate :: "frame list \<Rightarrow> pmode \<Rightarrow> bool" where
  "wf_pstate st (PDone v) = (st = [] \<and> wf_json v)"
| "wf_pstate st m = list_all wf_frame st"

lemma attach_wf:
  "attach v st = (st', m') \<Longrightarrow> wf_json v \<Longrightarrow> list_all wf_frame st \<Longrightarrow> wf_pstate st' m'"
  by (induction v st rule: attach.induct) (auto simp: wf_dict_insert simp del: wf_json.simps(2))

lemma close_arr_wf:
  assumes "list_all wf_frame st" and "close_arr st = Some (st', m')"
  shows "wf_pstate st' m'"
proof -
  from assms(2) obtain xs st0 where st: "st = FArr xs # st0"
    and eq: "attach (JArr (rev xs)) st0 = (st', m')"
    by (cases st rule: close_arr.cases) auto
  from assms(1) st have "wf_json (JArr (rev xs))" "list_all wf_frame st0"
    by (simp_all add: list_all_iff)
  with eq show ?thesis by (blast intro: attach_wf)
qed

lemma close_obj_wf:
  assumes "list_all wf_frame st" and "close_obj st = Some (st', m')"
  shows "wf_pstate st' m'"
proof -
  from assms(2) obtain kvs k st0 where st: "st = FObj kvs k # st0"
    and eq: "attach (JObj kvs) st0 = (st', m')"
    by (cases st rule: close_obj.cases) auto
  from assms(1) st have "wf_json (JObj kvs)" "list_all wf_frame st0"
    by simp_all
  with eq show ?thesis by (blast intro: attach_wf)
qed

lemma scalar_of_wf: "scalar_of t = Some v \<Longrightarrow> wf_json v"
  by (cases t) auto

lemma value_step_wf:
  assumes "list_all wf_frame st" and "value_step st t = Some (st', m')"
  shows "wf_pstate st' m'"
proof (cases "t = TLBrack \<or> t = TLBrace")
  case True
  with assms show ?thesis by auto
next
  case False
  with assms(2) obtain v where "scalar_of t = Some v" "attach v st = (st', m')"
    by (cases t) auto
  with assms(1) show ?thesis by (blast intro: attach_wf scalar_of_wf)
qed

lemma key_step_wf:
  "list_all wf_frame st \<Longrightarrow> key_step st t = Some (st', m') \<Longrightarrow> wf_pstate st' m'"
  by (cases "(st, t)" rule: key_step.cases) auto

lemma after_step_wf:
  "list_all wf_frame st \<Longrightarrow> after_step st t = Some (st', m') \<Longrightarrow> wf_pstate st' m'"
  by (cases "(st, t)" rule: after_step.cases) (auto intro: close_arr_wf close_obj_wf)

lemma step_wf:
  assumes "wf_pstate st m" and "step st m t = Some (st', m')"
  shows "wf_pstate st' m'"
  using assms
  by (cases m) (auto split: if_splits intro: value_step_wf key_step_wf after_step_wf
                  close_arr_wf close_obj_wf)

lemma parse_tokens_wf: "wf_pstate st m \<Longrightarrow> parse_tokens st m ts = Some v \<Longrightarrow> wf_json v"
proof (induction st m ts rule: parse_tokens.induct)
  case (3 st m t ts)
  then show ?case by (auto split: option.splits dest: step_wf)
qed auto

text \<open>\<open>json.loads\<close> as called by \<open>requests.Response.json()\<close>: \<open>None\<close> where Python
  raises \<open>JSONDecodeError\<close>.\<close>

definition loads :: "string \<Rightarrow> json option" where
  "loads s = (case tokenize s of None \<Rightarrow> None | Some ts \<Rightarrow> parse_tokens [] PValue ts)"

lemmas decode_simps [py_simps] =
  is_ws_def hex_val_def hex4_def simple_escape_def is_high_surrogate_def is_low_surrogate_def
  scan_unicode_def scan_escape_def lex_frac_def lex_exp_def lex_number_def tok_def next_token_def tokenize.simps loads_def
  is_digit_def read_nat_def digit_val_def dict_insert_def

end
