(* ===== verification/Requests.thy ===== *)
theory Requests
  imports Json_Decode
begin

text \<open>
  The surface of the \<open>requests\<close> library that \<open>src/app.py\<close> uses.  A call
  \<open>requests.get/post/put/delete(url, headers=\<dots>, json=\<dots>, timeout=\<dots>)\<close> is a
  \<open>request\<close> value; the outside world (the backend, the network) is a function
  \<open>network\<close> from the request to its outcome: a \<open>response\<close> (status code and body
  text) or a raised exception of the \<open>requests.exceptions\<close> hierarchy.  Nothing is assumed
  of the network: every lemma quantifies over it.

  \<open>Response.__bool__\<close> is \<open>Response.ok\<close>, which is false exactly when
  \<open>raise_for_status\<close> raises, i.e. for \<open>400 \<le> status < 600\<close>; \<open>Response.json()\<close> is
  \<open>loads\<close> of the body text.
\<close>

datatype http_method = GET | POST | PUT | DELETE

record request =
  req_method :: http_method
  req_url :: string
  req_headers :: headers
  req_json :: "json option"
  req_timeout :: nat

record response =
  status_code :: int
  resp_text :: string

text \<open>The exception classes a call can raise, with the base classes they have in
  \<open>requests.exceptions\<close>: \<open>ConnectTimeout\<close> is both a \<open>ConnectionError\<close> and a
  \<open>Timeout\<close>; every class is a \<open>RequestException\<close>.\<close>

datatype exc_class =
    ConnectionError | ConnectTimeout | ReadTimeout | ProxyError | SSLError
  | InvalidURL | MissingSchema | InvalidSchema | InvalidHeader | TooManyRedirects
  | ChunkedEncodingError | ContentDecodingError | OtherRequestException

text \<open>A raised exception: its class and \<open>str(e)\<close>.\<close>

datatype req_exc = ReqExc exc_class string

datatype net_result = Responded response | Raised req_exc

type_synonym network = "request \<Rightarrow> net_result"

fun is_connection_error :: "exc_class \<Rightarrow> bool" where
  "is_connection_error ConnectionError = True"
| "is_connection_error ConnectTimeout = True"
| "is_connection_error ProxyError = True"
| "is_connection_error SSLError = True"
| "is_connection_error _ = False"

fun is_timeout :: "exc_class \<Rightarrow> bool" where
  "is_timeout ConnectTimeout = True"
| "is_timeout ReadTimeout = True"
| "is_timeout _ = False"

text \<open>\<open>bool(resp)\<close>, i.e. \<open>resp.ok\<close>.\<close>

definition resp_ok :: "response \<Rightarrow> bool" where
  "resp_ok r \<longleftrightarrow> status_code r < 400 \<or> 600 \<le> status_code r"

text \<open>\<open>resp.json()\<close>: \<open>None\<close> where it raises.\<close>

definition resp_json :: "response \<Rightarrow> json option" where
  "resp_json r = loads (resp_text r)"

text \<open>\<open>if resp:\<close> on the \<open>Optional[Response]\<close> that \<open>make_request\<close> returns.\<close>

fun resp_truthy :: "response option \<Rightarrow> bool" where
  "resp_truthy None = False"
| "resp_truthy (Some r) = resp_ok r"

lemma resp_ok_iff [simp]: "resp_ok r \<longleftrightarrow> \<not> (400 \<le> status_code r \<and> status_code r < 600)"
  by (auto simp: resp_ok_def)

end
