(* ===== verification/Streamlit.thy ===== *)
theory Streamlit
  imports Requests
begin

text \<open>
  The effects of one run of the Streamlit script.  Streamlit reruns \<open>src/app.py\<close> from the
  top on every interaction; the state of a run is what the run has rendered so far, in
  the main area and in the sidebar, and the calls it has made through \<open>requests\<close>.  Each
  \<open>st.success\<close>, \<open>st.error\<close>, \<open>st.info\<close>, \<open>st.json\<close>, \<open>st.text_area\<close>,
  \<open>st.write\<close> and \<open>st.markdown\<close> call of the handlers appends one element; the static
  layout (title, headers, input widgets, captions) is the theory \<open>Layout\<close>.  A
  \<open>with st.spinner(msg):\<close> block shows \<open>msg\<close> while its body runs and removes it when
  the body ends; the state holds the spinner showing now and, for every request made, the
  spinner that was showing while it was sent.
\<close>

datatype elem =
    Success string
  | Error string
  | Info string
  | JsonView json
  | TextArea string string
  | Write string
  | Markdown string

record st =
  main_out :: "elem list"
  side_out :: "elem list"
  calls :: "request list"
  spinner :: "string option"
  call_spinners :: "string option list"

definition st_empty :: st where
  "st_empty = \<lparr>main_out = [], side_out = [], calls = [], spinner = None, call_spinners = []\<rparr>"

definition emit :: "elem \<Rightarrow> st \<Rightarrow> st" where
  "emit e s = s\<lparr>main_out := main_out s @ [e]\<rparr>"

definition emit_side :: "elem \<Rightarrow> st \<Rightarrow> st" where
  "emit_side e s = s\<lparr>side_out := side_out s @ [e]\<rparr>"

definition record_call :: "request \<Rightarrow> st \<Rightarrow> st" where
  "record_call rq s = s\<lparr>calls := calls s @ [rq], call_spinners := call_spinners s @ [spinner s]\<rparr>"

text \<open>\<open>with st.spinner(msg): body\<close>: the body runs with \<open>msg\<close> showing, and the
  spinner of the enclosing code is back when it ends, normally or by an exception
  (\<open>__exit__\<close> runs in both cases).\<close>

definition with_spinner :: "string \<Rightarrow> (st \<Rightarrow> 'a \<times> st) \<Rightarrow> st \<Rightarrow> 'a \<times> st" where
  "with_spinner msg body s =
     (let (r, s') = body (s\<lparr>spinner := Some msg\<rparr>) in (r, s'\<lparr>spinner := spinner s\<rparr>))"

text \<open>Two statements in sequence: an uncaught exception of the first ends the run, as a
  Python exception ends the script (the elements rendered before it stay on the page).\<close>

fun seq_run :: "(py_exc + unit) \<times> st \<Rightarrow> (st \<Rightarrow> (py_exc + unit) \<times> st) \<Rightarrow> (py_exc + unit) \<times> st" where
  "seq_run (Inl e, s) f = (Inl e, s)"
| "seq_run (Inr u, s) f = f s"

lemma seq_run_Inl: "fst (seq_run r f) = Inl e \<Longrightarrow> fst r = Inl e \<or> fst (f (snd r)) = Inl e"
proof -
  obtain x s where r: "r = (x, s)" by fastforce
  assume "fst (seq_run r f) = Inl e"
  with r show ?thesis by (cases x) auto
qed

lemma calls_emit [simp]: "calls (emit e s) = calls s"
  and calls_emit_side [simp]: "calls (emit_side e s) = calls s"
  and calls_record_call [simp]: "calls (record_call rq s) = calls s @ [rq]"
  by (simp_all add: emit_def emit_side_def record_call_def)

lemma main_out_emit [simp]: "main_out (emit e s) = main_out s @ [e]"
  and main_out_emit_side [simp]: "main_out (emit_side e s) = main_out s"
  and main_out_record_call [simp]: "main_out (record_call rq s) = main_out s"
  by (simp_all add: emit_def emit_side_def record_call_def)

lemma side_out_emit [simp]: "side_out (emit e s) = side_out s"
  and side_out_emit_side [simp]: "side_out (emit_side e s) = side_out s @ [e]"
  and side_out_record_call [simp]: "side_out (record_call rq s) = side_out s"
  by (simp_all add: emit_def emit_side_def record_call_def)

lemma spinner_emit [simp]: "spinner (emit e s) = spinner s"
  and spinner_emit_side [simp]: "spinner (emit_side e s) = spinner s"
  and spinner_record_call [simp]: "spinner (record_call rq s) = spinner s"
  and call_spinners_emit [simp]: "call_spinners (emit e s) = call_spinners s"
  and call_spinners_emit_side [simp]: "call_spinners (emit_side e s) = call_spinners s"
  and call_spinners_record_call [simp]: "call_spinners (record_call rq s) = call_spinners s @ [spinner s]"
  by (simp_all add: emit_def emit_side_def record_call_def)

lemma with_spinner_simps [simp]:
  "fst (with_spinner m f s) = fst (f (s\<lparr>spinner := Some m\<rparr>))"
  "main_out (snd (with_spinner m f s)) = main_out (snd (f (s\<lparr>spinner := Some m\<rparr>)))"
  "side_out (snd (with_spinner m f s)) = side_out (snd (f (s\<lparr>spinner := Some m\<rparr>)))"
  "calls (snd (with_spinner m f s)) = calls (snd (f (s\<lparr>spinner := Some m\<rparr>)))"
  "call_spinners (snd (with_spinner m f s)) = call_spinners (snd (f (s\<lparr>spinner := Some m\<rparr>)))"
  by (simp_all add: with_spinner_def split: prod.split)

lemma spinner_with_spinner [simp]: "spinner (snd (with_spinner m f s)) = spinner s"
  by (simp add: with_spinner_def split: prod.split)

lemma st_empty_simps [simp]:
  "main_out st_empty = []" "side_out st_empty = []" "calls st_empty = []"
  "spinner st_empty = None" "call_spinners st_empty = []"
  by (simp_all add: st_empty_def)

end
