(* ===== verification/Adapter.thy ===== *)
theory Adapter
  imports Streamlit
begin

text \<open>
  The helper layer of \<open>src/app.py\<close> (lines 25--103): the configuration read from the
  sidebar (\<open>BASE_URL\<close>, \<open>token_input\<close>), \<open>get_headers\<close>, \<open>show_response\<close> and
  \<open>make_request\<close>.  Each helper is a function of the configuration, the network and the
  run state \<open>st\<close>, returning its Python result and the new state.  The lemmas give the
  behaviour of each helper on every branch: the headers with and without a token, the
  one call \<open>make_request\<close> makes for a supported method and none otherwise, the message
  of each exception class, and the three branches of \<open>show_response\<close>.  A call whose
  headers \<open>http.client\<close> cannot encode in Latin-1 ends with an uncaught
  \<open>UnicodeEncodeError\<close>, which \<open>make_request\<close> returns as \<open>Inl\<close>.
\<close>

section \<open>Configuration (lines 28--38)\<close>

record config =
  base_url :: string
  token_input :: string

definition default_base_url :: string where
  "default_base_url = ''http://localhost:8010''"

text \<open>The sidebar's initial values: \<open>os.getenv("API_BASE_URL", default)\<close> and an empty
  token field.\<close>

definition initial_config :: "string option \<Rightarrow> config" where
  "initial_config env =
     \<lparr>base_url = (case env of Some u \<Rightarrow> u | None \<Rightarrow> default_base_url), token_input = []\<rparr>"

section \<open>\<open>get_headers\<close> (lines 50--58)\<close>

definition get_headers :: "config \<Rightarrow> bool \<Rightarrow> headers" where
  "get_headers cfg require_auth =
     [(''Accept'', ''application/json''), (''Content-Type'', ''application/json'')] @
     (if require_auth \<and> token_input cfg \<noteq> [] then [(''Authorization'', ''Bearer '' @ token_input cfg)]
      else [])"

section \<open>\<open>show_response\<close> (lines 60--78)\<close>

definition error_line :: "response \<Rightarrow> string \<Rightarrow> string" where
  "error_line r what = ''Error '' @ show_int (status_code r) @ '': '' @ what"

text \<open>The Python result is the decoded body on the success branch and \<open>None\<close>
  (\<open>JNull\<close>) otherwise.\<close>

definition show_response :: "response \<Rightarrow> string option \<Rightarrow> st \<Rightarrow> json \<times> st" where
  "show_response r success_message s =
     (if status_code r < 400 then
        (let s1 = (case success_message of
                     Some m \<Rightarrow> if m \<noteq> [] then emit (Success m) s else s
                   | None \<Rightarrow> s)
         in case resp_json r of
              Some d \<Rightarrow> (d, emit (JsonView d) s1)
            | None \<Rightarrow> (JNull, emit (TextArea ''Raw response (text)'' (resp_text r)) s1))
      else
        (case resp_json r of
           Some ed \<Rightarrow>
             (case dict_get ed ''detail'' (JStr ''Unknown error'') of
                Inr d \<Rightarrow> (JNull, emit (Error (error_line r (py_str d))) s)
              | Inl _ \<Rightarrow> (JNull, emit (Error (error_line r (resp_text r))) s))
         | None \<Rightarrow> (JNull, emit (Error (error_line r (resp_text r))) s)))"

section \<open>\<open>make_request\<close> (lines 80--103)\<close>

text \<open>The \<open>if/elif\<close> chain on \<open>method.upper()\<close>.\<close>

definition method_of :: "string \<Rightarrow> http_method option" where
  "method_of m =
     (if upper m = ''GET'' then Some GET
      else if upper m = ''POST'' then Some POST
      else if upper m = ''PUT'' then Some PUT
      else if upper m = ''DELETE'' then Some DELETE
      else None)"

text \<open>The message of each \<open>except\<close> clause, tried in the source's order:
  \<open>ConnectionError\<close>, then \<open>Timeout\<close>, then \<open>RequestException\<close>.\<close>

definition request_failure :: "config \<Rightarrow> req_exc \<Rightarrow> string" where
  "request_failure cfg e =
     (case e of
        ReqExc c msg \<Rightarrow>
          if is_connection_error c then
            cross_mark @ '' Connection failed. Is the backend running at '' @ base_url cfg @ ''?''
          else if is_timeout c then stopwatch @ '' Request timed out''
          else cross_mark @ '' Request failed: '' @ msg)"

text \<open>\<open>http.client\<close> encodes every header value in Latin-1 when it writes the
  request (\<open>HTTPConnection.putheader\<close>); a value with a character above U+00FF raises
  \<open>UnicodeEncodeError\<close>, which is not a \<open>requests\<close> exception and which neither
  \<open>requests\<close> nor \<open>urllib3\<close> catches.  In the UTF-8 bytes the model holds, such a
  character is the one whose first byte is \<open>0xC4\<close> or more.\<close>

definition latin1 :: "string \<Rightarrow> bool" where
  "latin1 s = list_all (\<lambda>c. is_cont_byte c \<or> of_char c < (0xC4::nat)) s"

definition headers_latin1 :: "headers \<Rightarrow> bool" where
  "headers_latin1 hs = list_all (\<lambda>(k, v). latin1 v) hs"

text \<open>\<open>requests\<close> strips leading whitespace from the URL and reads its scheme without
  regard to case.\<close>

definition is_https :: "string \<Rightarrow> bool" where
  "is_https url =
     (upper (take 8 (dropWhile (\<lambda>c. of_char c \<in> {9..13::nat} \<or> of_char c \<in> {28..32::nat}) url)) = ''HTTPS://'')"

text \<open>The failures that happen before the headers are written: \<open>requests\<close> prepares
  the URL and the headers and picks a transport adapter first (\<open>InvalidURL\<close>,
  \<open>MissingSchema\<close>, \<open>InvalidHeader\<close>, \<open>InvalidSchema\<close>), and for an \<open>https\<close>
  URL \<open>urllib3\<close> opens the TLS connection before it writes the request (the
  connection failures).  Every other failure comes after the request is written.\<close>

fun raised_before_headers :: "bool \<Rightarrow> exc_class \<Rightarrow> bool" where
  "raised_before_headers https InvalidURL = True"
| "raised_before_headers https MissingSchema = True"
| "raised_before_headers https InvalidSchema = True"
| "raised_before_headers https InvalidHeader = True"
| "raised_before_headers https c = (https \<and> is_connection_error c)"

text \<open>One call through \<open>requests\<close>, inside the \<open>try\<close>.  The network gives the outcome
  of the call as if its headers could be written; when they cannot, the call ends with the
  \<open>UnicodeEncodeError\<close> instead, unless it failed before writing them.  The exception
  leaves \<open>make_request\<close> uncaught (\<open>Inl\<close>).\<close>

definition send :: "network \<Rightarrow> config \<Rightarrow> request \<Rightarrow> st \<Rightarrow> (py_exc + response option) \<times> st" where
  "send net cfg rq s =
     (let s1 = record_call rq s in
      case net rq of
        Responded r \<Rightarrow>
          if headers_latin1 (req_headers rq) then (Inr (Some r), s1) else (Inl UnicodeEncodeError, s1)
      | Raised (ReqExc c msg) \<Rightarrow>
          if headers_latin1 (req_headers rq) \<or> raised_before_headers (is_https (req_url rq)) c
          then (Inr None, emit (Error (request_failure cfg (ReqExc c msg))) s1)
          else (Inl UnicodeEncodeError, s1))"

definition make_request ::
  "network \<Rightarrow> config \<Rightarrow> string \<Rightarrow> string \<Rightarrow> headers \<Rightarrow> json option \<Rightarrow> nat \<Rightarrow> st \<Rightarrow>
   (py_exc + response option) \<times> st" where
  "make_request net cfg method url hdrs body timeout s =
     (case method_of method of
        None \<Rightarrow> (Inr None, emit (Error (''Unsupported method: '' @ method)) s)
      | Some m \<Rightarrow>
          send net cfg
            \<lparr>req_method = m, req_url = url, req_headers = hdrs, req_json = body, req_timeout = timeout\<rparr> s)"

text \<open>The request \<open>make_request\<close> issues for a supported method.\<close>

abbreviation mk_req :: "http_method \<Rightarrow> string \<Rightarrow> headers \<Rightarrow> json option \<Rightarrow> nat \<Rightarrow> request" where
  "mk_req m url hdrs body timeout \<equiv>
     \<lparr>req_method = m, req_url = url, req_headers = hdrs, req_json = body, req_timeout = timeout\<rparr>"

lemmas adapter_defs = get_headers_def show_response_def error_line_def method_of_def
  request_failure_def send_def make_request_def

section \<open>Lemmas on the helpers\<close>

lemma method_of_GET [simp]: "method_of ''GET'' = Some GET"
  and method_of_POST [simp]: "method_of ''POST'' = Some POST"
  by (simp_all add: method_of_def py_simps)

lemma latin1_ascii: "list_all (\<lambda>c. of_char c < (0x80::nat)) s \<Longrightarrow> latin1 s"
  by (auto simp: latin1_def list_all_iff)

lemma headers_latin1_get_headers [simp]:
  "headers_latin1 (get_headers cfg ra) \<longleftrightarrow> \<not> ra \<or> token_input cfg = [] \<or> latin1 (token_input cfg)"
  by (simp add: headers_latin1_def get_headers_def latin1_def)

lemma send_calls [simp]: "calls (snd (send net cfg rq s)) = calls s @ [rq]"
  by (simp add: send_def Let_def split: net_result.split req_exc.split)

text \<open>With headers that can be written, a call is the network's outcome.\<close>

lemma send_eq:
  "headers_latin1 (req_headers rq) \<Longrightarrow>
   send net cfg rq s =
     (case net rq of
        Responded r \<Rightarrow> (Inr (Some r), record_call rq s)
      | Raised e \<Rightarrow> (Inr None, emit (Error (request_failure cfg e)) (record_call rq s)))"
  by (simp add: send_def Let_def split: net_result.split req_exc.split)

lemma send_Responded [simp]:
  "net rq = Responded r \<Longrightarrow> headers_latin1 (req_headers rq) \<Longrightarrow> send net cfg rq s = (Inr (Some r), record_call rq s)"
  by (simp add: send_def)

lemma send_Raised [simp]:
  "net rq = Raised e \<Longrightarrow> headers_latin1 (req_headers rq) \<Longrightarrow>
   send net cfg rq s = (Inr None, emit (Error (request_failure cfg e)) (record_call rq s))"
  by (simp add: send_def Let_def split: req_exc.split)

lemma make_request_supported [simp]:
  "method_of meth = Some m \<Longrightarrow>
   make_request net cfg meth url hdrs body t s = send net cfg (mk_req m url hdrs body t) s"
  by (simp add: make_request_def)

lemma show_response_calls [simp]: "calls (snd (show_response r msg s)) = calls s"
  by (simp add: show_response_def Let_def split: option.split sum.split)

lemma show_response_spinner [simp]: "spinner (snd (show_response r msg s)) = spinner s"
  and show_response_call_spinners [simp]: "call_spinners (snd (show_response r msg s)) = call_spinners s"
  by (simp_all add: show_response_def Let_def split: option.split sum.split)

lemma show_response_side [simp]: "side_out (snd (show_response r msg s)) = side_out s"
  by (simp add: show_response_def Let_def split: option.split sum.split)


section \<open>Properties of the helpers\<close>

lemma method_of_Some_iff:
  "method_of meth = Some m \<longleftrightarrow>
   upper meth = (case m of GET \<Rightarrow> ''GET'' | POST \<Rightarrow> ''POST'' | PUT \<Rightarrow> ''PUT'' | DELETE \<Rightarrow> ''DELETE'')"
  by (cases m) (auto simp: method_of_def)

text \<open>C1: \<open>make_request\<close> makes exactly one call through \<open>requests\<close> for the method names GET, POST, PUT and DELETE in any letter case, with the verb the name says and the URL, headers, JSON body and timeout it was given; for any other method it makes none.\<close>

lemma make_request_calls:
  "calls (snd (make_request net cfg meth url hdrs body t s)) =
   calls s @
     (if upper meth = ''GET'' then [mk_req GET url hdrs body t]
      else if upper meth = ''POST'' then [mk_req POST url hdrs body t]
      else if upper meth = ''PUT'' then [mk_req PUT url hdrs body t]
      else if upper meth = ''DELETE'' then [mk_req DELETE url hdrs body t]
      else [])"
  by (simp add: make_request_def method_of_def)

text \<open>C6: A method that is not GET, POST, PUT or DELETE (in any letter case) short-circuits: no call is made, \<open>None\<close> is returned (no exception) and the error \<open>Unsupported method: m\<close> is shown.\<close>

lemma make_request_unsupported:
  "method_of meth = None \<Longrightarrow>
   make_request net cfg meth url hdrs body t s = (Inr None, emit (Error (''Unsupported method: '' @ meth)) s)"
  by (simp add: make_request_def)

lemma make_request_unsupported_witness:
  "method_of ''PATCH'' = None \<and>
   make_request (\<lambda>_. Raised (ReqExc ConnectionError [])) (initial_config None) ''PATCH''
     ''http://localhost:8010/users'' [] None 10 st_empty =
     (Inr None, emit (Error (''Unsupported method: PATCH'')) st_empty)"
proof -
  have h: "method_of ''PATCH'' = None" by (simp add: method_of_def upper_def upper_char_def)
  show ?thesis using h make_request_unsupported [OF h] by simp
qed

text \<open>C2: \<open>get_headers\<close> always sends \<open>Accept\<close> and \<open>Content-Type: application/json\<close>, and adds \<open>Authorization: Bearer t\<close> exactly when authentication is required and the token field is non-empty.\<close>

lemma get_headers_spec:
  "map fst (get_headers cfg ra) =
     [''Accept'', ''Content-Type''] @ (if ra \<and> token_input cfg \<noteq> [] then [''Authorization''] else []) \<and>
   map_of (get_headers cfg ra) ''Accept'' = Some ''application/json'' \<and>
   map_of (get_headers cfg ra) ''Content-Type'' = Some ''application/json'' \<and>
   map_of (get_headers cfg ra) ''Authorization'' =
     (if ra \<and> token_input cfg \<noteq> [] then Some (''Bearer '' @ token_input cfg) else None)"
  by (simp add: get_headers_def)

text \<open>C7: A response with status below 400 and a JSON body is shown as JSON and its decoded value is returned unchanged.\<close>

lemma show_response_success_json:
  "status_code r < 400 \<Longrightarrow> resp_json r = Some d \<Longrightarrow> show_response r None s = (d, emit (JsonView d) s)"
  by (simp add: show_response_def)

lemma show_response_success_json_witness:
  "show_response \<lparr>status_code = 200, resp_text = ''{\"id\":1,\"first_name\":\"Ana\"}''\<rparr> None st_empty =
   (JObj [(''id'', JInt 1), (''first_name'', JStr ''Ana'')],
    emit (JsonView (JObj [(''id'', JInt 1), (''first_name'', JStr ''Ana'')])) st_empty)"
  by (rule show_response_success_json) (simp_all add: resp_json_def py_simps)

text \<open>C8: A response with status below 400 whose body is not JSON degrades to a raw-text area (after the success message, if one is given) and returns \<open>None\<close>.\<close>

lemma show_response_success_raw:
  "status_code r < 400 \<Longrightarrow> resp_json r = None \<Longrightarrow>
   show_response r msg s =
     (JNull, emit (TextArea ''Raw response (text)'' (resp_text r))
               (case msg of Some m \<Rightarrow> if m \<noteq> [] then emit (Success m) s else s | None \<Rightarrow> s))"
  by (simp add: show_response_def)

lemma show_response_success_raw_witness:
  "show_response \<lparr>status_code = 200, resp_text = ''%PDF-1.7''\<rparr> (Some ''saved'') st_empty =
   (JNull, emit (TextArea ''Raw response (text)'' ''%PDF-1.7'') (emit (Success ''saved'') st_empty))"
  by (subst show_response_success_raw) (simp_all add: resp_json_def py_simps)

text \<open>C9: A response with status 400 or more and a JSON object body is shown as \<open>Error <status>: <detail>\<close>, with \<open>Unknown error\<close> when the object has no \<open>detail\<close>.\<close>

lemma show_response_error_detail:
  "400 \<le> status_code r \<Longrightarrow> resp_json r = Some (JObj kvs) \<Longrightarrow>
   show_response r msg s =
     (JNull, emit (Error (''Error '' @ show_int (status_code r) @ '': '' @
                          py_str (case map_of kvs ''detail'' of Some d \<Rightarrow> d | None \<Rightarrow> JStr ''Unknown error''))) s)"
  by (simp add: show_response_def error_line_def)

lemma show_response_error_detail_witness:
  "show_response \<lparr>status_code = 404, resp_text = ''{\"detail\":\"User not found\"}''\<rparr> None st_empty =
   (JNull, emit (Error ''Error 404: User not found'') st_empty)"
  by (subst show_response_error_detail [where kvs = "[(''detail'', JStr ''User not found'')]"])
     (simp_all add: resp_json_def py_simps)

text \<open>C10: A response with status 400 or more whose body is not a JSON object is shown as \<open>Error <status>: <raw body>\<close>.\<close>

lemma show_response_error_raw:
  "400 \<le> status_code r \<Longrightarrow> (\<And>kvs. resp_json r \<noteq> Some (JObj kvs)) \<Longrightarrow>
   show_response r msg s = (JNull, emit (Error (''Error '' @ show_int (status_code r) @ '': '' @ resp_text r)) s)"
  by (auto simp: show_response_def error_line_def split: option.split sum.split elim: dict_get.elims)

lemma show_response_error_raw_witness:
  "show_response \<lparr>status_code = 500, resp_text = ''internal error''\<rparr> None st_empty =
   (JNull, emit (Error ''Error 500: internal error'') st_empty)"
  by (subst show_response_error_raw) (simp_all add: resp_json_def py_simps)

text \<open>C14: A connect timeout (\<open>requests.ConnectTimeout\<close>, a subclass of both \<open>ConnectionError\<close> and \<open>Timeout\<close>) is caught by the first \<open>except\<close> clause and reported as a connection failure, not as \<open>Request timed out\<close>.\<close>

lemma connect_timeout_reported_as_connection:
  "request_failure cfg (ReqExc ConnectTimeout msg) =
   cross_mark @ '' Connection failed. Is the backend running at '' @ base_url cfg @ ''?''"
  by (simp add: request_failure_def)

end
