(* ===== verification/Actions.thy ===== *)
theory Actions
  imports Adapter
begin

text \<open>
  The main part of \<open>src/app.py\<close> (lines 105--286): the action selected in the select box,
  the form inputs, one handler per action, and the health check in the sidebar.  A
  handler takes the network, the configuration, whether its button was pressed in this
  run (\<open>st.button\<close> is true only in the run its click triggers) and the run state, and
  returns the new state; the two handlers that can raise an uncaught Python exception
  (\<open>len(data)\<close> of View All Users, \<open>data.get\<close> of Get Big Three) return it as
  \<open>Inl\<close>.  The PDF handlers run inside their \<open>with st.spinner\<close> block
  (\<open>with_spinner\<close>).  \<open>run_script\<close> is one run of the whole script: the branch of the selected
  action, then the health check, unless the run ended with an exception.
\<close>

section \<open>Form inputs (lines 140--165)\<close>

record date =
  year :: nat
  month :: nat
  day :: nat

record time =
  hour :: nat
  minute :: nat

text \<open>\<open>birthdate.strftime('%Y-%m-%d')\<close> and \<open>birthtime.strftime('%H:%M')\<close> (lines 178,
  180).  \<open>%Y\<close> prints the year in decimal (glibc pads no year of four digits or more,
  and the date widget offers no other).\<close>

definition fmt_date :: "date \<Rightarrow> string" where
  "fmt_date d = show_nat (year d) @ ''-'' @ pad2 (month d) @ ''-'' @ pad2 (day d)"

definition fmt_time :: "time \<Rightarrow> string" where
  "fmt_time t = pad2 (hour t) @ '':'' @ pad2 (minute t)"

text \<open>The Create/Update form; an empty date or time widget is \<open>None\<close>.\<close>

record user_form =
  first_name :: string
  last_name :: string
  birthdate :: "date option"
  birthtime :: "time option"
  city :: string
  country :: string
  login :: string
  timezone :: string

text \<open>All inputs of one run: the select box and the number and form widgets.\<close>

record inputs =
  action :: string
  user_id :: int
  year_in :: int
  form :: user_form

datatype button =
    BFetchAll | BFetchUser | BSaveUser | BGetPlacements | BGetBigThree
  | BGenBooklet | BGenCalendar | BHealth

definition action_options :: "string list" where
  "action_options =
     [''View All Users'', ''Get User by ID'', ''Create/Update User'', ''Get Astrology Placements'',
      ''Get Big Three (Sun, Moon, Asc)'', ''Generate Booklet PDF'', ''Generate Calendar PDF'']"

section \<open>The payload of Create/Update User (lines 171--188)\<close>

text \<open>\<open>if v: payload[k] = v\<close>: a key is added only for a non-empty field.\<close>

definition opt_field :: "string \<Rightarrow> string \<Rightarrow> (string \<times> json) list" where
  "opt_field k v = (if v \<noteq> [] then [(k, JStr v)] else [])"

definition build_payload :: "user_form \<Rightarrow> (string \<times> json) list" where
  "build_payload f =
     [(''first_name'', JStr (first_name f))] @
     opt_field ''last_name'' (last_name f) @
     (case birthdate f of Some d \<Rightarrow> [(''birthdate'', JStr (fmt_date d))] | None \<Rightarrow> []) @
     (case birthtime f of Some t \<Rightarrow> [(''birthtime'', JStr (fmt_time t))] | None \<Rightarrow> []) @
     opt_field ''city'' (city f) @
     opt_field ''country'' (country f) @
     opt_field ''login'' (login f) @
     opt_field ''timezone'' (timezone f)"

section \<open>The handlers\<close>

text \<open>\<open>if resp: show_response(resp, msg)\<close>, the common tail of the handlers.\<close>

definition show_if_ok :: "response option \<Rightarrow> string option \<Rightarrow> st \<Rightarrow> st" where
  "show_if_ok resp msg s =
     (case resp of
        None \<Rightarrow> s
      | Some r \<Rightarrow> if resp_ok r then snd (show_response r msg s) else s)"

text \<open>View All Users (lines 126--133).\<close>

definition view_all_users :: "network \<Rightarrow> config \<Rightarrow> bool \<Rightarrow> st \<Rightarrow> (py_exc + unit) \<times> st" where
  "view_all_users net cfg pressed s =
     (if pressed then
        (case make_request net cfg ''GET'' (base_url cfg @ ''/users'') (get_headers cfg False) None 10 s of
           (Inl e, s1) \<Rightarrow> (Inl e, s1)
         | (Inr None, s1) \<Rightarrow> (Inr (), s1)
         | (Inr (Some r), s1) \<Rightarrow>
                if resp_ok r then
                  (let (data, s2) = show_response r None s1
                   in if py_truthy data then
                        (case py_len data of
                           Inl e \<Rightarrow> (Inl e, s2)
                         | Inr n \<Rightarrow> (Inr (), emit (Info (''Found '' @ show_nat n @ '' user(s)'')) s2))
                      else (Inr (), s2))
                else (Inr (), s1))
      else (Inr (), s))"

text \<open>Get User by ID (lines 138--144) and Get Astrology Placements (lines 203--209): one
  GET and \<open>show_response\<close> when \<open>resp\<close> is truthy.\<close>

definition fetch_and_show :: "network \<Rightarrow> config \<Rightarrow> string \<Rightarrow> nat \<Rightarrow> st \<Rightarrow> (py_exc + unit) \<times> st" where
  "fetch_and_show net cfg url timeout s =
     (case make_request net cfg ''GET'' url (get_headers cfg False) None timeout s of
        (Inl e, s1) \<Rightarrow> (Inl e, s1)
      | (Inr resp, s1) \<Rightarrow> (Inr (), show_if_ok resp None s1))"

definition user_url :: "config \<Rightarrow> int \<Rightarrow> string \<Rightarrow> string" where
  "user_url cfg uid suffix = base_url cfg @ ''/users/'' @ show_int uid @ suffix"

definition get_user_by_id :: "network \<Rightarrow> config \<Rightarrow> bool \<Rightarrow> int \<Rightarrow> st \<Rightarrow> (py_exc + unit) \<times> st" where
  "get_user_by_id net cfg pressed uid s =
     (if pressed then fetch_and_show net cfg (user_url cfg uid []) 10 s else (Inr (), s))"

definition get_placements :: "network \<Rightarrow> config \<Rightarrow> bool \<Rightarrow> int \<Rightarrow> st \<Rightarrow> (py_exc + unit) \<times> st" where
  "get_placements net cfg pressed uid s =
     (if pressed then fetch_and_show net cfg (user_url cfg uid ''/placements'') 30 s else (Inr (), s))"

text \<open>Create/Update User (lines 167--198).\<close>

definition save_user :: "network \<Rightarrow> config \<Rightarrow> bool \<Rightarrow> user_form \<Rightarrow> st \<Rightarrow> (py_exc + unit) \<times> st" where
  "save_user net cfg pressed f s =
     (if pressed then
        (if first_name f = [] then (Inr (), emit (Error ''First name is required!'') s)
         else
           (case make_request net cfg ''POST'' (base_url cfg @ ''/users'') (get_headers cfg True)
                   (Some (JObj (build_payload f))) 10 s of
              (Inl e, s1) \<Rightarrow> (Inl e, s1)
            | (Inr resp, s1) \<Rightarrow> (Inr (), show_if_ok resp (Some (check_mark @ '' User saved successfully!'')) s1)))
      else (Inr (), s))"

text \<open>One line of the Big-Three summary (lines 223--228):
  \<open>if data.get(k): st.write(f"\<dots> {data[k].get('sign', 'N/A')} {data[k].get('degree', '')}\<degree>")\<close>.\<close>

definition summary_line :: "json \<Rightarrow> string \<Rightarrow> string \<Rightarrow> st \<Rightarrow> (py_exc + unit) \<times> st" where
  "summary_line data k label s =
     (case dict_get data k JNull of
        Inl e \<Rightarrow> (Inl e, s)
      | Inr v \<Rightarrow>
          if py_truthy v then
            (case dict_index data k of
               Inl e \<Rightarrow> (Inl e, s)
             | Inr b \<Rightarrow>
                 (case dict_get b ''sign'' (JStr ''N/A'') of
                    Inl e \<Rightarrow> (Inl e, s)
                  | Inr sg \<Rightarrow>
                      (case dict_index data k of
                         Inl e \<Rightarrow> (Inl e, s)
                       | Inr b' \<Rightarrow>
                           (case dict_get b' ''degree'' (JStr []) of
                              Inl e \<Rightarrow> (Inl e, s)
                            | Inr dg \<Rightarrow>
                                (Inr (), emit (Write (label @ py_str sg @ '' '' @ py_str dg @ degree_sign)) s)))))
          else (Inr (), s))"

definition sun_label :: string where "sun_label = sun_sign @ '' **Sun**: ''"
definition moon_label :: string where "moon_label = moon_sign @ '' **Moon**: ''"
definition asc_label :: string where "asc_label = up_arrow @ '' **Ascendant**: ''"

text \<open>Get Big Three (lines 214--228).\<close>

definition big_three :: "network \<Rightarrow> config \<Rightarrow> bool \<Rightarrow> int \<Rightarrow> st \<Rightarrow> (py_exc + unit) \<times> st" where
  "big_three net cfg pressed uid s =
     (if pressed then
        (case make_request net cfg ''GET'' (user_url cfg uid ''/big-three'') (get_headers cfg False) None 30 s of
           (Inl e, s1) \<Rightarrow> (Inl e, s1)
         | (Inr None, s1) \<Rightarrow> (Inr (), s1)
         | (Inr (Some r), s1) \<Rightarrow>
                if resp_ok r then
                  (let (data, s2) = show_response r None s1
                   in if py_truthy data then
                        seq_run
                          (seq_run (summary_line data ''Sun'' sun_label (emit (Markdown ''### Astrology Summary'') s2))
                             (summary_line data ''Moon'' moon_label))
                          (summary_line data ''Asc'' asc_label)
                      else (Inr (), s2))
                else (Inr (), s1))
      else (Inr (), s))"

text \<open>Generate Booklet PDF and Generate Calendar PDF (lines 233--266): success messages on
  status 200, \<open>show_response\<close> for any other truthy response.\<close>

definition gen_pdf :: "network \<Rightarrow> config \<Rightarrow> string \<Rightarrow> string \<Rightarrow> st \<Rightarrow> (py_exc + unit) \<times> st" where
  "gen_pdf net cfg url ok_msg s =
     (case make_request net cfg ''GET'' url (get_headers cfg False) None 120 s of
        (Inl e, s1) \<Rightarrow> (Inl e, s1)
      | (Inr None, s1) \<Rightarrow> (Inr (), s1)
      | (Inr (Some r), s1) \<Rightarrow>
          if resp_ok r \<and> status_code r = 200 then
            (Inr (), emit (Info ''The PDF has been saved to your Downloads folder.'') (emit (Success ok_msg) s1))
          else if resp_ok r then (Inr (), snd (show_response r None s1))
          else (Inr (), s1))"

text \<open>The messages of the \<open>with st.spinner(...)\<close> blocks around the PDF requests
  (lines 237, 255).\<close>

definition booklet_spinner :: string where
  "booklet_spinner = ''Generating booklet PDF... This may take a moment.''"

definition calendar_spinner :: string where
  "calendar_spinner = ''Generating calendar PDF... This may take a moment.''"

definition gen_booklet :: "network \<Rightarrow> config \<Rightarrow> bool \<Rightarrow> int \<Rightarrow> st \<Rightarrow> (py_exc + unit) \<times> st" where
  "gen_booklet net cfg pressed uid s =
     (if pressed then
        with_spinner booklet_spinner
          (gen_pdf net cfg (user_url cfg uid ''/booklet'') (check_mark @ '' Booklet generated successfully!'')) s
      else (Inr (), s))"

definition gen_calendar :: "network \<Rightarrow> config \<Rightarrow> bool \<Rightarrow> int \<Rightarrow> int \<Rightarrow> st \<Rightarrow> (py_exc + unit) \<times> st" where
  "gen_calendar net cfg pressed uid yr s =
     (if pressed then
        with_spinner calendar_spinner
          (gen_pdf net cfg (user_url cfg uid (''/calendar?year='' @ show_int yr))
             (check_mark @ '' Calendar generated successfully!'')) s
      else (Inr (), s))"

text \<open>The health check in the sidebar (lines 275--286); its transport errors go to the main
  area, as \<open>make_request\<close> calls \<open>st.error\<close>.\<close>

definition health_check :: "network \<Rightarrow> config \<Rightarrow> bool \<Rightarrow> st \<Rightarrow> (py_exc + unit) \<times> st" where
  "health_check net cfg pressed s =
     (if pressed then
        (case make_request net cfg ''GET'' (base_url cfg @ ''/health'') (get_headers cfg False) None 5 s of
           (Inl e, s1) \<Rightarrow> (Inl e, s1)
         | (Inr None, s1) \<Rightarrow> (Inr (), s1)
         | (Inr (Some r), s1) \<Rightarrow>
                if resp_ok r then
                  (if status_code r = 200 then
                     (let s2 = emit_side (Success (check_mark @ '' Backend is healthy!'')) s1
                      in case resp_json r of Some d \<Rightarrow> (Inr (), emit_side (JsonView d) s2) | None \<Rightarrow> (Inr (), s2))
                   else (Inr (), emit_side (Error (cross_mark @ '' Backend health check failed'')) s1))
                else (Inr (), s1))
      else (Inr (), s))"

text \<open>The requests of the handlers.\<close>

abbreviation users_req :: "config \<Rightarrow> request" where
  "users_req cfg \<equiv> mk_req GET (base_url cfg @ ''/users'') (get_headers cfg False) None 10"

abbreviation big_three_req :: "config \<Rightarrow> int \<Rightarrow> request" where
  "big_three_req cfg uid \<equiv> mk_req GET (user_url cfg uid ''/big-three'') (get_headers cfg False) None 30"

abbreviation health_req :: "config \<Rightarrow> request" where
  "health_req cfg \<equiv> mk_req GET (base_url cfg @ ''/health'') (get_headers cfg False) None 5"

text \<open>A form with only the first name filled.\<close>

definition mara_form :: user_form where
  "mara_form = \<lparr>first_name = ''Mara'', last_name = [], birthdate = None, birthtime = None,
                 city = [], country = [], login = [], timezone = []\<rparr>"

section \<open>One run of the script\<close>

text \<open>The \<open>if/elif\<close> chain on the selected action (lines 126--266).\<close>

definition main_section :: "network \<Rightarrow> config \<Rightarrow> inputs \<Rightarrow> button option \<Rightarrow> st \<Rightarrow> (py_exc + unit) \<times> st" where
  "main_section net cfg inp clk s =
     (if action inp = ''View All Users'' then view_all_users net cfg (clk = Some BFetchAll) s
      else if action inp = ''Get User by ID'' then
        get_user_by_id net cfg (clk = Some BFetchUser) (user_id inp) s
      else if action inp = ''Create/Update User'' then
        save_user net cfg (clk = Some BSaveUser) (form inp) s
      else if action inp = ''Get Astrology Placements'' then
        get_placements net cfg (clk = Some BGetPlacements) (user_id inp) s
      else if action inp = ''Get Big Three (Sun, Moon, Asc)'' then
        big_three net cfg (clk = Some BGetBigThree) (user_id inp) s
      else if action inp = ''Generate Booklet PDF'' then
        gen_booklet net cfg (clk = Some BGenBooklet) (user_id inp) s
      else if action inp = ''Generate Calendar PDF'' then
        gen_calendar net cfg (clk = Some BGenCalendar) (user_id inp) (year_in inp) s
      else (Inr (), s))"

text \<open>A whole run from an empty page: \<open>Some e\<close> when it ended with the uncaught
  exception \<open>e\<close>.\<close>

definition run_script :: "network \<Rightarrow> config \<Rightarrow> inputs \<Rightarrow> button option \<Rightarrow> py_exc option \<times> st" where
  "run_script net cfg inp clk =
     (case main_section net cfg inp clk st_empty of
        (Inl e, s) \<Rightarrow> (Some e, s)
      | (Inr u, s) \<Rightarrow>
          (case health_check net cfg (clk = Some BHealth) s of
             (Inl e, s') \<Rightarrow> (Some e, s')
           | (Inr u', s') \<Rightarrow> (None, s')))"


text \<open>The spinner under which the request of a pressed button is sent: the message of
  the \<open>with st.spinner\<close> block of its branch, if it has one.\<close>

fun button_spinner :: "button option \<Rightarrow> string option" where
  "button_spinner (Some BGenBooklet) = Some booklet_spinner"
| "button_spinner (Some BGenCalendar) = Some calendar_spinner"
| "button_spinner clk = None"


section \<open>Lemmas on the handlers\<close>

text \<open>A GET with the unauthenticated headers, which are ASCII, never raises: it is the
  network's outcome.\<close>

lemma make_request_GET [simp]:
  "make_request net cfg ''GET'' url (get_headers cfg False) b t s =
     (case net (mk_req GET url (get_headers cfg False) b t) of
        Responded r \<Rightarrow> (Inr (Some r), record_call (mk_req GET url (get_headers cfg False) b t) s)
      | Raised e \<Rightarrow> (Inr None, emit (Error (request_failure cfg e)) (record_call (mk_req GET url (get_headers cfg False) b t) s)))"
  by (simp add: send_eq)

lemma calls_show_if_ok [simp]: "calls (show_if_ok resp m s) = calls s"
  by (simp add: show_if_ok_def split: option.split)

lemma show_if_ok_None [simp]: "show_if_ok None m s = s"
  and show_if_ok_not_ok [simp]: "\<not> resp_ok r \<Longrightarrow> show_if_ok (Some r) m s = s"
  by (simp_all add: show_if_ok_def del: resp_ok_iff)

lemma opt_field_keys [simp]: "map fst (opt_field k v) = (if v \<noteq> [] then [k] else [])"
  by (simp add: opt_field_def)

lemma map_of_opt_field [simp]:
  "map_of (opt_field k v) k' = (if k' = k \<and> v \<noteq> [] then Some (JStr v) else None)"
  by (simp add: opt_field_def)

lemma build_payload_keys:
  "map fst (build_payload f) =
     ''first_name'' # (if last_name f \<noteq> [] then [''last_name''] else []) @
     (if birthdate f \<noteq> None then [''birthdate''] else []) @
     (if birthtime f \<noteq> None then [''birthtime''] else []) @
     (if city f \<noteq> [] then [''city''] else []) @ (if country f \<noteq> [] then [''country''] else []) @
     (if login f \<noteq> [] then [''login''] else []) @ (if timezone f \<noteq> [] then [''timezone''] else [])"
  by (simp add: build_payload_def split: option.split)

lemma summary_line_absent:
  "\<not> py_truthy (case map_of kvs k of Some v \<Rightarrow> v | None \<Rightarrow> JNull) \<Longrightarrow> summary_line (JObj kvs) k label s = (Inr (), s)"
  by (simp add: summary_line_def)

lemma calls_seq_run:
  assumes "\<And>s. calls (snd (f s)) = calls s"
  shows "calls (snd (seq_run r f)) = calls (snd r)"
proof -
  obtain x s where r: "r = (x, s)" by fastforce
  then show ?thesis using assms by (cases x) simp_all
qed

lemma show_response_calls_eq: "show_response r m s = (d, s') \<Longrightarrow> calls s' = calls s"
  using show_response_calls [of r m s] by simp

lemma calls_summary_line [simp]: "calls (snd (summary_line d k l s)) = calls s"
  by (simp add: summary_line_def split: sum.split)

text \<open>The save's request, whose headers carry the token.\<close>

abbreviation save_req :: "config \<Rightarrow> user_form \<Rightarrow> request" where
  "save_req cfg f \<equiv> mk_req POST (base_url cfg @ ''/users'') (get_headers cfg True) (Some (JObj (build_payload f))) 10"

lemma save_user_eq:
  "first_name f \<noteq> [] \<Longrightarrow>
   save_user net cfg True f s =
     (let s1 = record_call (save_req cfg f) s in
      case net (save_req cfg f) of
        Responded r \<Rightarrow>
          if headers_latin1 (get_headers cfg True)
          then (Inr (), show_if_ok (Some r) (Some (check_mark @ '' User saved successfully!'')) s1)
          else (Inl UnicodeEncodeError, s1)
      | Raised (ReqExc c msg) \<Rightarrow>
          if headers_latin1 (get_headers cfg True) \<or> raised_before_headers (is_https (base_url cfg @ ''/users'')) c
          then (Inr (), emit (Error (request_failure cfg (ReqExc c msg))) s1)
          else (Inl UnicodeEncodeError, s1))"
  by (simp add: save_user_def send_def Let_def del: headers_latin1_get_headers
      split: net_result.split req_exc.split)

lemma view_all_users_calls:
  "calls (snd (view_all_users net cfg p s)) = calls s @ (if p then [users_req cfg] else [])"
  by (auto simp: view_all_users_def split: net_result.split prod.split sum.split
           dest: show_response_calls_eq)

lemma fetch_and_show_calls [simp]:
  "calls (snd (fetch_and_show net cfg url t s)) = calls s @ [mk_req GET url (get_headers cfg False) None t]"
  by (simp add: fetch_and_show_def split: net_result.split)

lemma big_three_calls:
  "calls (snd (big_three net cfg p uid s)) = calls s @ (if p then [big_three_req cfg uid] else [])"
  by (auto simp: big_three_def calls_seq_run split: net_result.split prod.split
           dest: show_response_calls_eq)

lemma gen_pdf_calls [simp]:
  "calls (snd (gen_pdf net cfg url m s)) = calls s @ [mk_req GET url (get_headers cfg False) None 120]"
  by (simp add: gen_pdf_def split: net_result.split)

lemma health_check_calls:
  "calls (snd (health_check net cfg p s)) = calls s @ (if p then [health_req cfg] else [])"
  by (simp add: health_check_def Let_def split: net_result.split option.split)

lemma get_user_by_id_calls:
  "calls (snd (get_user_by_id net cfg p uid s)) = calls s @ (if p then [mk_req GET (user_url cfg uid []) (get_headers cfg False) None 10] else [])"
  by (simp add: get_user_by_id_def)

lemma get_placements_calls:
  "calls (snd (get_placements net cfg p uid s)) =
   calls s @ (if p then [mk_req GET (user_url cfg uid ''/placements'') (get_headers cfg False) None 30] else [])"
  by (simp add: get_placements_def)

lemma gen_booklet_calls:
  "calls (snd (gen_booklet net cfg p uid s)) =
   calls s @ (if p then [mk_req GET (user_url cfg uid ''/booklet'') (get_headers cfg False) None 120] else [])"
  by (simp add: gen_booklet_def)

lemma gen_calendar_calls:
  "calls (snd (gen_calendar net cfg p uid yr s)) =
   calls s @ (if p then [mk_req GET (user_url cfg uid (''/calendar?year='' @ show_int yr)) (get_headers cfg False) None 120] else [])"
  by (simp add: gen_calendar_def)

lemma save_user_calls_all:
  "calls (snd (save_user net cfg p f s)) = calls s @ (if p \<and> first_name f \<noteq> [] then [save_req cfg f] else [])"
  by (simp add: save_user_def send_def Let_def del: headers_latin1_get_headers
      split: net_result.split req_exc.split)

lemma show_response_spin_eq:
  "show_response r m s = (d, s') \<Longrightarrow> spinner s' = spinner s \<and> call_spinners s' = call_spinners s"
  using show_response_spinner [of r m s] show_response_call_spinners [of r m s] by simp

lemma summary_line_spin [simp]:
  "spinner (snd (summary_line d k l s)) = spinner s"
  "call_spinners (snd (summary_line d k l s)) = call_spinners s"
  by (simp_all add: summary_line_def split: sum.split)

lemma spinner_seq_run:
  assumes "\<And>s. spinner (snd (f s)) = spinner s"
  shows "spinner (snd (seq_run r f)) = spinner (snd r)"
proof -
  obtain x s where r: "r = (x, s)" by fastforce
  then show ?thesis using assms by (cases x) simp_all
qed

lemma call_spinners_seq_run:
  assumes "\<And>s. call_spinners (snd (f s)) = call_spinners s"
  shows "call_spinners (snd (seq_run r f)) = call_spinners (snd r)"
proof -
  obtain x s where r: "r = (x, s)" by fastforce
  then show ?thesis using assms by (cases x) simp_all
qed

text \<open>Every handler leaves the spinner as it found it, and sends its request under the
  spinner showing, except the PDF handlers, which send theirs under their own.\<close>

lemma handler_spinners:
  "spinner (snd (view_all_users net cfg p s)) = spinner s \<and>
   call_spinners (snd (view_all_users net cfg p s)) = call_spinners s @ (if p then [spinner s] else [])"
  "spinner (snd (big_three net cfg p uid s)) = spinner s \<and>
   call_spinners (snd (big_three net cfg p uid s)) = call_spinners s @ (if p then [spinner s] else [])"
  "spinner (snd (get_user_by_id net cfg p uid s)) = spinner s \<and>
   call_spinners (snd (get_user_by_id net cfg p uid s)) = call_spinners s @ (if p then [spinner s] else [])"
  "spinner (snd (get_placements net cfg p uid s)) = spinner s \<and>
   call_spinners (snd (get_placements net cfg p uid s)) = call_spinners s @ (if p then [spinner s] else [])"
  "spinner (snd (health_check net cfg p s)) = spinner s \<and>
   call_spinners (snd (health_check net cfg p s)) = call_spinners s @ (if p then [spinner s] else [])"
  "spinner (snd (gen_booklet net cfg p uid s)) = spinner s \<and>
   call_spinners (snd (gen_booklet net cfg p uid s)) = call_spinners s @ (if p then [Some booklet_spinner] else [])"
  "spinner (snd (gen_calendar net cfg p uid yr s)) = spinner s \<and>
   call_spinners (snd (gen_calendar net cfg p uid yr s)) = call_spinners s @ (if p then [Some calendar_spinner] else [])"
  by (auto simp: view_all_users_def big_three_def get_user_by_id_def get_placements_def
      health_check_def gen_booklet_def gen_calendar_def fetch_and_show_def gen_pdf_def show_if_ok_def Let_def
      split: net_result.split prod.split sum.split option.split dest: show_response_spin_eq
      simp: spinner_seq_run call_spinners_seq_run)

lemma save_user_spinners:
  "spinner (snd (save_user net cfg p f s)) = spinner s \<and>
   call_spinners (snd (save_user net cfg p f s)) = call_spinners s @ (if p \<and> first_name f \<noteq> [] then [spinner s] else [])"
  by (simp add: save_user_def send_def show_if_ok_def Let_def del: headers_latin1_get_headers
      split: net_result.split req_exc.split option.split)

lemma handlers_unpressed [simp]:
  "view_all_users net cfg False s = (Inr (), s)" "get_user_by_id net cfg False uid s = (Inr (), s)"
  "save_user net cfg False f s = (Inr (), s)" "get_placements net cfg False uid s = (Inr (), s)"
  "big_three net cfg False uid s = (Inr (), s)" "gen_booklet net cfg False uid s = (Inr (), s)"
  "gen_calendar net cfg False uid yr s = (Inr (), s)" "health_check net cfg False s = (Inr (), s)"
  by (simp_all add: view_all_users_def get_user_by_id_def save_user_def get_placements_def
      big_three_def gen_booklet_def gen_calendar_def health_check_def)

text \<open>The handlers that send a GET with the unauthenticated headers end normally.\<close>

lemma handlers_Inr [simp]:
  "fst (fetch_and_show net cfg url t s) = Inr ()" "fst (gen_pdf net cfg url m s) = Inr ()"
  "fst (get_user_by_id net cfg p uid s) = Inr ()" "fst (get_placements net cfg p uid s) = Inr ()"
  "fst (gen_booklet net cfg p uid s) = Inr ()" "fst (gen_calendar net cfg p uid yr s) = Inr ()"
  "fst (health_check net cfg p s) = Inr ()"
  by (simp_all add: fetch_and_show_def gen_pdf_def get_user_by_id_def get_placements_def gen_booklet_def
      gen_calendar_def health_check_def Let_def split: net_result.split option.split)

lemma main_section_unpressed: "clk \<in> {None, Some BHealth} \<Longrightarrow> main_section net cfg inp clk s = (Inr (), s)"
  by (auto simp: main_section_def)

text \<open>A run: the main section, then the health check if the main section ended normally.\<close>

lemma fst_run_script:
  "fst (run_script net cfg inp clk) =
     (case fst (main_section net cfg inp clk st_empty) of Inl e \<Rightarrow> Some e | Inr u \<Rightarrow> None)"
  and snd_run_script:
  "snd (run_script net cfg inp clk) =
     (case fst (main_section net cfg inp clk st_empty) of
        Inl e \<Rightarrow> snd (main_section net cfg inp clk st_empty)
      | Inr u \<Rightarrow> snd (health_check net cfg (clk = Some BHealth) (snd (main_section net cfg inp clk st_empty))))"
  by (auto simp: run_script_def split: prod.split sum.split dest!: arg_cong [where f = fst])

lemma calls_run_script:
  "calls (snd (run_script net cfg inp clk)) = calls (snd (main_section net cfg inp clk st_empty)) @
     (if clk = Some BHealth then [health_req cfg] else [])"
  by (auto simp: snd_run_script health_check_calls main_section_unpressed split: sum.split)

lemma main_section_spinners:
  "spinner (snd (main_section net cfg inp clk st_empty)) = None \<and>
   call_spinners (snd (main_section net cfg inp clk st_empty)) =
     map (\<lambda>_. button_spinner clk) (calls (snd (main_section net cfg inp clk st_empty)))"
  by (auto simp: main_section_def handler_spinners save_user_spinners view_all_users_calls big_three_calls
      get_user_by_id_calls get_placements_calls save_user_calls_all gen_booklet_calls gen_calendar_calls)

lemma run_script_spinners:
  "spinner (snd (run_script net cfg inp clk)) = None \<and>
   call_spinners (snd (run_script net cfg inp clk)) = map (\<lambda>_. button_spinner clk) (calls (snd (run_script net cfg inp clk)))"
  using main_section_spinners [of net cfg inp clk]
  by (auto simp: snd_run_script handler_spinners health_check_calls split: sum.split)

lemma silent_view_all_users:
  "(\<And>rq. \<not> resp_ok (f rq)) \<Longrightarrow> view_all_users (\<lambda>rq. Responded (f rq)) cfg p s = (Inr (), if p then record_call (users_req cfg) s else s)"
  by (simp add: view_all_users_def del: resp_ok_iff)

lemma silent_fetch_and_show:
  "(\<And>rq. \<not> resp_ok (f rq)) \<Longrightarrow>
   fetch_and_show (\<lambda>rq. Responded (f rq)) cfg url t s = (Inr (), record_call (mk_req GET url (get_headers cfg False) None t) s)"
  by (simp add: fetch_and_show_def del: resp_ok_iff)

lemma silent_save_user:
  "(\<And>rq. \<not> resp_ok (f rq)) \<Longrightarrow>
   fst (save_user (\<lambda>rq. Responded (f rq)) cfg p fm s) =
     (if p \<and> first_name fm \<noteq> [] \<and> \<not> headers_latin1 (get_headers cfg True) then Inl UnicodeEncodeError else Inr ()) \<and>
   main_out (snd (save_user (\<lambda>rq. Responded (f rq)) cfg p fm s)) =
     main_out s @ (if p \<and> first_name fm = [] then [Error ''First name is required!''] else []) \<and>
   side_out (snd (save_user (\<lambda>rq. Responded (f rq)) cfg p fm s)) = side_out s"
  by (simp add: save_user_def send_def Let_def del: resp_ok_iff headers_latin1_get_headers)

lemma silent_big_three:
  "(\<And>rq. \<not> resp_ok (f rq)) \<Longrightarrow> big_three (\<lambda>rq. Responded (f rq)) cfg p uid s = (Inr (), if p then record_call (big_three_req cfg uid) s else s)"
  by (simp add: big_three_def del: resp_ok_iff)

lemma silent_gen_pdf:
  "(\<And>rq. \<not> resp_ok (f rq)) \<Longrightarrow>
   gen_pdf (\<lambda>rq. Responded (f rq)) cfg url m s = (Inr (), record_call (mk_req GET url (get_headers cfg False) None 120) s)"
  by (simp add: gen_pdf_def del: resp_ok_iff)

lemma silent_health_check:
  "(\<And>rq. \<not> resp_ok (f rq)) \<Longrightarrow> health_check (\<lambda>rq. Responded (f rq)) cfg p s = (Inr (), if p then record_call (health_req cfg) s else s)"
  by (simp add: health_check_def del: resp_ok_iff)

text \<open>The exceptions a handler can end with.\<close>

lemma summary_line_Inl: "fst (summary_line d k l s) = Inl e \<Longrightarrow> e = AttributeError"
  by (cases d) (auto simp: summary_line_def split: sum.splits if_splits option.splits dest: dict_get_Inl)

lemma view_all_users_Inl: "fst (view_all_users net cfg p s) = Inl e \<Longrightarrow> e = TypeError \<and> p"
  by (auto simp: view_all_users_def split: prod.splits option.splits if_splits sum.splits net_result.splits
      dest: py_len_Inl)

lemma big_three_Inl: "fst (big_three net cfg p uid s) = Inl e \<Longrightarrow> e = AttributeError \<and> p"
  by (auto simp: big_three_def split: prod.splits option.splits if_splits net_result.splits
      dest!: seq_run_Inl summary_line_Inl)

lemma save_user_Inl:
  "fst (save_user net cfg p f s) = Inl e \<Longrightarrow>
   e = UnicodeEncodeError \<and> p \<and> first_name f \<noteq> [] \<and> \<not> headers_latin1 (get_headers cfg True)"
  by (auto simp: save_user_def send_def Let_def simp del: headers_latin1_get_headers
      split: if_splits net_result.splits req_exc.splits)

lemma main_section_Inl:
  "fst (main_section net cfg inp clk s) = Inl e \<Longrightarrow>
   (e = TypeError \<and> action inp = ''View All Users'' \<and> clk = Some BFetchAll) \<or>
   (e = AttributeError \<and> action inp = ''Get Big Three (Sun, Moon, Asc)'' \<and> clk = Some BGetBigThree) \<or>
   (e = UnicodeEncodeError \<and> action inp = ''Create/Update User'' \<and> clk = Some BSaveUser \<and>
    first_name (form inp) \<noteq> [] \<and> \<not> headers_latin1 (get_headers cfg True))"
  by (auto simp: main_section_def dest: view_all_users_Inl big_three_Inl save_user_Inl split: if_splits)

lemma summary_line_dict:
  assumes "map_of kvs k = Some (JObj b)" and "b \<noteq> []"
  shows "summary_line (JObj kvs) k label s =
     (Inr (), emit (Write (label @ py_str (case map_of b ''sign'' of Some v \<Rightarrow> v | None \<Rightarrow> JStr ''N/A'') @ '' '' @
                           py_str (case map_of b ''degree'' of Some v \<Rightarrow> v | None \<Rightarrow> JStr []) @ degree_sign)) s)"
  using assms by (simp add: summary_line_def)

section \<open>Properties of the handlers\<close>

text \<open>C3: The payload of Create/Update User has distinct keys: \<open>first_name\<close> always, and each other field exactly when it was filled, with the value typed (the date as \<open>YYYY-MM-DD\<close>, the time as \<open>HH:MM\<close>); an empty field never sends an empty value.\<close>

lemma build_payload_fields:
  "distinct (map fst (build_payload f)) \<and>
   map_of (build_payload f) k =
     (if k = ''first_name'' then Some (JStr (first_name f))
      else if k = ''last_name'' then (if last_name f = [] then None else Some (JStr (last_name f)))
      else if k = ''birthdate'' then map_option (\<lambda>d. JStr (fmt_date d)) (birthdate f)
      else if k = ''birthtime'' then map_option (\<lambda>t. JStr (fmt_time t)) (birthtime f)
      else if k = ''city'' then (if city f = [] then None else Some (JStr (city f)))
      else if k = ''country'' then (if country f = [] then None else Some (JStr (country f)))
      else if k = ''login'' then (if login f = [] then None else Some (JStr (login f)))
      else if k = ''timezone'' then (if timezone f = [] then None else Some (JStr (timezone f)))
      else None)"
  by (rule conjI, simp add: build_payload_keys,
      simp add: build_payload_def map_add_def split: option.split)

text \<open>C4: Saving with an empty first name shows \<open>First name is required!\<close> and makes no request.\<close>

lemma save_user_requires_first_name:
  "first_name f = [] \<Longrightarrow> save_user net cfg True f s = (Inr (), emit (Error ''First name is required!'') s)"
  by (simp add: save_user_def)

lemma save_user_requires_first_name_witness:
  "save_user (\<lambda>_. Raised (ReqExc ConnectionError [])) (initial_config None) True
     (mara_form\<lparr>first_name := []\<rparr>) st_empty = (Inr (), emit (Error ''First name is required!'') st_empty)"
  by (rule save_user_requires_first_name) simp

text \<open>C11: Saving with a non-empty first name makes exactly one call: POST to \<open>BASE_URL/users\<close> with the authenticated headers, the payload as JSON body and a 10 s timeout.\<close>

lemma save_user_calls:
  "first_name f \<noteq> [] \<Longrightarrow>
   calls (snd (save_user net cfg True f s)) =
     calls s @ [mk_req POST (base_url cfg @ ''/users'') (get_headers cfg True) (Some (JObj (build_payload f))) 10]"
  by (simp add: save_user_calls_all)

lemma save_user_calls_witness:
  "calls (snd (save_user (\<lambda>_. Raised (ReqExc ConnectionError [])) (initial_config None) True mara_form st_empty)) =
     [mk_req POST ''http://localhost:8010/users'' (get_headers (initial_config None) True)
        (Some (JObj [(''first_name'', JStr ''Mara'')])) 10]"
  by (subst save_user_calls) (simp_all add: mara_form_def build_payload_def opt_field_def initial_config_def default_base_url_def)

text \<open>C12: When the backend answers the save with a status from 400 to 599, nothing is shown: \<open>if resp:\<close> is false for such a response (\<open>Response.__bool__\<close> is \<open>resp.ok\<close>), so the error branch of \<open>show_response\<close> is never reached; the page keeps only the recorded call, and the save ends normally unless its headers cannot be written (a token with a character above U+00FF).\<close>

lemma save_user_error_status_silent:
  assumes "first_name f \<noteq> []"
    and "net (mk_req POST (base_url cfg @ ''/users'') (get_headers cfg True) (Some (JObj (build_payload f))) 10) = Responded r"
    and "400 \<le> status_code r" and "status_code r < 600"
  shows "save_user net cfg True f s =
           (if headers_latin1 (get_headers cfg True) then Inr () else Inl UnicodeEncodeError,
            record_call (mk_req POST (base_url cfg @ ''/users'') (get_headers cfg True) (Some (JObj (build_payload f))) 10) s)"
  using assms by (simp add: save_user_eq del: headers_latin1_get_headers)

lemma save_user_error_status_silent_witness:
  "save_user (\<lambda>_. Responded \<lparr>status_code = 422, resp_text = ''{\"detail\":\"invalid\"}''\<rparr>)
     (initial_config None) True mara_form st_empty =
   (Inr (), record_call (mk_req POST ''http://localhost:8010/users'' (get_headers (initial_config None) True)
        (Some (JObj (build_payload mara_form))) 10) st_empty)"
  by (subst save_user_error_status_silent) (simp add: mara_form_def initial_config_def default_base_url_def)+

text \<open>C31: A bearer token with a character outside Latin-1 (such as \<open>\<euro>\<close>) makes the save end with an uncaught \<open>UnicodeEncodeError\<close> whenever the backend would answer: \<open>requests.post\<close> is called, \<open>http.client\<close> cannot encode the \<open>Authorization\<close> header, and \<open>make_request\<close> catches only \<open>requests\<close> exceptions; nothing is shown.\<close>

lemma save_user_unencodable_token:
  assumes "first_name f \<noteq> []" and "token_input cfg \<noteq> []" and "\<not> latin1 (token_input cfg)"
    and "net (save_req cfg f) = Responded r"
  shows "save_user net cfg True f s = (Inl UnicodeEncodeError, record_call (save_req cfg f) s)"
  using assms by (simp add: save_user_def send_def Let_def)

lemma save_user_unencodable_token_witness:
  "save_user (\<lambda>_. Responded \<lparr>status_code = 200, resp_text = ''{}''\<rparr>)
     (initial_config None\<lparr>token_input := [CHR 0xE2, CHR 0x82, CHR 0xAC]\<rparr>) True mara_form st_empty =
   (Inl UnicodeEncodeError,
    record_call (save_req (initial_config None\<lparr>token_input := [CHR 0xE2, CHR 0x82, CHR 0xAC]\<rparr>) mara_form) st_empty)"
  by (rule save_user_unencodable_token) (simp_all add: mara_form_def latin1_def is_cont_byte_def)

text \<open>C18: View All Users shows the list returned by the backend and \<open>Found n user(s)\<close> for a non-empty list of n users; for an empty list the count line is not shown.\<close>

lemma view_all_users_list:
  assumes "net (users_req cfg) = Responded r" and "status_code r < 400" and "resp_json r = Some (JArr us)"
  shows "view_all_users net cfg True s =
     (Inr (), (if us = [] then (\<lambda>x. x) else emit (Info (''Found '' @ show_nat (length us) @ '' user(s)'')))
                (emit (JsonView (JArr us)) (record_call (users_req cfg) s)))"
  using assms by (simp add: view_all_users_def show_response_def)

lemma view_all_users_list_witness:
  "view_all_users (\<lambda>_. Responded \<lparr>status_code = 200, resp_text = ''[{\"id\": 1}, {\"id\": 2}]''\<rparr>)
     (initial_config None) True st_empty =
   (Inr (), emit (Info ''Found 2 user(s)'')
              (emit (JsonView (JArr [JObj [(''id'', JInt 1)], JObj [(''id'', JInt 2)]]))
                (record_call (users_req (initial_config None)) st_empty)))"
  by (subst view_all_users_list [where us = "[JObj [(''id'', JInt 1)], JObj [(''id'', JInt 2)]]"])
     (simp add: resp_json_def py_simps)+

text \<open>C19: View All Users ends the script with a \<open>TypeError\<close> when the backend returns a truthy value without a length (a non-zero number or \<open>true\<close>).\<close>

lemma view_all_users_scalar_crash:
  assumes "net (users_req cfg) = Responded r" and "status_code r < 400"
    and "resp_json r = Some v" and "py_truthy v" and "py_len v = Inl e"
  shows "fst (view_all_users net cfg True s) = Inl TypeError"
  using assms by (cases v) (auto simp: view_all_users_def show_response_def)

lemma view_all_users_scalar_crash_witness:
  "fst (view_all_users (\<lambda>_. Responded \<lparr>status_code = 200, resp_text = ''5''\<rparr>) (initial_config None) True st_empty)
   = Inl TypeError"
  by (rule view_all_users_scalar_crash [where v = "JInt 5" and e = TypeError]) (simp add: resp_json_def py_simps)+

text \<open>C20: Get Big Three on an object body with non-empty objects under \<open>Sun\<close>, \<open>Moon\<close> and \<open>Asc\<close> shows the body, the summary heading and one line per body in that order, each with the sign (\<open>N/A\<close> if absent) and the degree followed by the degree sign (an empty degree if absent).\<close>

lemma big_three_summary:
  assumes "net (big_three_req cfg uid) = Responded r" and "status_code r < 400"
    and "resp_json r = Some (JObj kvs)"
    and "map_of kvs ''Sun'' = Some (JObj su)" "su \<noteq> []"
    and "map_of kvs ''Moon'' = Some (JObj mo)" "mo \<noteq> []"
    and "map_of kvs ''Asc'' = Some (JObj asc)" "asc \<noteq> []"
  shows "big_three net cfg True uid s =
     (Inr (), fold emit
        [JsonView (JObj kvs), Markdown ''### Astrology Summary'',
         Write (sun_label @ py_str (case map_of su ''sign'' of Some v \<Rightarrow> v | None \<Rightarrow> JStr ''N/A'') @ '' '' @
                py_str (case map_of su ''degree'' of Some v \<Rightarrow> v | None \<Rightarrow> JStr []) @ degree_sign),
         Write (moon_label @ py_str (case map_of mo ''sign'' of Some v \<Rightarrow> v | None \<Rightarrow> JStr ''N/A'') @ '' '' @
                py_str (case map_of mo ''degree'' of Some v \<Rightarrow> v | None \<Rightarrow> JStr []) @ degree_sign),
         Write (asc_label @ py_str (case map_of asc ''sign'' of Some v \<Rightarrow> v | None \<Rightarrow> JStr ''N/A'') @ '' '' @
                py_str (case map_of asc ''degree'' of Some v \<Rightarrow> v | None \<Rightarrow> JStr []) @ degree_sign)]
        (record_call (big_three_req cfg uid) s))"
proof -
  have "kvs \<noteq> []" using assms(4) by auto
  with assms show ?thesis by (simp add: big_three_def show_response_def summary_line_dict)
qed

lemma big_three_summary_witness:
  "main_out (snd (big_three (\<lambda>_. Responded \<lparr>status_code = 200, resp_text =
      ''{\"Sun\": {\"sign\": \"Leo\", \"degree\": 12}, \"Moon\": {\"sign\": \"Cancer\"}, \"Asc\": {\"degree\": 3.5}}''\<rparr>)
      (initial_config None) True 7 st_empty)) =
   [JsonView (JObj [(''Sun'', JObj [(''sign'', JStr ''Leo''), (''degree'', JInt 12)]), (''Moon'', JObj [(''sign'', JStr ''Cancer'')]),
                    (''Asc'', JObj [(''degree'', JFloat ''3.5'')])]),
    Markdown ''### Astrology Summary'', Write (sun_label @ ''Leo 12'' @ degree_sign),
    Write (moon_label @ ''Cancer '' @ degree_sign), Write (asc_label @ ''N/A 3.5'' @ degree_sign)]"
  by (subst big_three_summary [where kvs = "[(''Sun'', JObj [(''sign'', JStr ''Leo''), (''degree'', JInt 12)]),
        (''Moon'', JObj [(''sign'', JStr ''Cancer'')]), (''Asc'', JObj [(''degree'', JFloat ''3.5'')])]"
      and su = "[(''sign'', JStr ''Leo''), (''degree'', JInt 12)]" and mo = "[(''sign'', JStr ''Cancer'')]"
      and asc = "[(''degree'', JFloat ''3.5'')]"]) (simp add: resp_json_def py_simps float_repr_def repr_str_def)+

text \<open>C29: The birth date and time of the payload are written as \<open>YYYY-MM-DD\<close> and \<open>HH:MM\<close> (section 3 of the specification): four, two and two digits separated by \<open>-\<close>, two and two digits separated by \<open>:\<close>, which read back as the widget's year, month, day, hour and minute.\<close>

lemma fmt_date_time_layout:
  assumes "1000 \<le> year d" "year d \<le> 9999" "1 \<le> month d" "month d \<le> 12" "1 \<le> day d" "day d \<le> 31"
    and "hour t \<le> 23" "minute t \<le> 59"
  shows "(\<exists>y m dd. fmt_date d = y @ ''-'' @ m @ ''-'' @ dd \<and> length y = 4 \<and> length m = 2 \<and> length dd = 2 \<and>
            list_all is_digit (y @ m @ dd) \<and> read_nat y = year d \<and> read_nat m = month d \<and> read_nat dd = day d) \<and>
         (\<exists>h mi. fmt_time t = h @ '':'' @ mi \<and> length h = 2 \<and> length mi = 2 \<and>
            list_all is_digit (h @ mi) \<and> read_nat h = hour t \<and> read_nat mi = minute t)"
proof (intro conjI)
  show "\<exists>y m dd. fmt_date d = y @ ''-'' @ m @ ''-'' @ dd \<and> length y = 4 \<and> length m = 2 \<and> length dd = 2 \<and>
          list_all is_digit (y @ m @ dd) \<and> read_nat y = year d \<and> read_nat m = month d \<and> read_nat dd = day d"
    using assms
    by (intro exI [of _ "show_nat (year d)"] exI [of _ "pad2 (month d)"] exI [of _ "pad2 (day d)"])
       (auto simp: fmt_date_def length_show_nat_4 pad2_len read_pad2 list_all_iff
          dest: show_nat_digits pad2_digits)
  show "\<exists>h mi. fmt_time t = h @ '':'' @ mi \<and> length h = 2 \<and> length mi = 2 \<and>
          list_all is_digit (h @ mi) \<and> read_nat h = hour t \<and> read_nat mi = minute t"
    using assms
    by (intro exI [of _ "pad2 (hour t)"] exI [of _ "pad2 (minute t)"])
       (auto simp: fmt_time_def pad2_len read_pad2 list_all_iff dest: pad2_digits)
qed

lemma fmt_date_time_layout_witness:
  "fmt_date \<lparr>year = 1990, month = 7, day = 4\<rparr> = ''1990-07-04'' \<and> fmt_time \<lparr>hour = 9, minute = 5\<rparr> = ''09:05'' \<and>
   (\<exists>y m dd. fmt_date \<lparr>year = 1990, month = 7, day = 4\<rparr> = y @ ''-'' @ m @ ''-'' @ dd \<and> length y = 4 \<and> length m = 2 \<and>
      length dd = 2 \<and> list_all is_digit (y @ m @ dd) \<and> read_nat y = 1990 \<and> read_nat m = 7 \<and> read_nat dd = 4)"
proof -
  have "(\<exists>y m dd. fmt_date \<lparr>year = 1990, month = 7, day = 4\<rparr> = y @ ''-'' @ m @ ''-'' @ dd \<and> length y = 4 \<and>
            length m = 2 \<and> length dd = 2 \<and> list_all is_digit (y @ m @ dd) \<and>
            read_nat y = year \<lparr>year = 1990, month = 7, day = 4\<rparr> \<and> read_nat m = month \<lparr>year = 1990, month = 7, day = 4\<rparr> \<and>
            read_nat dd = day \<lparr>year = 1990, month = 7, day = 4\<rparr>) \<and>
        (\<exists>h mi. fmt_time \<lparr>hour = 9, minute = 5\<rparr> = h @ '':'' @ mi \<and> length h = 2 \<and> length mi = 2 \<and>
            list_all is_digit (h @ mi) \<and> read_nat h = hour \<lparr>hour = 9, minute = 5\<rparr> \<and>
            read_nat mi = minute \<lparr>hour = 9, minute = 5\<rparr>)"
    by (rule fmt_date_time_layout) simp_all
  moreover have "fmt_date \<lparr>year = 1990, month = 7, day = 4\<rparr> = ''1990-07-04''"
    by (simp add: fmt_date_def pad2_def py_simps)
  moreover have "fmt_time \<lparr>hour = 9, minute = 5\<rparr> = ''09:05''"
    by (simp add: fmt_time_def pad2_def py_simps)
  ultimately show ?thesis by simp
qed

text \<open>C21: Get Big Three ends the script with an \<open>AttributeError\<close> when the backend returns a truthy JSON value that is not an object (a list, a string, a number).\<close>

lemma big_three_non_dict_crash:
  assumes "net (big_three_req cfg uid) = Responded r" and "status_code r < 400"
    and "resp_json r = Some v" and "py_truthy v" and "\<And>kvs. v \<noteq> JObj kvs"
  shows "fst (big_three net cfg True uid s) = Inl AttributeError"
  using assms by (cases v) (auto simp: big_three_def show_response_def summary_line_def)

lemma big_three_non_dict_crash_witness:
  "fst (big_three (\<lambda>_. Responded \<lparr>status_code = 200, resp_text = ''[\"Leo\"]''\<rparr>) (initial_config None) True 1 st_empty)
   = Inl AttributeError"
  by (rule big_three_non_dict_crash [where v = "JArr [JStr ''Leo'']"]) (simp add: resp_json_def py_simps)+

text \<open>C25: On status 200, Generate Booklet and Generate Calendar show the success message and \<open>The PDF has been saved to your Downloads folder.\<close> whatever the body is: the PDF bytes of the response are never read, let alone saved.\<close>

lemma gen_pdf_success:
  assumes "net (mk_req GET url (get_headers cfg False) None 120) = Responded r" and "status_code r = 200"
  shows "gen_pdf net cfg url m s =
           (Inr (), emit (Info ''The PDF has been saved to your Downloads folder.'')
             (emit (Success m) (record_call (mk_req GET url (get_headers cfg False) None 120) s)))"
  using assms by (simp add: gen_pdf_def)

lemma gen_pdf_success_witness:
  "gen_pdf (\<lambda>_. Responded \<lparr>status_code = 200, resp_text = ''%PDF-1.7''\<rparr>) (initial_config None)
     ''http://localhost:8010/users/7/booklet'' ''done'' st_empty =
   (Inr (), emit (Info ''The PDF has been saved to your Downloads folder.'')
     (emit (Success ''done'') (record_call (mk_req GET ''http://localhost:8010/users/7/booklet''
        (get_headers (initial_config None) False) None 120) st_empty)))"
  by (rule gen_pdf_success) simp+

text \<open>C22: The health check shows \<open>Backend is healthy!\<close> (and the JSON body, if any) for status 200, \<open>Backend health check failed\<close> for any other status outside 400--599, and nothing at all for a status in 400--599; it makes one GET to \<open>/health\<close> with a 5 s timeout.\<close>

lemma health_check_response:
  assumes "net (health_req cfg) = Responded r"
  shows "side_out (snd (health_check net cfg True s)) = side_out s @
           (if status_code r = 200 then
              Success (check_mark @ '' Backend is healthy!'') # (case resp_json r of Some d \<Rightarrow> [JsonView d] | None \<Rightarrow> [])
            else if resp_ok r then [Error (cross_mark @ '' Backend health check failed'')]
            else []) \<and>
         main_out (snd (health_check net cfg True s)) = main_out s \<and>
         calls (snd (health_check net cfg True s)) = calls s @ [health_req cfg] \<and>
         fst (health_check net cfg True s) = Inr ()"
  using assms by (auto simp: health_check_def Let_def split: option.split)

lemma health_check_response_witness:
  "side_out (snd (health_check (\<lambda>_. Responded \<lparr>status_code = 503, resp_text = ''down''\<rparr>) (initial_config None) True st_empty)) = []"
  using health_check_response [where net = "\<lambda>_. Responded \<lparr>status_code = 503, resp_text = ''down''\<rparr>"
      and cfg = "initial_config None" and s = st_empty] by simp

end
