(* ===== verification/Interface.thy ===== *)
theory Interface
  imports Actions
begin

text \<open>
  The contract between the UI and the backend.  Section 6 of the specification lists,
  for each action, the method, the path (with its query), the timeout and whether the
  request is authenticated; \<open>spec_route\<close> is that table and \<open>route_request\<close> the
  request it prescribes under a configuration and inputs.  \<open>button_action\<close> says in
  which branch of the action chain of \<open>src/app.py\<close> each button is rendered (the health
  check's button is always in the sidebar).  The lemma \<open>calls_run_script_table\<close>
  relates every run of the script to the table: the run makes the table's request for
  the button pressed, or no request at all.
\<close>

text \<open>Section 6 of the specification: for each button, the method, path (with query), timeout and whether the request is authenticated.\<close>

datatype route = Route http_method string nat bool

fun spec_route :: "button \<Rightarrow> inputs \<Rightarrow> route" where
  "spec_route BFetchAll i = Route GET ''/users'' 10 False"
| "spec_route BFetchUser i = Route GET (''/users/'' @ show_int (user_id i)) 10 False"
| "spec_route BSaveUser i = Route POST ''/users'' 10 True"
| "spec_route BGetPlacements i = Route GET (''/users/'' @ show_int (user_id i) @ ''/placements'') 30 False"
| "spec_route BGetBigThree i = Route GET (''/users/'' @ show_int (user_id i) @ ''/big-three'') 30 False"
| "spec_route BGenBooklet i = Route GET (''/users/'' @ show_int (user_id i) @ ''/booklet'') 120 False"
| "spec_route BGenCalendar i =
     Route GET (''/users/'' @ show_int (user_id i) @ ''/calendar?year='' @ show_int (year_in i)) 120 False"
| "spec_route BHealth i = Route GET ''/health'' 5 False"

fun route_request :: "config \<Rightarrow> inputs \<Rightarrow> route \<Rightarrow> request" where
  "route_request cfg i (Route m p t auth) =
     mk_req m (base_url cfg @ p) (get_headers cfg auth)
       (if m = POST then Some (JObj (build_payload (form i))) else None) t"

fun button_action :: "button \<Rightarrow> string option" where
  "button_action BFetchAll = Some ''View All Users''"
| "button_action BFetchUser = Some ''Get User by ID''"
| "button_action BSaveUser = Some ''Create/Update User''"
| "button_action BGetPlacements = Some ''Get Astrology Placements''"
| "button_action BGetBigThree = Some ''Get Big Three (Sun, Moon, Asc)''"
| "button_action BGenBooklet = Some ''Generate Booklet PDF''"
| "button_action BGenCalendar = Some ''Generate Calendar PDF''"
| "button_action BHealth = None"

definition button_shown :: "button \<Rightarrow> inputs \<Rightarrow> bool" where
  "button_shown b i = (case button_action b of None \<Rightarrow> True | Some a \<Rightarrow> action i = a)"

lemma calls_run_script_table:
  "calls (snd (run_script net cfg inp clk)) =
     (case clk of
        None \<Rightarrow> []
      | Some b \<Rightarrow>
          if button_shown b inp \<and> (b = BSaveUser \<longrightarrow> first_name (form inp) \<noteq> [])
          then [route_request cfg inp (spec_route b inp)] else [])"
proof (cases clk)
  case None
  then show ?thesis by (simp add: calls_run_script main_section_unpressed)
next
  case (Some b)
  then show ?thesis
    by (cases b)
       (auto simp: calls_run_script button_shown_def main_section_def user_url_def
          view_all_users_calls get_user_by_id_calls save_user_calls_all get_placements_calls
          big_three_calls gen_booklet_calls gen_calendar_calls)
qed

end
