(* ===== verification/Session.thy ===== *)
theory Session
  imports Interface
begin

text \<open>
  A Streamlit session of \<open>src/app.py\<close>.  Every interaction reruns the script from the
  top: editing the base URL or the token in the sidebar, editing the select box or any
  input widget, or pressing a button.  The session keeps the configuration and the
  widget values (Streamlit's widget state), the page of the last run, the exception that
  ended it if any, and the log of every request made since the session began.  A step is
  a rerun under an arbitrary network, so the backend may answer differently at every
  step.  The widgets constrain the inputs: the select box offers only the seven actions,
  the user id is at least 1 and the year lies in 2020--2100 (\<open>st.number_input\<close>'s
  bounds), and a button can be pressed only in the branch that renders it.

  The lemmas are invariants over the reachable sessions, by rule induction: every
  request ever made is a request of the specification's table, the \<open>Authorization\<close>
  header is only ever sent with the save, and the log grows by at most one request per
  interaction; and no spinner is left showing after a run, and only the PDF requests are
  sent under one.
\<close>

record session =
  s_cfg :: config
  s_inp :: inputs
  s_page :: st
  s_exc :: "py_exc option"
  s_log :: "request list"

datatype event = EditBaseUrl string | EditToken string | EditInputs inputs | Click button

text \<open>The values the widgets can hold.\<close>

definition wf_inputs :: "inputs \<Rightarrow> bool" where
  "wf_inputs i \<longleftrightarrow>
     action i \<in> set action_options \<and> 1 \<le> user_id i \<and> 2020 \<le> year_in i \<and> year_in i \<le> 2100"

fun event_ok :: "session \<Rightarrow> event \<Rightarrow> bool" where
  "event_ok S (EditInputs i) = wf_inputs i"
| "event_ok S (Click b) = button_shown b (s_inp S)"
| "event_ok S _ = True"

definition rerun :: "network \<Rightarrow> config \<Rightarrow> inputs \<Rightarrow> button option \<Rightarrow> session \<Rightarrow> session" where
  "rerun net c i clk S =
     (let (ex, p) = run_script net c i clk
      in S\<lparr>s_cfg := c, s_inp := i, s_page := p, s_exc := ex, s_log := s_log S @ calls p\<rparr>)"

fun session_step :: "network \<Rightarrow> session \<Rightarrow> event \<Rightarrow> session" where
  "session_step net S (EditBaseUrl u) = rerun net ((s_cfg S)\<lparr>base_url := u\<rparr>) (s_inp S) None S"
| "session_step net S (EditToken t) = rerun net ((s_cfg S)\<lparr>token_input := t\<rparr>) (s_inp S) None S"
| "session_step net S (EditInputs i) = rerun net (s_cfg S) i None S"
| "session_step net S (Click b) = rerun net (s_cfg S) (s_inp S) (Some b) S"

text \<open>The widgets' default values (lines 108--165) and the first, empty page.\<close>

definition empty_form :: user_form where
  "empty_form = \<lparr>first_name = [], last_name = [], birthdate = None, birthtime = None,
                 city = [], country = [], login = [], timezone = []\<rparr>"

definition initial_inputs :: inputs where
  "initial_inputs = \<lparr>action = ''View All Users'', user_id = 1, year_in = 2026, form = empty_form\<rparr>"

definition init_session :: "string option \<Rightarrow> session" where
  "init_session env =
     \<lparr>s_cfg = initial_config env, s_inp = initial_inputs, s_page = st_empty, s_exc = None, s_log = []\<rparr>"

inductive reachable :: "string option \<Rightarrow> session \<Rightarrow> bool" for env where
  init: "reachable env (init_session env)"
| step: "reachable env S \<Longrightarrow> event_ok S ev \<Longrightarrow> reachable env (session_step net S ev)"

text \<open>A concrete session used by the witnesses: set a token, fill the form with a first name, save.\<close>

definition net_empty_list :: network where
  "net_empty_list = (\<lambda>_. Responded \<lparr>status_code = 200, resp_text = ''[]''\<rparr>)"

definition save_inputs :: inputs where
  "save_inputs = \<lparr>action = ''Create/Update User'', user_id = 1, year_in = 2026, form = mara_form\<rparr>"

definition session_saved :: session where
  "session_saved =
     session_step net_empty_list
       (session_step net_empty_list
          (session_step net_empty_list (init_session None) (EditToken ''abc'')) (EditInputs save_inputs))
       (Click BSaveUser)"

text \<open>A second session: select Generate Booklet PDF, press Generate Booklet.\<close>

definition booklet_inputs :: inputs where
  "booklet_inputs = initial_inputs\<lparr>action := ''Generate Booklet PDF''\<rparr>"

definition session_booklet :: session where
  "session_booklet =
     session_step net_empty_list (session_step net_empty_list (init_session None) (EditInputs booklet_inputs))
       (Click BGenBooklet)"

section \<open>Lemmas on sessions\<close>

lemma rerun_log: "s_log (rerun net c i clk S) = s_log S @ calls (snd (run_script net c i clk))"
  and rerun_page: "s_page (rerun net c i clk S) = snd (run_script net c i clk)"
  and rerun_exc: "s_exc (rerun net c i clk S) = fst (run_script net c i clk)"
  and rerun_cfg: "s_cfg (rerun net c i clk S) = c"
  and rerun_inp: "s_inp (rerun net c i clk S) = i"
  by (simp_all add: rerun_def split: prod.split)

lemma inp_session_step [simp]:
  "s_inp (session_step net S ev) = (case ev of EditInputs i \<Rightarrow> i | _ \<Rightarrow> s_inp S)"
  by (cases ev) (simp_all add: rerun_inp)

lemma cfg_session_step [simp]:
  "s_cfg (session_step net S ev) =
     (case ev of
        EditBaseUrl u \<Rightarrow> (s_cfg S)\<lparr>base_url := u\<rparr>
      | EditToken t \<Rightarrow> (s_cfg S)\<lparr>token_input := t\<rparr>
      | _ \<Rightarrow> s_cfg S)"
  by (cases ev) (simp_all add: rerun_cfg)

lemma wf_initial_inputs: "wf_inputs initial_inputs"
  by (simp add: wf_inputs_def initial_inputs_def action_options_def)

lemma reachable_wf_inputs: "reachable env S \<Longrightarrow> wf_inputs (s_inp S)"
  by (induction rule: reachable.induct)
     (auto simp: init_session_def wf_initial_inputs rerun_inp elim: event_ok.elims)

lemma log_session_step:
  "s_log (session_step net S ev) = s_log S @
     (case ev of
        Click b \<Rightarrow>
          if button_shown b (s_inp S) \<and> (b = BSaveUser \<longrightarrow> first_name (form (s_inp S)) \<noteq> [])
          then [route_request (s_cfg S) (s_inp S) (spec_route b (s_inp S))] else []
      | _ \<Rightarrow> [])"
  by (cases ev) (simp_all add: rerun_log calls_run_script_table)

lemma reachable_session_saved: "reachable None session_saved"
  unfolding session_saved_def
  by (intro reachable.step reachable.init)
     (simp_all add: rerun_inp button_shown_def save_inputs_def wf_inputs_def action_options_def)

lemma log_session_saved:
  "s_log session_saved =
     [route_request (initial_config None\<lparr>token_input := ''abc''\<rparr>) save_inputs (Route POST ''/users'' 10 True)]"
  by (simp add: session_saved_def log_session_step rerun_inp rerun_cfg init_session_def
      button_shown_def save_inputs_def mara_form_def del: session_step.simps)

lemma reachable_session_booklet: "reachable None session_booklet"
  unfolding session_booklet_def
  by (intro reachable.step reachable.init)
     (simp_all add: rerun_inp button_shown_def booklet_inputs_def initial_inputs_def wf_inputs_def action_options_def)

section \<open>Invariants of sessions\<close>

text \<open>Every request in the log of a session is a request of the specification's table.\<close>

lemma log_in_table:
  assumes "reachable env S" and "rq \<in> set (s_log S)"
  shows "\<exists>c i b. wf_inputs i \<and> button_shown b i \<and> rq = route_request c i (spec_route b i)"
  using assms
proof (induction rule: reachable.induct)
  case init
  then show ?case by (simp add: init_session_def)
next
  case (step S ev net)
  then show ?case
    using reachable_wf_inputs [OF step.hyps(1)]
    by (auto simp: log_session_step split: event.splits if_splits)
qed

text \<open>C15: In every session, the \<open>Authorization\<close> header is only ever sent with a POST (the save), and then as \<open>Bearer t\<close> for a non-empty token \<open>t\<close>.\<close>

theorem auth_only_on_save:
  assumes "reachable env S" and "rq \<in> set (s_log S)" and "(''Authorization'', v) \<in> set (req_headers rq)"
  shows "req_method rq = POST \<and> (\<exists>t. t \<noteq> [] \<and> v = ''Bearer '' @ t)"
proof -
  obtain c i b where rq: "rq = route_request c i (spec_route b i)"
    using log_in_table [OF assms(1,2)] by blast
  with assms(3) show ?thesis
    by (cases b) (auto simp: get_headers_def split: if_splits)
qed

lemma auth_only_on_save_witness:
  "(''Authorization'', ''Bearer abc'') \<in> set (req_headers (route_request (initial_config None\<lparr>token_input := ''abc''\<rparr>)
       save_inputs (Route POST ''/users'' 10 True))) \<and>
   req_method (route_request (initial_config None\<lparr>token_input := ''abc''\<rparr>) save_inputs (Route POST ''/users'' 10 True)) = POST"
proof -
  let ?rq = "route_request (initial_config None\<lparr>token_input := ''abc''\<rparr>) save_inputs (Route POST ''/users'' 10 True)"
  have m: "?rq \<in> set (s_log session_saved)" by (simp add: log_session_saved)
  have h: "(''Authorization'', ''Bearer abc'') \<in> set (req_headers ?rq)"
    by (simp add: get_headers_def)
  show ?thesis using h auth_only_on_save [OF reachable_session_saved m h] by simp
qed

text \<open>C28: The configuration is read again at every request (section 3 of the specification): after the base URL is edited in the sidebar, pressing a visible button sends the table's request under the new base URL, whatever was sent before.\<close>

lemma base_url_reread:
  assumes "button_shown b (s_inp S)" and "b = BSaveUser \<longrightarrow> first_name (form (s_inp S)) \<noteq> []"
  shows "s_log (session_step net (session_step net0 S (EditBaseUrl u)) (Click b)) =
         s_log S @ [route_request ((s_cfg S)\<lparr>base_url := u\<rparr>) (s_inp S) (spec_route b (s_inp S))]"
  using assms by (simp add: log_session_step del: session_step.simps)

lemma base_url_reread_witness:
  "req_url (last (s_log (session_step net_empty_list (session_step net_empty_list (init_session None)
      (EditBaseUrl ''http://api:9000'')) (Click BHealth)))) = ''http://api:9000/health''"
proof -
  have "s_log (session_step net_empty_list (session_step net_empty_list (init_session None)
      (EditBaseUrl ''http://api:9000'')) (Click BHealth)) =
        s_log (init_session None) @ [route_request ((s_cfg (init_session None))\<lparr>base_url := ''http://api:9000''\<rparr>)
          (s_inp (init_session None)) (spec_route BHealth (s_inp (init_session None)))]"
    by (rule base_url_reread) (simp_all add: button_shown_def)
  then show ?thesis by simp
qed

text \<open>C30: In every session, no spinner is left showing after a run, and the requests of
  the page were sent under a spinner exactly when they are the long (120 s) PDF requests:
  Generate Booklet and Generate Calendar show their message while they wait, and no other
  request does.\<close>

theorem spinner_invariant:
  assumes "reachable env S"
  shows "spinner (s_page S) = None \<and>
         list_all2 (\<lambda>rq sp. sp \<noteq> None \<longleftrightarrow> req_timeout rq = 120) (calls (s_page S)) (call_spinners (s_page S))"
  using assms
proof (induction rule: reachable.induct)
  case init
  then show ?case by (simp add: init_session_def)
next
  case (step S ev net)
  let ?clk = "case ev of Click b \<Rightarrow> Some b | _ \<Rightarrow> None"
  have p: "s_page (session_step net S ev) =
      snd (run_script net (s_cfg (session_step net S ev)) (s_inp (session_step net S ev)) ?clk)"
    by (cases ev) (simp_all add: rerun_page rerun_cfg rerun_inp)
  have r: "spinner (s_page (session_step net S ev)) = None \<and>
      call_spinners (s_page (session_step net S ev)) = map (\<lambda>_. button_spinner ?clk) (calls (s_page (session_step net S ev)))"
    unfolding p by (rule run_script_spinners)
  show ?case
  proof (cases ev)
    case (Click b)
    with r p show ?thesis by (cases b) (simp_all add: calls_run_script_table list_all2_map2)
  qed (use r p in \<open>simp_all add: calls_run_script_table list_all2_map2\<close>)
qed

lemma spinner_invariant_witness:
  "spinner (s_page session_booklet) = None \<and>
   list_all2 (\<lambda>rq sp. sp \<noteq> None \<longleftrightarrow> req_timeout rq = 120) (calls (s_page session_booklet))
     (call_spinners (s_page session_booklet)) \<and>
   call_spinners (s_page session_booklet) = [Some booklet_spinner]"
proof -
  have c: "call_spinners (s_page session_booklet) = [Some booklet_spinner]"
    using run_script_spinners [of net_empty_list "initial_config None" booklet_inputs "Some BGenBooklet"]
    by (simp add: session_booklet_def rerun_page rerun_inp rerun_cfg init_session_def booklet_inputs_def
        initial_inputs_def calls_run_script_table button_shown_def)
  show ?thesis using spinner_invariant [OF reachable_session_booklet] c by simp
qed

end
