(* ===== verification/Layout.thy ===== *)
theory Layout
  imports Session
begin

text \<open>
  The page setup and the static layout of \<open>src/app.py\<close>: the options and page
  configuration set before anything is rendered (lines 11--20), and the title, headers,
  texts, input widgets and buttons every run renders, in source order, in the main area
  and in the sidebar.  A widget is recorded with the arguments the code passes to it
  (label, default value, bounds, help text); a button by its label.  What a run renders
  depends on the selected action (the \<open>if/elif\<close> chain renders one section) and on
  whether the run ends normally: an uncaught exception in the main section stops the
  script before the footer (lines 271--272) and the sidebar's health check button
  (line 275).  The theory records what each run puts on the page; the behaviour of the
  page is proved on the handlers and the runs.
\<close>

section \<open>Page setup (lines 11--20)\<close>

record page_setup =
  show_error_details :: bool
  page_title :: string
  layout :: string
  initial_sidebar_state :: string

definition app_setup :: page_setup where
  "app_setup =
     \<lparr>show_error_details = False, page_title = ''Astrology Booklet Portal'', layout = ''wide'',
      initial_sidebar_state = ''expanded''\<rparr>"

section \<open>Rendered items\<close>

text \<open>\<open>st.text_input(label, value, type=\"password\", help)\<close>,
  \<open>st.number_input(label, min_value, max_value, value, step)\<close>, \<open>st.date_input\<close> and
  \<open>st.time_input\<close> with \<open>value=None\<close>, \<open>st.selectbox(label, options)\<close> and
  \<open>st.button(label)\<close>.\<close>

datatype widget =
    TextInput string string bool "string option"
  | NumberInput string int "int option" int int
  | DateInput string
  | TimeInput string
  | SelectBox string "string list"
  | Button string

text \<open>\<open>st.title\<close>, \<open>st.header\<close>, \<open>st.subheader\<close>, \<open>st.write\<close> of a text,
  \<open>st.markdown\<close>, \<open>st.caption\<close>, \<open>st.columns(n)\<close> and a widget.\<close>

datatype item =
    Title string
  | Header string
  | Subheader string
  | Text string
  | Markdown string
  | Caption string
  | Columns nat
  | Widget widget

fun button_label :: "button \<Rightarrow> string" where
  "button_label BFetchAll = ''Fetch All Users''"
| "button_label BFetchUser = ''Fetch User''"
| "button_label BSaveUser = ''Save User''"
| "button_label BGetPlacements = ''Get Placements''"
| "button_label BGetBigThree = ''Get Big Three''"
| "button_label BGenBooklet = ''Generate Booklet''"
| "button_label BGenCalendar = ''Generate Calendar''"
| "button_label BHealth = utf8_string [0x1F50D] @ '' Check Backend Health''"

section \<open>The main area\<close>

text \<open>The user id widget of five sections (lines 140, 205, 216, 235, 252) and the year
  widget of the calendar section (line 253).\<close>

definition user_id_input :: widget where
  "user_id_input = NumberInput ''User ID'' 1 None 1 1"

definition year_input :: widget where
  "year_input = NumberInput ''Year'' 2020 (Some 2100) 2026 1"

text \<open>The form of Create/Update User (lines 151--165).\<close>

definition user_form_items :: "item list" where
  "user_form_items =
     [Text ''Fill in the form below. Leave fields empty if you don't want to update them.'',
      Columns 2,
      Widget (TextInput ''First Name *'' [] False None),
      Widget (TextInput ''Last Name'' [] False None),
      Widget (DateInput ''Birthdate''),
      Widget (TimeInput ''Birth Time (24h)''),
      Widget (TextInput ''City'' [] False None),
      Widget (TextInput ''Country'' [] False None),
      Widget (TextInput ''Login/Email'' [] False None),
      Widget (TextInput ''Timezone (IANA)'' [] False (Some ''e.g., Europe/Brussels''))]"

text \<open>The section of the selected action: its subheader, widgets and button (lines
  126--266, without the output of the handlers, which \<open>Actions\<close> models).\<close>

definition action_section :: "string \<Rightarrow> item list" where
  "action_section a =
     (if a = ''View All Users'' then
        [Subheader (utf8_string [0x1F4CB] @ '' All Users''), Widget (Button (button_label BFetchAll))]
      else if a = ''Get User by ID'' then
        [Subheader (utf8_string [0x1F50D] @ '' Get User by ID''), Widget user_id_input,
         Widget (Button (button_label BFetchUser))]
      else if a = ''Create/Update User'' then
        Subheader (utf8_string [0x2795] @ '' Create/Update User'') # user_form_items @
        [Widget (Button (button_label BSaveUser))]
      else if a = ''Get Astrology Placements'' then
        [Subheader (utf8_string [0x2B50] @ '' Astrology Placements''), Widget user_id_input,
         Widget (Button (button_label BGetPlacements))]
      else if a = ''Get Big Three (Sun, Moon, Asc)'' then
        [Subheader (utf8_string [0x1F31F] @ '' Big Three (Sun, Moon, Ascendant)''), Widget user_id_input,
         Widget (Button (button_label BGetBigThree))]
      else if a = ''Generate Booklet PDF'' then
        [Subheader (utf8_string [0x1F4D6] @ '' Generate Booklet PDF''), Widget user_id_input,
         Widget (Button (button_label BGenBooklet))]
      else if a = ''Generate Calendar PDF'' then
        [Subheader (utf8_string [0x1F4C5] @ '' Generate Calendar PDF''), Widget user_id_input,
         Widget year_input, Widget (Button (button_label BGenCalendar))]
      else [])"

text \<open>The main area of a run: title and select box (lines 22--23, 108--121), the
  section, and the footer (lines 271--272) when the run was not ended by an exception.\<close>

definition page_main :: "inputs \<Rightarrow> bool \<Rightarrow> item list" where
  "page_main inp completed =
     [Title (utf8_string [0x1F319] @ '' Astrology Booklet User Management''),
      Text ''Frontend UI for managing users and generating astrology booklets'',
      Widget (SelectBox ''Select Action'' action_options),
      Markdown ''---''] @
     action_section (action inp) @
     (if completed then
        [Markdown ''---'',
         Caption (utf8_string [0x1F4A1] @
           '' Note: This UI connects to the FastAPI backend for user management and astrology booklet generation.'')]
      else [])"

section \<open>The sidebar\<close>

text \<open>The configuration inputs (lines 28--38), whose base URL defaults to the
  environment's \<open>API_BASE_URL\<close>, and the health check button (line 275) when the run
  gets that far.\<close>

definition page_side :: "string option \<Rightarrow> bool \<Rightarrow> item list" where
  "page_side env completed =
     [Header (utf8_string [0x2699, 0xFE0F] @ '' Configuration''),
      Widget (TextInput ''API Base URL'' (base_url (initial_config env)) False
        (Some ''Enter your FastAPI backend URL'')),
      Widget (TextInput ''Bearer Token (Optional)'' [] True (Some ''Enter API token if required''))] @
     (if completed then [Widget (Button (button_label BHealth))] else [])"

text \<open>The layout of one run, main area and sidebar.\<close>

definition run_layout ::
  "network \<Rightarrow> config \<Rightarrow> string option \<Rightarrow> inputs \<Rightarrow> button option \<Rightarrow> item list \<times> item list" where
  "run_layout net cfg env inp clk =
     (let completed = (fst (run_script net cfg inp clk) = None)
      in (page_main inp completed, page_side env completed))"

end
