(* ===== verification/Dispatch.thy ===== *)
theory Dispatch
  imports Adapter
begin















end
