(* ===== verification/Json_Encode.thy ===== *)
theory Json_Encode
  imports Json_Decode
begin

text \<open>
  \<open>pretty\<close> (\<open>src/app.py\<close>, lines 43--48) formats a decoded value with
  \<open>json.dumps(obj, indent=2, ensure_ascii=False)\<close>.  This theory models CPython's
  encoder for the values \<open>json\<close> can hold (string escaping, the indented layout, the
  number and constant spellings) and proves that \<open>resp.json()\<close>, i.e. \<open>loads\<close> of
  \<open>Json_Decode\<close>, reads the output back to the same value.  The proof goes through the
  token stream \<open>tokens_of\<close> of a value: the lexer turns the printed text into that
  stream (strings by the escape lemmas, numbers by the lemmas that a number lexeme is not
  extended by the delimiter after it), and the parser's stack machine turns the stream
  into the value (the keys of a well-formed dict are new, so \<open>dict_insert\<close> appends).
\<close>

section \<open>\<open>pretty\<close>: \<open>json.dumps(obj, indent=2, ensure_ascii=False)\<close>\<close>

text \<open>\<open>py_encode_basestring\<close>: the quote and the backslash are escaped, as are the
  control characters below U+0020 (\<open>\b \f \n \r \t\<close> by name, the others as
  \<open>\u00xx\<close> in lower-case hex); with \<open>ensure_ascii=False\<close> every other character,
  DEL and non-ASCII included, is written as it is.\<close>

definition dump_char :: "char \<Rightarrow> string" where
  "dump_char c =
     (if c = CHR 0x5C then [CHR 0x5C, CHR 0x5C]
      else if c = CHR 0x22 then [CHR 0x5C, CHR 0x22]
      else if c = CHR 0x08 then [CHR 0x5C, CHR ''b'']
      else if c = CHR 0x0C then [CHR 0x5C, CHR ''f'']
      else if c = CHR 0x0A then [CHR 0x5C, CHR ''n'']
      else if c = CHR 0x0D then [CHR 0x5C, CHR ''r'']
      else if c = CHR 0x09 then [CHR 0x5C, CHR ''t'']
      else if of_char c < (32::nat) then [CHR 0x5C, CHR ''u'', CHR ''0'', CHR ''0''] @ hex2 (of_char c)
      else [c])"

definition dump_str :: "string \<Rightarrow> string" where
  "dump_str s = CHR 0x22 # concat (map dump_char s) @ [CHR 0x22]"

text \<open>A text that cannot continue a number: empty, or starting with neither a digit nor
  \<open>. e E\<close>.\<close>

definition num_safe :: "string \<Rightarrow> bool" where
  "num_safe r \<longleftrightarrow> (case r of [] \<Rightarrow> True | c # _ \<Rightarrow> \<not> is_digit c \<and> c \<notin> {CHR ''.'', CHR ''e'', CHR ''E''})"

text \<open>\<open>_iterencode\<close> with \<open>indent=2\<close> and the default separators \<open>(',', ': ')\<close>:
  an empty list or dict is \<open>[]\<close> or \<open>{}\<close>; otherwise each item is on a line of its own,
  indented by two spaces per level, and the closing bracket on a line at the enclosing
  level.  Keys keep their insertion order (\<open>sort_keys=False\<close>).  A float is written as
  its lexeme (\<open>float.__repr__\<close> of a finite float is not modelled; \<open>NaN\<close> and
  \<open>Infinity\<close> are written as \<open>_floatstr\<close> writes them).\<close>

definition newline_indent :: "nat \<Rightarrow> string" where
  "newline_indent n = CHR 0x0A # replicate (2 * n) (CHR '' '')"

fun dumps :: "nat \<Rightarrow> json \<Rightarrow> string" where
  "dumps n JNull = ''null''"
| "dumps n (JBool b) = (if b then ''true'' else ''false'')"
| "dumps n (JInt i) = show_int i"
| "dumps n (JFloat s) = s"
| "dumps n (JStr s) = dump_str s"
| "dumps n (JArr xs) =
     (if xs = [] then ''[]''
      else ''['' @ newline_indent (Suc n) @ join ('','' @ newline_indent (Suc n)) (map (dumps (Suc n)) xs) @
           newline_indent n @ '']'')"
| "dumps n (JObj kvs) =
     (if kvs = [] then ''{}''
      else ''{'' @ newline_indent (Suc n) @
           join ('','' @ newline_indent (Suc n)) (map (\<lambda>(k, v). dump_str k @ '': '' @ dumps (Suc n) v) kvs) @
           newline_indent n @ ''}'')"

text \<open>\<open>pretty(obj)\<close> (lines 43--48).  \<open>json.dumps\<close> does not raise on a decoded JSON
  value (no cycles, only JSON types, \<open>allow_nan=True\<close>), so the \<open>except\<close> branch
  returning \<open>str(obj)\<close> is not reached.\<close>

definition pretty :: "json \<Rightarrow> string" where
  "pretty v = dumps 0 v"

text \<open>The tokens of the JSON text of a value, and the floats that print as a lexeme
  \<open>json.loads\<close> reads back.\<close>

fun commas :: "token list list \<Rightarrow> token list" where
  "commas [] = []"
| "commas [x] = x"
| "commas (x # xs) = x @ TComma # commas xs"

fun tokens_of :: "json \<Rightarrow> token list" where
  "tokens_of JNull = [TNull]"
| "tokens_of (JBool b) = [if b then TTrue else TFalse]"
| "tokens_of (JInt i) = [TInt i]"
| "tokens_of (JFloat s) = [TFloat s]"
| "tokens_of (JStr s) = [TString s]"
| "tokens_of (JArr xs) = TLBrack # commas (map tokens_of xs) @ [TRBrack]"
| "tokens_of (JObj kvs) = TLBrace # commas (map (\<lambda>(k, v). TString k # TColon # tokens_of v) kvs) @ [TRBrace]"

fun float_ok :: "json \<Rightarrow> bool" where
  "float_ok (JFloat s) = (s \<in> set [''NaN'', ''Infinity'', ''-Infinity''] \<or> lex_number s = Some (TFloat s, []))"
| "float_ok (JArr xs) = list_all float_ok xs"
| "float_ok (JObj kvs) = list_all (\<lambda>(k, v). float_ok v) kvs"
| "float_ok _ = True"

section \<open>Lexing strings and numbers\<close>

lemma hex_val_hex_digit: "d < 16 \<Longrightarrow> hex_val (hex_digit d) = Some d"
  by (auto simp: hex_val_def hex_digit_def Let_def)

lemma scan_unicode_control:
  assumes "of_char c < (32::nat)"
  shows "scan_unicode (CHR ''0'' # CHR ''0'' # hex2 (of_char c) @ r) = Some ([c], r)"
proof -
  let ?n = "of_char c :: nat"
  have m: "?n div 16 mod 16 = ?n div 16" using assms by simp
  have a: "16 * (?n div 16 mod 16) + ?n mod 16 = ?n" unfolding m by (rule mult_div_mod_eq)
  have h: "hex4 (CHR ''0'') (CHR ''0'') (hex_digit (?n div 16 mod 16)) (hex_digit (?n mod 16)) = Some ?n"
    by (simp add: hex4_def hex_val_hex_digit, simp add: hex_val_def, rule a)
  have "\<not> is_high_surrogate ?n" using assms by (simp add: is_high_surrogate_def)
  moreover have "utf8_encode ?n = [c]" using assms by (simp add: utf8_encode_def)
  ultimately show ?thesis by (simp add: scan_unicode_def hex2_def h)
qed

lemma scan_string_dump_char: "scan_string acc (dump_char c @ r) = scan_string (acc @ [c]) r"
proof -
  consider "c = CHR 0x5C \<or> c = CHR 0x22 \<or> c = CHR 0x08 \<or> c = CHR 0x0C \<or> c = CHR 0x0A \<or> c = CHR 0x0D \<or> c = CHR 0x09"
    | "c \<notin> {CHR 0x5C, CHR 0x22, CHR 0x08, CHR 0x0C, CHR 0x0A, CHR 0x0D, CHR 0x09}" "of_char c < (32::nat)"
    | "c \<notin> {CHR 0x5C, CHR 0x22, CHR 0x08, CHR 0x0C, CHR 0x0A, CHR 0x0D, CHR 0x09}" "\<not> of_char c < (32::nat)"
    by blast
  then show ?thesis
  proof cases
    case 1
    then show ?thesis by (elim disjE) (simp_all add: dump_char_def scan_escape_def simple_escape_def)
  next
    case 2
    then show ?thesis by (simp add: dump_char_def scan_escape_def scan_unicode_control)
  next
    case 3
    then show ?thesis by (auto simp: dump_char_def)
  qed
qed

lemma scan_string_dump:
  "scan_string acc (concat (map dump_char s) @ CHR 0x22 # r) = Some (acc @ s, r)"
  by (induction s arbitrary: acc) (simp_all add: scan_string_dump_char)

lemma digits_append:
  assumes "num_safe r"
  shows "takeWhile is_digit (x @ r) = takeWhile is_digit x \<and> dropWhile is_digit (x @ r) = dropWhile is_digit x @ r"
proof (cases "\<forall>c\<in>set x. is_digit c")
  case True
  moreover have "takeWhile is_digit r = [] \<and> dropWhile is_digit r = r"
    using assms by (cases r) (simp_all add: num_safe_def)
  ultimately show ?thesis by (simp add: takeWhile_eq_all_conv[THEN iffD2] dropWhile_eq_Nil_conv[THEN iffD2])
next
  case False
  then obtain c where "c \<in> set x" "\<not> is_digit c" by blast
  then show ?thesis by (simp add: takeWhile_append1 dropWhile_append1)
qed

lemma num_safe_digits: "num_safe r \<Longrightarrow> takeWhile is_digit r = [] \<and> dropWhile is_digit r = r"
  by (cases r) (simp_all add: num_safe_def)

lemma lex_exp_append:
  assumes x: "lex_exp x = (ep, [])" and r: "num_safe r"
  shows "lex_exp (x @ r) = (ep, r)"
proof (cases x)
  case Nil
  with x r show ?thesis by (cases r) (simp_all add: lex_exp_def num_safe_def)
next
  case (Cons e xs)
  have e: "e = CHR ''e'' \<or> e = CHR ''E''"
    using x Cons by (auto simp: lex_exp_def split: if_splits)
  have ds: "dropWhile is_digit zs = [] \<Longrightarrow> dropWhile is_digit (zs @ r) = r \<and> takeWhile is_digit (zs @ r) = takeWhile is_digit zs" for zs
    using digits_append [OF r, of zs] by simp
  show ?thesis
  proof (cases xs)
    case Nil
    with x Cons e show ?thesis by (auto simp: lex_exp_def)
  next
    case (Cons y ys)
    show ?thesis
    proof (cases "y = CHR ''+'' \<or> y = CHR ''-''")
      case True
      show ?thesis
      proof (cases ys)
        case Nil
        with x \<open>x = e # xs\<close> Cons e True show ?thesis by (auto simp: lex_exp_def)
      next
        case (Cons d zs)
        with x \<open>x = e # xs\<close> \<open>xs = y # ys\<close> e True ds show ?thesis
          by (auto simp: lex_exp_def split: if_splits)
      qed
    next
      case False
      with x \<open>x = e # xs\<close> Cons e ds show ?thesis
        by (auto simp: lex_exp_def split: if_splits)
    qed
  qed
qed

lemma lex_exp_single: "lex_exp [c] \<noteq> (ep, [])"
  by (simp add: lex_exp_def)

lemma lex_frac_append:
  assumes x: "lex_frac x = (fp, y)" and y: "lex_exp y = (ep, [])" and r: "num_safe r"
  shows "lex_frac (x @ r) = (fp, y @ r)"
proof (cases x rule: remdups_adj.cases)
  case 1
  with x r show ?thesis by (cases r) (auto simp: lex_frac_def num_safe_def split: list.split)
next
  case (2 c)
  with x y show ?thesis by (auto simp: lex_frac_def lex_exp_single)
next
  case (3 c d rest)
  with x digits_append [OF r, of rest] show ?thesis
    by (auto simp: lex_frac_def split: if_splits)
qed

lemma lex_number_append:
  assumes s: "lex_number s = Some (t, [])" and r: "num_safe r"
  shows "lex_number (s @ r) = Some (t, r)"
proof -
  obtain neg s1 where sp: "(case s of c # x \<Rightarrow> if c = CHR ''-'' then (True, x) else (False, s) | [] \<Rightarrow> (False, s)) = (neg, s1)"
    by fastforce
  obtain c rest where s1: "s1 = c # rest" and c: "is_digit c"
    using s sp by (auto simp: lex_number_def split: list.splits if_splits)
  then have "s \<noteq> []" using sp by auto
  then have sp': "(case s @ r of c # x \<Rightarrow> if c = CHR ''-'' then (True, x) else (False, s @ r) | [] \<Rightarrow> (False, s @ r)) = (neg, s1 @ r)"
    using sp by (cases s) auto
  obtain ip r1 where ir: "(if c = CHR ''0'' then ([c], rest) else (c # takeWhile is_digit rest, dropWhile is_digit rest)) = (ip, r1)"
    by fastforce
  have ir': "(if c = CHR ''0'' then ([c], rest @ r) else (c # takeWhile is_digit (rest @ r), dropWhile is_digit (rest @ r))) = (ip, r1 @ r)"
    using ir digits_append [OF r, of rest] by (auto split: if_splits)
  obtain fp r2 where fr: "lex_frac r1 = (fp, r2)" by fastforce
  obtain ep r3 where er: "lex_exp r2 = (ep, r3)" by fastforce
  have r3: "r3 = []" and t: "t = (if fp = [] \<and> ep = [] then TInt (if neg then - int (read_nat ip) else int (read_nat ip))
                           else TFloat ((if neg then ''-'' else []) @ ip @ fp @ ep))"
    using s by (auto simp: lex_number_def sp s1 c ir fr er split: if_splits)
  have fr': "lex_frac (r1 @ r) = (fp, r2 @ r)" using lex_frac_append [OF fr _ r] er r3 by simp
  have er': "lex_exp (r2 @ r) = (ep, r)" using lex_exp_append [OF _ r] er r3 by simp
  show ?thesis by (simp add: lex_number_def sp' s1 c ir' fr' er' t)
qed

lemma lex_number_show_nat:
  "lex_number ((if b then ''-'' else []) @ show_nat n) = Some (TInt (if b then - int n else int n), [])"
proof -
  obtain c cs where sn: "show_nat n = c # cs" by (cases "show_nat n") simp_all
  have dc: "is_digit c" and dcs: "\<forall>x\<in>set cs. is_digit x"
    using show_nat_digits [of _ n] sn by auto
  have nm: "c \<noteq> CHR ''-''" using dc by (auto simp: is_digit_def)
  have rd: "read_nat (c # cs) = n" using read_show_nat [of n] sn by simp
  have ip: "(if c = CHR ''0'' then ([c], cs) else (c # takeWhile is_digit cs, dropWhile is_digit cs)) = (c # cs, [])"
  proof (cases "n = 0")
    case True
    then show ?thesis using sn by (simp add: digit_char_def)
  next
    case False
    then have "c \<noteq> CHR ''0''" using show_nat_leading [of n] sn by simp
    then show ?thesis using dcs by (simp add: takeWhile_eq_all_conv[THEN iffD2] dropWhile_eq_Nil_conv[THEN iffD2])
  qed
  show ?thesis
    using ip by (cases b) (simp_all add: lex_number_def sn dc nm rd lex_frac_def lex_exp_def)
qed

lemma lex_number_show_int: "lex_number (show_int i) = Some (TInt i, [])"
  using lex_number_show_nat [of "i < 0" "nat \<bar>i\<bar>"] by (simp add: show_int_def split: if_splits)


section \<open>Lexing the output\<close>

lemma lex_ws: "list_all is_ws w \<Longrightarrow> tokenize (w @ r) = tokenize r"
  by (induction w) (simp_all add: tokenize_ws)

lemma lex_newline_indent [simp]: "tokenize (newline_indent n @ r) = tokenize r"
  using lex_ws [of "newline_indent n" r] by (simp add: newline_indent_def is_ws_def list_all_iff)

lemma lex_dump_str: "tokenize (dump_str s @ r) = tok (TString s) (tokenize r)"
  by (simp add: dump_str_def scan_string_dump tokenize_str)

lemma lex_number_start:
  assumes "lex_number s = Some x"
  obtains c cs where "s = c # cs" "c = CHR ''-'' \<or> is_digit c"
  using assms by (cases s) (auto simp: lex_number_def split: if_splits list.splits)

lemma lex_lexeme:
  assumes "lex_number s = Some (t, [])" and "num_safe r"
  shows "tokenize (s @ r) = tok t (tokenize r)"
proof -
  obtain c cs where s: "s = c # cs" and c: "c = CHR ''-'' \<or> is_digit c"
    using assms(1) by (rule lex_number_start)
  have n: "lex_number (c # cs @ r) = Some (t, r)" using lex_number_append [OF assms] s by simp
  show ?thesis using tokenize_number [OF c n] s by simp
qed

text \<open>The literals \<open>1e-n\<close> decode to the float of that lexeme.\<close>

lemma lex_number_exp:
  "lex_number (''1e-'' @ show_nat n) = Some (TFloat (''1e-'' @ show_nat n), [])"
proof -
  obtain c cs where sn: "show_nat n = c # cs" by (cases "show_nat n") simp_all
  have dc: "is_digit c" and dcs: "\<forall>x\<in>set cs. is_digit x"
    using show_nat_digits [of _ n] sn by auto
  have tw: "takeWhile is_digit cs = cs" "dropWhile is_digit cs = []"
    using dcs by (simp_all add: takeWhile_eq_all_conv dropWhile_eq_Nil_conv)
  show ?thesis
    by (simp add: lex_number_def lex_frac_def lex_exp_def sn dc [unfolded is_digit_def] tw is_digit_def)
qed

lemma loads_exp_float: "loads (''1e-'' @ show_nat n) = Some (JFloat (''1e-'' @ show_nat n))"
  using lex_lexeme [OF lex_number_exp, of "[]" n]
  by (simp add: loads_def num_safe_def tok_def tokenize.simps)

lemma lex_float:
  assumes "float_ok (JFloat s)" and "num_safe r"
  shows "tokenize (s @ r) = tok (TFloat s) (tokenize r)"
  using assms lex_lexeme [of s "TFloat s" r] by (auto simp: tokenize_neg_infinity)

lemma lex_int: "num_safe r \<Longrightarrow> tokenize (show_int i @ r) = tok (TInt i) (tokenize r)"
  by (rule lex_lexeme [OF lex_number_show_int])

lemma num_safe_sep [simp]: "num_safe (CHR '','' # r)" "num_safe (newline_indent n @ r)"
  by (simp_all add: num_safe_def newline_indent_def is_digit_def)

lemma lex_join:
  assumes "\<And>x r. x \<in> set xs \<Longrightarrow> num_safe r \<Longrightarrow> tokenize (f x @ r) = map_option ((@) (g x)) (tokenize r)"
    and "xs \<noteq> []" and "num_safe r"
  shows "tokenize (join ('','' @ newline_indent m) (map f xs) @ r) = map_option ((@) (commas (map g xs))) (tokenize r)"
  using assms
proof (induction xs rule: induct_list012)
  case 1
  then show ?case by simp
next
  case (2 x)
  then show ?case by simp
next
  case (3 x y zs)
  have "tokenize (join ('','' @ newline_indent m) (map f (y # zs)) @ r) = map_option ((@) (commas (map g (y # zs)))) (tokenize r)"
    using 3 by simp
  then show ?case using "3.prems"(1) [of x] by (simp add: tok_def option.map_comp comp_def is_ws_def)
qed

lemma tokenize_dumps:
  "float_ok v \<Longrightarrow> num_safe r \<Longrightarrow> tokenize (dumps n v @ r) = map_option ((@) (tokens_of v)) (tokenize r)"
proof (induction n v arbitrary: r rule: dumps.induct)
  case (1 n)
  then show ?case by (simp add: tok_def is_ws_def)
next
  case (2 n b)
  then show ?case by (cases b) (simp_all add: tok_def)
next
  case (3 n i)
  then show ?case by (simp add: lex_int tok_def)
next
  case (4 n s)
  then show ?case by (simp add: lex_float tok_def)
next
  case (5 n s)
  then show ?case by (simp add: lex_dump_str tok_def)
next
  case (6 n xs)
  show ?case
  proof (cases "xs = []")
    case True
    then show ?thesis by (simp add: tok_def is_ws_def option.map_comp comp_def)
  next
    case False
    have j: "tokenize (join ('','' @ newline_indent (Suc n)) (map (dumps (Suc n)) xs) @ newline_indent n @ '']'' @ r) =
             map_option ((@) (commas (map tokens_of xs))) (tokenize (newline_indent n @ '']'' @ r))"
      by (rule lex_join) (use 6 False in \<open>auto simp: list_all_iff\<close>)
    show ?thesis using False j by (simp add: tok_def is_ws_def option.map_comp comp_def)
  qed
next
  case (7 n kvs)
  show ?case
  proof (cases "kvs = []")
    case True
    then show ?thesis by (simp add: tok_def is_ws_def option.map_comp comp_def)
  next
    case False
    have item: "tokenize ((\<lambda>(k, v). dump_str k @ '': '' @ dumps (Suc n) v) kv @ r') =
                map_option ((@) ((\<lambda>(k, v). TString k # TColon # tokens_of v) kv)) (tokenize r')"
      if "kv \<in> set kvs" "num_safe r'" for kv r'
    proof -
      obtain k v where kv: "kv = (k, v)" by fastforce
      have "tokenize (dumps (Suc n) v @ r') = map_option ((@) (tokens_of v)) (tokenize r')"
        using 7 False that kv by (auto simp: list_all_iff)
      then show ?thesis
        by (simp add: kv lex_dump_str tok_def is_ws_def option.map_comp comp_def) (rule option.map_cong0, simp)
    qed
    have j: "tokenize (join ('','' @ newline_indent (Suc n))
               (map (\<lambda>(k, v). dump_str k @ '': '' @ dumps (Suc n) v) kvs) @ newline_indent n @ ''}'' @ r) =
             map_option ((@) (commas (map (\<lambda>(k, v). TString k # TColon # tokens_of v) kvs)))
               (tokenize (newline_indent n @ ''}'' @ r))"
      by (rule lex_join) (use item False in auto)
    show ?thesis using False j by (simp add: tok_def is_ws_def option.map_comp comp_def)
  qed
qed

section \<open>Parsing the tokens of a value\<close>

lemma dict_insert_new: "k \<notin> set (map fst kvs) \<Longrightarrow> dict_insert kvs k v = kvs @ [(k, v)]"
  by (simp add: dict_insert_def)

lemma parse_items_arr:
  assumes "\<forall>x\<in>set xs. \<forall>stk m ts. m = PValue \<or> m = PValueOrClose \<longrightarrow>
             parse_tokens stk m (tokens_of x @ ts) = (case attach x stk of (s', m') \<Rightarrow> parse_tokens s' m' ts)"
    and "xs \<noteq> []" and "m = PValue \<or> m = PValueOrClose"
  shows "parse_tokens (FArr acc # stk) m (commas (map tokens_of xs) @ ts) = parse_tokens (FArr (rev xs @ acc) # stk) PAfter ts"
  using assms
proof (induction xs arbitrary: acc m rule: induct_list012)
  case 1
  then show ?case by simp
next
  case (2 x)
  have "parse_tokens (FArr acc # stk) m (tokens_of x @ ts) =
        (case attach x (FArr acc # stk) of (s', m') \<Rightarrow> parse_tokens s' m' ts)"
    by (rule "2.prems"(1) [rule_format]) (use "2.prems"(3) in simp_all)
  then show ?case by simp
next
  case (3 x y zs)
  have "parse_tokens (FArr (x # acc) # stk) PValue (commas (map tokens_of (y # zs)) @ ts) =
        parse_tokens (FArr (rev (y # zs) @ x # acc) # stk) PAfter ts"
    by (rule "3.IH"(2)) (use "3.prems" in auto)
  then show ?case using "3.prems" by auto
qed

lemma parse_items_obj:
  assumes "\<forall>(k, v)\<in>set kvs. \<forall>stk m ts. m = PValue \<or> m = PValueOrClose \<longrightarrow>
             parse_tokens stk m (tokens_of v @ ts) = (case attach v stk of (s', m') \<Rightarrow> parse_tokens s' m' ts)"
    and "kvs \<noteq> []" and "distinct (map fst (acc @ kvs))" and "m = PKey \<or> m = PKeyOrClose"
  shows "parse_tokens (FObj acc kk # stk) m (commas (map (\<lambda>(k, v). TString k # TColon # tokens_of v) kvs) @ ts) =
         parse_tokens (FObj (acc @ kvs) (fst (last kvs)) # stk) PAfter ts"
  using assms
proof (induction kvs arbitrary: acc m kk rule: induct_list012)
  case 1
  then show ?case by simp
next
  case (2 kv)
  obtain k v where kv: "kv = (k, v)" by fastforce
  show ?case using "2.prems" kv by (auto simp: dict_insert_new)
next
  case (3 kv kv' zs)
  obtain k v where kv: "kv = (k, v)" by fastforce
  have "parse_tokens (FObj (acc @ [(k, v)]) k # stk) PKey
          (commas (map (\<lambda>(k, v). TString k # TColon # tokens_of v) (kv' # zs)) @ ts) =
        parse_tokens (FObj ((acc @ [(k, v)]) @ kv' # zs) (fst (last (kv' # zs))) # stk) PAfter ts"
    by (rule "3.IH"(2)) (use "3.prems" kv in auto)
  then show ?case using "3.prems" kv by (auto simp: dict_insert_new)
qed

lemma parse_value:
  "wf_json v \<Longrightarrow> m = PValue \<or> m = PValueOrClose \<Longrightarrow>
   parse_tokens stk m (tokens_of v @ ts) = (case attach v stk of (s', m') \<Rightarrow> parse_tokens s' m' ts)"
proof (induction v arbitrary: stk m ts rule: tokens_of.induct)
  case (6 xs)
  show ?case
  proof (cases "xs = []")
    case True
    with "6.prems"(2) show ?thesis by auto
  next
    case False
    have "parse_tokens (FArr [] # stk) PValueOrClose (commas (map tokens_of xs) @ TRBrack # ts) =
          parse_tokens (FArr (rev xs @ []) # stk) PAfter (TRBrack # ts)"
      by (rule parse_items_arr) (use 6 False in \<open>auto simp: list_all_iff\<close>)
    with "6.prems"(2) show ?thesis by auto
  qed
next
  case (7 kvs)
  show ?case
  proof (cases "kvs = []")
    case True
    with "7.prems"(2) show ?thesis by auto
  next
    case False
    have "parse_tokens (FObj [] [] # stk) PKeyOrClose
            (commas (map (\<lambda>(k, v). TString k # TColon # tokens_of v) kvs) @ TRBrace # ts) =
          parse_tokens (FObj ([] @ kvs) (fst (last kvs)) # stk) PAfter (TRBrace # ts)"
      by (rule parse_items_obj) (use 7 False in \<open>fastforce simp: list_all_iff\<close>)+
    with "7.prems"(2) show ?thesis by auto
  qed
qed (auto split: prod.split)


lemma tokenize_pretty: "float_ok v \<Longrightarrow> tokenize (pretty v) = Some (tokens_of v)"
  using tokenize_dumps [of v "[]" 0] by (simp add: pretty_def num_safe_def)

lemma parse_tokens_of: "wf_json v \<Longrightarrow> parse_tokens [] PValue (tokens_of v) = Some v"
  using parse_value [of v PValue "[]" "[]"] by simp

section \<open>Round trip\<close>

text \<open>C27: What \<open>pretty\<close> prints, \<open>resp.json()\<close> reads back: for every well-formed value whose floats are written as JSON number lexemes (or \<open>NaN\<close>, \<open>Infinity\<close>, \<open>-Infinity\<close>), \<open>json.loads(pretty(v)) == v\<close>, key order included.\<close>

theorem loads_pretty:
  assumes "wf_json v" and "float_ok v"
  shows "loads (pretty v) = Some v"
  using assms by (simp add: loads_def tokenize_pretty parse_tokens_of)

lemma loads_pretty_witness:
  "wf_json (JObj [(''name'', JStr ''Zo\<newline>e''), (''deg'', JFloat ''12.5e0''), (''xs'', JArr [JInt (-3), JNull, JObj []])]) \<and>
   float_ok (JObj [(''name'', JStr ''Zo\<newline>e''), (''deg'', JFloat ''12.5e0''), (''xs'', JArr [JInt (-3), JNull, JObj []])]) \<and>
   loads (pretty (JObj [(''name'', JStr ''Zo\<newline>e''), (''deg'', JFloat ''12.5e0''), (''xs'', JArr [JInt (-3), JNull, JObj []])])) =
     Some (JObj [(''name'', JStr ''Zo\<newline>e''), (''deg'', JFloat ''12.5e0''), (''xs'', JArr [JInt (-3), JNull, JObj []])])"
proof -
  have w: "wf_json (JObj [(''name'', JStr ''Zo\<newline>e''), (''deg'', JFloat ''12.5e0''), (''xs'', JArr [JInt (-3), JNull, JObj []])])"
    by simp
  have f: "float_ok (JObj [(''name'', JStr ''Zo\<newline>e''), (''deg'', JFloat ''12.5e0''), (''xs'', JArr [JInt (-3), JNull, JObj []])])"
    by (simp add: py_simps)
  show ?thesis using w f loads_pretty [OF w f] by simp
qed

end
