(* ===== verification/Spec2Isabelle.thy ===== *)
theory Spec2Isabelle
  imports Layout Dispatch Json_Encode
begin

text \<open>
  \<^bold>\<open>A verification development of \<open>src/app.py\<close>.\<close>

  \<open>src/app.py\<close> is a Streamlit front end for an astrology-profile backend.  Its parts are:
  the sidebar configuration (\<open>BASE_URL\<close> from \<open>API_BASE_URL\<close>, the API token,
  lines 28--38); three helpers, \<open>get_headers\<close> (lines 50--58), \<open>show_response\<close>
  (lines 60--78) and \<open>make_request\<close> (lines 80--103); the \<open>if/elif\<close> chain on the
  selected action with one handler per action (lines 121--266), each rendering a button
  that, when pressed, sends one request through \<open>make_request\<close> and shows the answer
  through \<open>show_response\<close> behind \<open>if resp:\<close>; and the sidebar health check (lines
  274--286).  Streamlit reruns the whole script on every interaction, so a session is a
  sequence of runs, each a function of the sidebar values, the widget values and the
  button pressed.

  \<^bold>\<open>Theories.\<close>
  \<^item> \<open>Prelude\<close>: the simp collection \<open>py_simps\<close>, Python's \<open>str(int)\<close>, \<open>%02d\<close>
    padding, \<open>str.upper\<close>, UTF-8 and \<open>len\<close> of a \<open>str\<close>, the emoji literals.
  \<^item> \<open>Json\<close>: the Python values \<open>resp.json()\<close> returns (\<open>json\<close>, dicts as
    association lists in insertion order), with truthiness, \<open>len\<close>, \<open>dict.get\<close>,
    subscription, \<open>str\<close> and \<open>repr\<close>, each raising the Python exception the source would.
  \<^item> \<open>Json_Decode\<close>: \<open>resp.json()\<close>, i.e. CPython's \<open>json.loads\<close>, as a lexer
    (\<open>next_token\<close>, one step of CPython's \<open>scan_once\<close>, iterated by \<open>tokenize\<close>,
    total by a length measure) and a stack machine (\<open>parse_tokens\<close>,
    structural); \<open>loads\<close> returns \<open>None\<close> where \<open>json.loads\<close> raises.
  \<^item> \<open>Json_Encode\<close>: \<open>pretty\<close> (lines 43--48), i.e. \<open>json.dumps\<close> with
    \<open>indent=2\<close> and \<open>ensure_ascii=False\<close> (\<open>dumps\<close>, \<open>dump_str\<close>), and its
    round trip through \<open>loads\<close>; \<open>pretty\<close> is never called by the program, which
    shows bodies with \<open>st.json\<close>.
  \<^item> \<open>Requests\<close>: the \<open>requests\<close> surface: a \<open>request\<close> record per call, a
    \<open>response\<close> record, the exception classes with their base classes, and the network
    as an arbitrary function \<open>network\<close> from request to outcome; \<open>resp_ok\<close> is
    \<open>Response.__bool__\<close>.
  \<^item> \<open>Streamlit\<close>: the state \<open>st\<close> of one run (elements rendered in the main area and
    the sidebar, requests made, the spinner showing and the spinner each request was sent
    under), the output operations and \<open>with_spinner\<close>, the \<open>with st.spinner\<close> block.
  \<^item> \<open>Adapter\<close>: \<open>config\<close>, \<open>get_headers\<close>, \<open>show_response\<close>, \<open>make_request\<close>
    (split into \<open>method_of\<close>, the verb chain, \<open>send\<close>, the \<open>try\<close> body, and
    \<open>request_failure\<close>, the \<open>except\<close> clauses in source order), and the Latin-1
    encoding of the headers that can make \<open>requests\<close> raise \<open>UnicodeEncodeError\<close>.
  \<^item> \<open>Dispatch\<close>: the contract of section 4.1 of the specification (\<open>dispatch\<close>,
    one outcome per call, failures classified as in section 7) and the refinement lemma
    that \<open>make_request\<close> realises it.
  \<^item> \<open>Actions\<close>: the widget values \<open>inputs\<close>, the payload of Create/Update User
    (\<open>build_payload\<close>), one definition per handler (\<open>view_all_users\<close>,
    \<open>get_user_by_id\<close>, \<open>save_user\<close>, \<open>get_placements\<close>, \<open>big_three\<close>,
    \<open>gen_booklet\<close>, \<open>gen_calendar\<close>, \<open>health_check\<close>), the action chain
    \<open>main_section\<close> and one run \<open>run_script\<close>, which returns the uncaught exception
    that ends the run, if any, and the page.
  \<^item> \<open>Interface\<close>: the interface table of the specification (\<open>spec_route\<close>), the
    request it prescribes (\<open>route_request\<close>), and which branch renders which button.
  \<^item> \<open>Session\<close>: a session as a step function \<open>session_step\<close> (a sidebar edit, a
    widget edit or a click, each followed by a rerun under an arbitrary network) and the
    reachable sessions as an inductive predicate.
  \<^item> \<open>Layout\<close>: the page setup (\<open>st.set_option\<close>, \<open>st.set_page_config\<close>, lines
    11--20) and the static items of a run (title, select box, the selected action's
    subheader, widgets and button, the footer, the sidebar's configuration inputs and health
    check button), with the widgets' arguments and bounds (\<open>page_main\<close>,
    \<open>page_side\<close>, \<open>run_layout\<close>).

  \<^bold>\<open>What is proved.\<close>  The helpers on every branch (C1, C2, C6--C10, C14):
  \<open>make_request\<close> sends each of GET, POST, PUT and DELETE (in any letter case) with that
  verb and makes no call for any other method, the headers, the unsupported method, the
  branches of \<open>show_response\<close>, and that a connect timeout is reported as a connection
  failure; the refinement of the specification's dispatch, whose verb table is its own, by
  \<open>make_request\<close> (C26).  The handlers (C3, C4, C11, C12, C18--C22, C25, C29, C31,
  C32): the payload's keys and values and its date and time layout, the first-name check,
  the save's request, the outcomes of View All Users (a body \<open>1e-n\<close> is falsy, Python
  reading it as \<open>0.0\<close>, exactly when \<open>n \<ge> 324\<close>), Get Big Three, the PDF handlers and the health
  check, the uncaught exceptions included, and the \<open>UnicodeEncodeError\<close> of a save whose
  token has a character outside Latin-1.  Whole runs (C5, C13, C16, C17, C23, C24): the
  request made for a pressed button is exactly the specification's table entry; at most one
  request per run; no output without a click; since \<open>if resp:\<close> is false for statuses
  400--599, an error status is never shown anywhere; a run ends with an exception only as a
  \<open>TypeError\<close> in View All Users, an \<open>AttributeError\<close> in Get Big Three or a
  \<open>UnicodeEncodeError\<close> in the save; an unreachable backend gives one error message and
  no fault for every button whose headers can be written.  Sessions (C15, C28, C30), by rule
  induction over the reachable sessions: the token is only sent with the save, the base URL
  is read again at every request, and only the 120-second PDF requests are sent under a
  spinner, none of which is left showing.  JSON (C27): \<open>loads (pretty v) = Some v\<close> for
  every well-formed value whose floats are number lexemes.

  \<^bold>\<open>Errors.\<close>  Every Python exception of the program is a value: \<open>Inl\<close> of
  \<open>py_exc + 'a\<close> for the operations on decoded values (\<open>len\<close>, \<open>.get\<close>,
  subscription), for \<open>make_request\<close> (the \<open>UnicodeEncodeError\<close> that
  \<open>http.client\<close> raises for a header value outside Latin-1 escapes its \<open>except\<close>
  clauses) and for every handler, which passes it on as Python does; \<open>run_script\<close>
  returns the exception that ends the run.  The exceptions of \<open>requests\<close> are the
  network's \<open>Raised\<close> outcomes, caught by \<open>make_request\<close>; for headers that cannot be
  written, only a failure that \<open>requests\<close> meets before writing them (preparing the
  URL and headers, choosing the adapter, opening a TLS connection) is reported instead.

  \<^bold>\<open>Bounds and fuel.\<close>  None is needed: the lexer terminates by the length of its
  input, the parser is structural on the token list, and every handler makes at most one
  request; nothing is assumed of the network, which every lemma quantifies over.  Floats
  are compared to zero exactly, on the rational value of their lexeme.

  \<^bold>\<open>Not modelled.\<close>  The animation of the spinner (only its message and when
  it shows are modelled), the visual effect of the page options, and the widget internals
  of Streamlit beyond their arguments, values and bounds; a session lets the health check
  button be clicked after a run that raised, a superset of the clicks a user can make,
  which keeps its invariants sound.  Python's shortest float printing (a float is kept as
  its JSON lexeme, in \<open>repr\<close> and in \<open>pretty\<close>; its truthiness is its value's);
  CPython's recursion limit for deeply nested JSON and its limit on the digits of an
  \<open>int\<close>; the replacement of invalid UTF-8 in \<open>resp.text\<close>; proxies taken from the
  environment; non-ASCII whitespace before the URL's scheme; the transport of
  \<open>requests\<close>, which is part of the network.
\<close>

text \<open>Concrete inputs used by the witnesses.\<close>

definition inputs_user7 :: inputs where
  "inputs_user7 = \<lparr>action = ''Get User by ID'', user_id = 7, year_in = 2026, form = mara_form\<rparr>"


section \<open>Properties of whole runs\<close>



text \<open>C24: When the backend is unreachable, pressing any visible button (a save with a first name and headers that can be written) makes the one request of the interface table, shows one error message naming the failure, and ends the run normally: the failure is never an unhandled fault.\<close>

lemma transport_failure_reported:
  assumes "button_shown b inp"
    and "b = BSaveUser \<longrightarrow> first_name (form inp) \<noteq> [] \<and> headers_latin1 (get_headers cfg True)"
  shows "fst (run_script (\<lambda>_. Raised ex) cfg inp (Some b)) = None \<and>
         main_out (snd (run_script (\<lambda>_. Raised ex) cfg inp (Some b))) = [Error (request_failure cfg ex)] \<and>
         side_out (snd (run_script (\<lambda>_. Raised ex) cfg inp (Some b))) = [] \<and>
         calls (snd (run_script (\<lambda>_. Raised ex) cfg inp (Some b))) = [route_request cfg inp (spec_route b inp)]"
  using assms
  by (cases ex; cases b) (simp_all add: run_script_def main_section_def button_shown_def view_all_users_def
      get_user_by_id_def fetch_and_show_def save_user_eq get_placements_def big_three_def gen_booklet_def
      gen_calendar_def gen_pdf_def health_check_def user_url_def with_spinner_def Let_def del: headers_latin1_get_headers)

lemma transport_failure_reported_witness:
  "fst (run_script (\<lambda>_. Raised (ReqExc ConnectionError ''refused'')) (initial_config None) inputs_user7 (Some BFetchUser)) = None \<and>
   main_out (snd (run_script (\<lambda>_. Raised (ReqExc ConnectionError ''refused'')) (initial_config None) inputs_user7 (Some BFetchUser))) =
     [Error (cross_mark @ '' Connection failed. Is the backend running at http://localhost:8010?'')] \<and>
   calls (snd (run_script (\<lambda>_. Raised (ReqExc ConnectionError ''refused'')) (initial_config None) inputs_user7 (Some BFetchUser))) =
     [route_request (initial_config None) inputs_user7 (Route GET ''/users/7'' 10 False)]"
proof -
  have "button_shown BFetchUser inputs_user7" by (simp add: button_shown_def inputs_user7_def)
  from transport_failure_reported [OF this, where ex = "ReqExc ConnectionError ''refused''" and cfg = "initial_config None"]
  show ?thesis
    by (simp add: inputs_user7_def request_failure_def initial_config_def default_base_url_def py_simps
        del: run_script_def)
qed

text \<open>C16: A run triggered by a widget change, with no button pressed, renders nothing and makes no request.\<close>

lemma run_script_no_click: "run_script net cfg inp None = (None, st_empty)"
  by (simp add: run_script_def main_section_unpressed)

text \<open>C17: Every run of the script makes at most one HTTP request.\<close>

lemma run_script_at_most_one_call: "length (calls (snd (run_script net cfg inp clk))) \<le> 1"
  by (simp add: calls_run_script main_section_def view_all_users_calls get_user_by_id_calls save_user_calls_all
      get_placements_calls big_three_calls gen_booklet_calls gen_calendar_calls main_section_unpressed)

text \<open>C5: Pressing a visible button makes exactly the request of the spec's interface table (section 6): its method, \<open>BASE_URL\<close> followed by its path and query, its timeout, the authenticated headers only for the save, and the payload as body only for the POST.\<close>

lemma route_table:
  assumes "button_shown b inp" and "b = BSaveUser \<longrightarrow> first_name (form inp) \<noteq> []"
  shows "calls (snd (run_script net cfg inp (Some b))) = [route_request cfg inp (spec_route b inp)]"
  using assms
  by (cases b) (simp_all add: calls_run_script button_shown_def main_section_def user_url_def
      view_all_users_calls get_user_by_id_calls save_user_calls_all get_placements_calls big_three_calls
      gen_booklet_calls gen_calendar_calls)

lemma route_table_witness:
  "calls (snd (run_script (\<lambda>_. Raised (ReqExc ConnectionError [])) (initial_config None) inputs_user7 (Some BFetchUser))) =
   [route_request (initial_config None) inputs_user7 (Route GET ''/users/7'' 10 False)]"
proof -
  have "calls (snd (run_script (\<lambda>_. Raised (ReqExc ConnectionError [])) (initial_config None) inputs_user7 (Some BFetchUser))) =
        [route_request (initial_config None) inputs_user7 (spec_route BFetchUser inputs_user7)]"
    by (rule route_table) (simp_all add: button_shown_def inputs_user7_def)
  then show ?thesis by (simp add: inputs_user7_def py_simps)
qed

text \<open>C13: When every request is answered with a status from 400 to 599, nothing is displayed in the main area or the sidebar, apart from the client-side check of the first name, and no run ends with an exception except a save whose headers cannot be written.\<close>

theorem error_statuses_silent:
  assumes rej: "\<And>rq. \<not> resp_ok (f rq)"
  shows "fst (run_script (\<lambda>rq. Responded (f rq)) cfg inp clk) =
           (if clk = Some BSaveUser \<and> action inp = ''Create/Update User'' \<and> first_name (form inp) \<noteq> [] \<and>
               \<not> headers_latin1 (get_headers cfg True)
            then Some UnicodeEncodeError else None) \<and>
         main_out (snd (run_script (\<lambda>rq. Responded (f rq)) cfg inp clk)) =
           (if clk = Some BSaveUser \<and> action inp = ''Create/Update User'' \<and> first_name (form inp) = []
            then [Error ''First name is required!''] else []) \<and>
         side_out (snd (run_script (\<lambda>rq. Responded (f rq)) cfg inp clk)) = []"
proof -
  let ?net = "\<lambda>rq. Responded (f rq)"
  have main: "fst (main_section ?net cfg inp clk st_empty) =
        (if clk = Some BSaveUser \<and> action inp = ''Create/Update User'' \<and> first_name (form inp) \<noteq> [] \<and>
            \<not> headers_latin1 (get_headers cfg True)
         then Inl UnicodeEncodeError else Inr ()) \<and>
      main_out (snd (main_section ?net cfg inp clk st_empty)) =
        (if clk = Some BSaveUser \<and> action inp = ''Create/Update User'' \<and> first_name (form inp) = []
         then [Error ''First name is required!''] else []) \<and>
      side_out (snd (main_section ?net cfg inp clk st_empty)) = []"
    by (simp add: main_section_def silent_save_user [OF rej] silent_view_all_users [OF rej] silent_big_three [OF rej]
        get_user_by_id_def get_placements_def gen_booklet_def gen_calendar_def
        silent_fetch_and_show [OF rej] silent_gen_pdf [OF rej] del: resp_ok_iff headers_latin1_get_headers)
  then show ?thesis
    by (auto simp: fst_run_script snd_run_script silent_health_check [OF rej]
        simp del: resp_ok_iff headers_latin1_get_headers split: if_splits)
qed

lemma error_statuses_silent_witness:
  "fst (run_script (\<lambda>_. Responded \<lparr>status_code = 404, resp_text = ''{\"detail\":\"User not found\"}''\<rparr>)
          (initial_config None) inputs_user7 (Some BFetchUser)) = None \<and>
   main_out (snd (run_script (\<lambda>_. Responded \<lparr>status_code = 404, resp_text = ''{\"detail\":\"User not found\"}''\<rparr>)
          (initial_config None) inputs_user7 (Some BFetchUser))) = [] \<and>
   side_out (snd (run_script (\<lambda>_. Responded \<lparr>status_code = 404, resp_text = ''{\"detail\":\"User not found\"}''\<rparr>)
          (initial_config None) inputs_user7 (Some BFetchUser))) = []"
  using error_statuses_silent [where f = "\<lambda>_. \<lparr>status_code = 404, resp_text = ''{\"detail\":\"User not found\"}''\<rparr>"
      and cfg = "initial_config None" and inp = inputs_user7 and clk = "Some BFetchUser"]
  by simp

text \<open>C32: A response body \<open>1e-n\<close> decodes to a float that Python reads as \<open>0.0\<close>
  exactly when \<open>n \<ge> 324\<close> (correct rounding: \<open>1e-324\<close> is below half the least
  subnormal, \<open>1e-323\<close> is not).  View All Users shows it either way; from 324 on the
  value is falsy and the run goes on, below it \<open>len\<close> of the float raises \<open>TypeError\<close>.\<close>

theorem view_all_users_tiny_float:
  assumes "net (users_req cfg) = Responded r" and "status_code r < 400"
    and "resp_text r = ''1e-'' @ show_nat n"
  shows "view_all_users net cfg True s =
           (if 324 \<le> n then Inr () else Inl TypeError,
            emit (JsonView (JFloat (''1e-'' @ show_nat n))) (record_call (users_req cfg) s))"
proof -
  have "resp_json r = Some (JFloat (''1e-'' @ show_nat n))"
    using assms(3) loads_exp_float by (simp add: resp_json_def)
  then show ?thesis
    using assms(1,2) float_is_zero_exp [of n] by (simp add: view_all_users_def show_response_def)
qed

lemma view_all_users_tiny_float_witness:
  "view_all_users (\<lambda>_. Responded \<lparr>status_code = 200, resp_text = ''1e-'' @ show_nat 400\<rparr>) (initial_config None) True st_empty =
     (Inr (), emit (JsonView (JFloat (''1e-'' @ show_nat 400))) (record_call (users_req (initial_config None)) st_empty)) \<and>
   view_all_users (\<lambda>_. Responded \<lparr>status_code = 200, resp_text = ''1e-'' @ show_nat 323\<rparr>) (initial_config None) True st_empty =
     (Inl TypeError, emit (JsonView (JFloat (''1e-'' @ show_nat 323))) (record_call (users_req (initial_config None)) st_empty))"
  using view_all_users_tiny_float [where r = "\<lparr>status_code = 200, resp_text = ''1e-'' @ show_nat 400\<rparr>" and n = 400
      and net = "\<lambda>_. Responded \<lparr>status_code = 200, resp_text = ''1e-'' @ show_nat 400\<rparr>" and cfg = "initial_config None" and s = st_empty]
    view_all_users_tiny_float [where r = "\<lparr>status_code = 200, resp_text = ''1e-'' @ show_nat 323\<rparr>" and n = 323
      and net = "\<lambda>_. Responded \<lparr>status_code = 200, resp_text = ''1e-'' @ show_nat 323\<rparr>" and cfg = "initial_config None" and s = st_empty]
  by simp

end
